theory Spec2Isabelle
  imports Complex_Main
begin

section \<open>Floats, errors and categories\<close>

text \<open>
  Python floats are modelled as exact reals extended by \<open>+inf\<close>, the one non-finite
  value the program itself produces (\<open>float('inf')\<close> in the disabled fibre thresholds).
  Rounding and NaN are outside the model.
\<close>

datatype fl = Fin real | PInf

instantiation fl :: linorder
begin

definition less_eq_fl :: "fl \<Rightarrow> fl \<Rightarrow> bool" where
  "less_eq_fl a b =
     (case b of PInf \<Rightarrow> True
      | Fin y \<Rightarrow> (case a of PInf \<Rightarrow> False | Fin x \<Rightarrow> x \<le> y))"

definition less_fl :: "fl \<Rightarrow> fl \<Rightarrow> bool" where
  "less_fl a b = (a \<le> b \<and> \<not> b \<le> (a::fl))"

instance
proof
  fix x y z :: fl
  show "(x < y) = (x \<le> y \<and> \<not> y \<le> x)"
    by (simp add: less_fl_def)
  show "x \<le> x"
    by (simp add: less_eq_fl_def split: fl.splits)
  show "x \<le> y \<Longrightarrow> y \<le> z \<Longrightarrow> x \<le> z"
    by (auto simp: less_eq_fl_def split: fl.splits)
  show "x \<le> y \<Longrightarrow> y \<le> x \<Longrightarrow> x = y"
    by (auto simp: less_eq_fl_def split: fl.splits)
  show "x \<le> y \<or> y \<le> x"
    by (auto simp: less_eq_fl_def split: fl.splits)
qed

end

datatype py_error =
  OverflowError | ValueError | ZeroDivisionError | AttributeError | IndexError | TypeError

datatype Category = BEVERAGE | DAIRY_BEVERAGE | FOOD | DAIRY_FOOD | OILS_AND_SPREADS | CHEESE

text \<open>Python's \<open>int(x)\<close> on a finite float truncates toward zero.\<close>

definition py_int :: "real \<Rightarrow> int" where
  "py_int x = (if 0 \<le> x then \<lfloor>x\<rfloor> else \<lceil>x\<rceil>)"

section \<open>Threshold lookup\<close>

text \<open>
  \<open>bisect.bisect_left(a, x)\<close> of the Python standard library: the loop
  \<^verbatim>\<open>while lo < hi: mid = (lo + hi) // 2; if a[mid] < x: lo = mid + 1 else: hi = mid\<close>
  started at \<open>lo = 0\<close>, \<open>hi = len(a)\<close>. Every index read is below \<open>hi\<close>.
\<close>

function bisect_left_loop :: "fl list \<Rightarrow> fl \<Rightarrow> nat \<Rightarrow> nat \<Rightarrow> nat" where
  "bisect_left_loop a x lo hi =
     (if lo < hi then
        (let mid = (lo + hi) div 2 in
         if a ! mid < x then bisect_left_loop a x (mid + 1) hi
         else bisect_left_loop a x lo mid)
      else lo)"
  by pat_completeness auto
termination
  by (relation "measure (\<lambda>(a, x, lo, hi). hi - lo)") auto

declare bisect_left_loop.simps [simp del]

definition bisect_left :: "fl list \<Rightarrow> fl \<Rightarrow> nat" where
  "bisect_left a x = bisect_left_loop a x 0 (length a)"

text \<open>\<open>HSRCalculator._get_points_by_thresholds\<close>.\<close>

definition get_points_by_thresholds :: "fl \<Rightarrow> fl list \<Rightarrow> int" where
  "get_points_by_thresholds v thresholds =
     (case thresholds of
        [] \<Rightarrow> 0
      | t0 # _ \<Rightarrow>
          if t0 = PInf then 0
          else min (int (bisect_left thresholds v)) (int (length thresholds) - 1))"

text \<open>
  The lookup as the specification words it: the number of thresholds less than or equal
  to the value, capped at the highest index.
\<close>

definition spec_points :: "fl \<Rightarrow> fl list \<Rightarrow> int" where
  "spec_points v thresholds =
     min (int (length (filter (\<lambda>t. t \<le> v) thresholds))) (int (length thresholds) - 1)"

section \<open>Strings\<close>

text \<open>
  Food names are taken over ASCII. \<open>lower\<close> is \<open>str.lower\<close>, \<open>py_in sub s\<close> is the
  substring test \<open>sub in s\<close>.
\<close>

definition lower_char :: "char \<Rightarrow> char" where
  "lower_char c =
     (let n = (of_char c :: nat) in if 65 \<le> n \<and> n \<le> 90 then char_of (n + 32) else c)"

definition lower :: "string \<Rightarrow> string" where
  "lower s = map lower_char s"

fun starts_with :: "string \<Rightarrow> string \<Rightarrow> bool" where
  "starts_with [] s = True"
| "starts_with (p # ps) [] = False"
| "starts_with (p # ps) (c # cs) = (p = c \<and> starts_with ps cs)"

fun py_in :: "string \<Rightarrow> string \<Rightarrow> bool" where
  "py_in sub [] = (sub = [])"
| "py_in sub (c # cs) = (starts_with sub (c # cs) \<or> py_in sub cs)"

text \<open>\<open>any(term in name for term in terms)\<close>.\<close>

definition any_in :: "string list \<Rightarrow> string \<Rightarrow> bool" where
  "any_in terms name = list_ex (\<lambda>term. py_in term name) terms"

text \<open>
  The regular expression \<open>\bKEYWORD\b\<close> searched with \<open>re.IGNORECASE\<close>. A word
  character is a letter, a digit or the underscore; \<open>\b\<close> holds between two positions
  exactly one of which is a word character, the outside of the text counting as none.
\<close>

definition is_word_char :: "char \<Rightarrow> bool" where
  "is_word_char c =
     (let n = (of_char c :: nat) in
      (48 \<le> n \<and> n \<le> 57) \<or> (65 \<le> n \<and> n \<le> 90) \<or> n = 95 \<or> (97 \<le> n \<and> n \<le> 122))"

definition word_boundary :: "char option \<Rightarrow> char option \<Rightarrow> bool" where
  "word_boundary left right =
     ((case left of None \<Rightarrow> False | Some c \<Rightarrow> is_word_char c) \<noteq>
      (case right of None \<Rightarrow> False | Some c \<Rightarrow> is_word_char c))"

definition head_opt :: "string \<Rightarrow> char option" where
  "head_opt s = (case s of [] \<Rightarrow> None | c # _ \<Rightarrow> Some c)"

text \<open>
  A match of the pattern starting at the current position: \<open>prev\<close> is the character
  before it, \<open>rest\<close> the text from it on.
\<close>

definition match_here :: "string \<Rightarrow> char option \<Rightarrow> string \<Rightarrow> bool" where
  "match_here keyword prev rest =
     (starts_with (lower keyword) (lower (take (length keyword) rest)) \<and>
      length keyword \<le> length rest \<and>
      word_boundary prev (head_opt rest) \<and>
      word_boundary (if keyword = [] then prev else Some (rest ! (length keyword - 1)))
        (head_opt (drop (length keyword) rest)))"

fun search_from :: "string \<Rightarrow> char option \<Rightarrow> string \<Rightarrow> bool" where
  "search_from keyword prev [] = match_here keyword prev []"
| "search_from keyword prev (c # cs) =
     (match_here keyword prev (c # cs) \<or> search_from keyword (Some c) cs)"

definition re_search_word :: "string \<Rightarrow> string \<Rightarrow> bool" where
  "re_search_word keyword text = search_from keyword None text"

section \<open>Threshold provider\<close>

text \<open>\<open>NutritionalContext\<close> and \<open>HSRThresholds\<close> of \<open>threshold_provider.py\<close>.\<close>

record NutritionalContext =
  is_natural_sugar_dominant :: bool
  has_added_sugars :: bool
  satiety_index :: real
  processing_level :: string
  liquid_percentage :: real
  fiber_density :: real
  protein_quality_score :: real
  fvnl_naturalness :: real

record HSRThresholds =
  thr_energy_density :: "fl list"
  thr_sugar_natural :: "fl list"
  thr_sugar_added :: "fl list"
  thr_saturated_fat :: "fl list"
  thr_sodium :: "fl list"
  thr_fvnl :: "fl list"
  thr_protein :: "fl list"
  thr_fiber :: "fl list"
  thr_star_rating :: "fl list"
  base_stars :: real

definition ENERGY_DENSITY_THRESHOLDS :: "fl list" where
  "ENERGY_DENSITY_THRESHOLDS = map Fin [0, 50, 100, 150, 200, 250, 300, 400, 500, 600, 700]"

definition NATURAL_SUGAR_THRESHOLDS :: "fl list" where
  "NATURAL_SUGAR_THRESHOLDS = map Fin [0, 5, 8, 12, 15, 18, 22, 25, 28, 32, 35]"

definition ADDED_SUGAR_THRESHOLDS :: "fl list" where
  "ADDED_SUGAR_THRESHOLDS = map Fin [0, 1, 2, 3, 4, 5, 6, 8, 10, 12, 15]"

definition SATURATED_FAT_THRESHOLDS :: "fl list" where
  "SATURATED_FAT_THRESHOLDS = map Fin [0, 1, 2, 3, 4, 5, 7, 9, 12, 15, 20]"

definition SODIUM_THRESHOLDS :: "fl list" where
  "SODIUM_THRESHOLDS = map Fin [0, 100, 200, 300, 400, 500, 600, 800, 1000, 1200, 1500]"

definition FVNL_THRESHOLDS :: "fl list" where
  "FVNL_THRESHOLDS = map Fin [0, 25, 40, 50, 60, 67, 75, 80, 90, 95, 100]"

definition PROTEIN_THRESHOLDS :: "fl list" where
  "PROTEIN_THRESHOLDS = map Fin [0, 3, 6, 10, 15, 20, 25, 30, 35, 40, 50]"

definition FIBER_THRESHOLDS :: "fl list" where
  "FIBER_THRESHOLDS = map Fin [0, 1, 2, 3, 4, 5, 6, 8, 10, 12, 15]"

definition STAR_RATING_THRESHOLDS :: "fl list" where
  "STAR_RATING_THRESHOLDS = map Fin [-10, -5, 0, 5, 10, 15, 20, 25, 30, 35, 40]"

text \<open>
  A list comprehension whose element expression may raise: the first exception ends it.
\<close>

fun map_raise :: "('a \<Rightarrow> py_error + 'b) \<Rightarrow> 'a list \<Rightarrow> py_error + 'b list" where
  "map_raise f [] = Inr []"
| "map_raise f (x # xs) =
     (case f x of
        Inl e \<Rightarrow> Inl e
      | Inr y \<Rightarrow> (case map_raise f xs of Inl e \<Rightarrow> Inl e | Inr ys \<Rightarrow> Inr (y # ys)))"

definition bind_raise :: "py_error + 'a \<Rightarrow> ('a \<Rightarrow> py_error + 'b) \<Rightarrow> py_error + 'b" where
  "bind_raise r f = (case r of Inl e \<Rightarrow> Inl e | Inr x \<Rightarrow> f x)"

text \<open>
  \<open>int(threshold * factor)\<close>: on an infinite threshold the product is infinite, or NaN
  when the factor is 0, and \<open>int\<close> raises OverflowError, respectively ValueError.
\<close>

definition int_times :: "real \<Rightarrow> fl \<Rightarrow> py_error + fl" where
  "int_times factor threshold =
     (case threshold of
        Fin t \<Rightarrow> Inr (Fin (of_int (py_int (t * factor))))
      | PInf \<Rightarrow> if factor = 0 then Inl ValueError else Inl OverflowError)"

text \<open>
  \<open>int(threshold / q)\<close>, reached only with \<open>q > 1.0\<close>: an infinite threshold stays
  infinite and \<open>int\<close> raises OverflowError.
\<close>

definition int_divide :: "real \<Rightarrow> fl \<Rightarrow> py_error + fl" where
  "int_divide q threshold =
     (case threshold of
        Fin t \<Rightarrow> Inr (Fin (of_int (py_int (t / q))))
      | PInf \<Rightarrow> Inl OverflowError)"

text \<open>The four steps of \<open>ThresholdProvider._apply_contextual_adjustments\<close>, in order.\<close>

definition adjust_satiety :: "NutritionalContext \<Rightarrow> HSRThresholds \<Rightarrow> py_error + HSRThresholds" where
  "adjust_satiety context thresholds =
     (if satiety_index context \<noteq> 1 then
        bind_raise (map_raise (int_times (satiety_index context)) (thr_energy_density thresholds))
          (\<lambda>l. Inr (thresholds\<lparr>thr_energy_density := l\<rparr>))
      else Inr thresholds)"

definition adjust_ultra_processed :: "NutritionalContext \<Rightarrow> HSRThresholds \<Rightarrow> py_error + HSRThresholds" where
  "adjust_ultra_processed context thresholds =
     (if processing_level context = ''ultra_processed'' then
        bind_raise (map_raise (int_times 0.8) (thr_sugar_added thresholds))
          (\<lambda>l. Inr (thresholds\<lparr>thr_sugar_added := l\<rparr>))
      else Inr thresholds)"

definition adjust_liquid :: "NutritionalContext \<Rightarrow> HSRThresholds \<Rightarrow> py_error + HSRThresholds" where
  "adjust_liquid context thresholds =
     (if liquid_percentage context > 0.3 then
        (let liquid_factor = 1 - liquid_percentage context * 0.3 in
         bind_raise (map_raise (int_times liquid_factor) (thr_energy_density thresholds))
           (\<lambda>e. bind_raise (map_raise (int_times liquid_factor) (thr_sugar_natural thresholds))
             (\<lambda>s. Inr (thresholds\<lparr>thr_energy_density := e, thr_sugar_natural := s\<rparr>))))
      else Inr thresholds)"

definition adjust_protein_quality :: "NutritionalContext \<Rightarrow> HSRThresholds \<Rightarrow> py_error + HSRThresholds" where
  "adjust_protein_quality context thresholds =
     (if protein_quality_score context > 1 then
        bind_raise (map_raise (int_divide (protein_quality_score context)) (thr_protein thresholds))
          (\<lambda>l. Inr (thresholds\<lparr>thr_protein := l\<rparr>))
      else Inr thresholds)"

definition apply_contextual_adjustments ::
  "HSRThresholds \<Rightarrow> NutritionalContext \<Rightarrow> py_error + HSRThresholds" where
  "apply_contextual_adjustments thresholds context =
     bind_raise (adjust_satiety context thresholds)
       (\<lambda>t1. bind_raise (adjust_ultra_processed context t1)
         (\<lambda>t2. bind_raise (adjust_liquid context t2)
           (\<lambda>t3. adjust_protein_quality context t3)))"

text \<open>
  \<open>ThresholdProvider._apply_category_adjustments\<close>. No conversion to \<open>int\<close> here, so an
  infinite threshold passes through: \<open>max(0, inf - 2)\<close> and \<open>inf + 50\<close> are \<open>inf\<close>.
\<close>

definition cheese_protein :: "fl \<Rightarrow> fl" where
  "cheese_protein threshold = (case threshold of Fin t \<Rightarrow> Fin (max 0 (t - 2)) | PInf \<Rightarrow> PInf)"

definition oils_energy :: "fl \<Rightarrow> fl" where
  "oils_energy threshold = (case threshold of Fin t \<Rightarrow> Fin (t + 50) | PInf \<Rightarrow> PInf)"

definition apply_category_adjustments :: "HSRThresholds \<Rightarrow> Category \<Rightarrow> HSRThresholds" where
  "apply_category_adjustments thresholds category =
     (if category = CHEESE then
        thresholds\<lparr>thr_protein := map cheese_protein (thr_protein thresholds)\<rparr>
      else if category \<in> {BEVERAGE, DAIRY_BEVERAGE} then
        thresholds\<lparr>thr_fiber := replicate (length (thr_fiber thresholds)) PInf\<rparr>
      else if category = OILS_AND_SPREADS then
        thresholds\<lparr>thr_energy_density := map oils_energy (thr_energy_density thresholds)\<rparr>
      else thresholds)"

definition base_thresholds :: HSRThresholds where
  "base_thresholds =
     \<lparr>thr_energy_density = ENERGY_DENSITY_THRESHOLDS,
      thr_sugar_natural = NATURAL_SUGAR_THRESHOLDS,
      thr_sugar_added = ADDED_SUGAR_THRESHOLDS,
      thr_saturated_fat = SATURATED_FAT_THRESHOLDS,
      thr_sodium = SODIUM_THRESHOLDS,
      thr_fvnl = FVNL_THRESHOLDS,
      thr_protein = PROTEIN_THRESHOLDS,
      thr_fiber = FIBER_THRESHOLDS,
      thr_star_rating = STAR_RATING_THRESHOLDS,
      base_stars = 0\<rparr>"

text \<open>
  \<open>ThresholdProvider.get_thresholds\<close>. The context argument is optional; a dataclass
  instance is always truthy, so the adjustments are skipped for \<open>None\<close> only.
\<close>

definition get_thresholds :: "Category \<Rightarrow> NutritionalContext option \<Rightarrow> py_error + HSRThresholds" where
  "get_thresholds category nutritional_context =
     bind_raise
       (case nutritional_context of
          Some context \<Rightarrow> apply_contextual_adjustments base_thresholds context
        | None \<Rightarrow> Inr base_thresholds)
       (\<lambda>thresholds. Inr (apply_category_adjustments thresholds category))"

section \<open>Nutritional context analysis\<close>

text \<open>
  One entry of \<open>foods_info\<close>, the list of dictionaries that
  \<open>HSRCalculator._analyze_meal_context\<close> passes to the threshold provider. Every
  dictionary has all eight keys, so the defaults of \<open>food.get\<close> are never used.
\<close>

record food_info =
  fi_food_id :: int
  fi_food_name :: string
  fi_serving_size :: real
  fi_food_group_id :: "int option"
  fi_food_form :: string
  fi_processing_level :: string
  fi_has_added_sugars :: bool
  fi_protein_content :: real

text \<open>\<open>food.get('food_group_id') in groups\<close>; \<open>None\<close> is in no list of group ids.\<close>

definition group_in :: "int option \<Rightarrow> int list \<Rightarrow> bool" where
  "group_in g groups = (case g of None \<Rightarrow> False | Some i \<Rightarrow> i \<in> set groups)"

definition count_natural_sugar_foods :: "food_info list \<Rightarrow> nat" where
  "count_natural_sugar_foods foods_info =
     length (filter (\<lambda>food. group_in (fi_food_group_id food) [9, 11]) foods_info)"

definition count_processed_foods :: "food_info list \<Rightarrow> nat" where
  "count_processed_foods foods_info =
     length (filter (\<lambda>food. group_in (fi_food_group_id food) [1, 2, 3, 19]) foods_info)"

text \<open>\<open>ThresholdProvider._calculate_liquid_percentage\<close>.\<close>

definition calculate_liquid_percentage :: "food_info list \<Rightarrow> real" where
  "calculate_liquid_percentage foods_info =
     (if foods_info = [] then 0
      else
        (let total = (\<Sum>food\<leftarrow>foods_info. fi_serving_size food) in
         if total = 0 then 0
         else (\<Sum>food\<leftarrow>filter (\<lambda>food. fi_food_form food \<in> {''liquid'', ''beverage'', ''juice''})
                            foods_info. fi_serving_size food) / total))"

text \<open>\<open>ThresholdProvider._calculate_satiety_index\<close>; the two nutrient values are per 100 g.\<close>

definition calculate_satiety_index :: "real \<Rightarrow> real \<Rightarrow> food_info list \<Rightarrow> real" where
  "calculate_satiety_index protein_value fiber_value foods_info =
     (let s0 = 1;
          s1 = (if protein_value \<ge> 20 then s0 * 1.2
                else if protein_value \<ge> 15 then s0 * 1.15
                else if protein_value \<ge> 10 then s0 * 1.1 else s0);
          s2 = (if fiber_value \<ge> 10 then s1 * 1.2
                else if fiber_value \<ge> 6 then s1 * 1.15
                else if fiber_value \<ge> 3 then s1 * 1.1 else s1);
          liquid = calculate_liquid_percentage foods_info;
          s3 = (if liquid > 0.5 then s2 * 0.7 else if liquid > 0.2 then s2 * 0.85 else s2);
          ultra_processed_count =
            length (filter (\<lambda>food. fi_processing_level food = ''ultra_processed'') foods_info);
          s4 = (if real ultra_processed_count > real (length foods_info) / 2 then s3 * 0.9 else s3)
      in max 0.5 (min 1.5 s4))"

text \<open>\<open>ThresholdProvider._determine_processing_level\<close>.\<close>

definition processing_scores :: "string \<Rightarrow> int" where
  "processing_scores level =
     (if level = ''minimally_processed'' then 1
      else if level = ''processed'' then 2
      else if level = ''ultra_processed'' then 3
      else 1)"

definition determine_processing_level :: "food_info list \<Rightarrow> string" where
  "determine_processing_level foods_info =
     (if foods_info = [] then ''minimally_processed''
      else
        (let avg_processing =
               real_of_int (\<Sum>food\<leftarrow>foods_info. processing_scores (fi_processing_level food))
                 / real (length foods_info)
         in if avg_processing \<ge> 2.5 then ''ultra_processed''
            else if avg_processing \<ge> 1.5 then ''processed''
            else ''minimally_processed''))"

text \<open>\<open>ThresholdProvider._calculate_protein_quality_score\<close>.\<close>

definition calculate_protein_quality_score :: "food_info list \<Rightarrow> real" where
  "calculate_protein_quality_score foods_info =
     (if foods_info = [] then 1
      else
        (let total_protein_weight =
               (\<Sum>food\<leftarrow>foods_info. fi_serving_size food * fi_protein_content food / 100)
         in if total_protein_weight = 0 then 1
            else
              (let high_quality_protein =
                     (\<Sum>food\<leftarrow>filter (\<lambda>food. group_in (fi_food_group_id food) [5, 6, 7, 8, 15, 16])
                                  foods_info.
                        fi_serving_size food * fi_protein_content food / 100)
               in 1 + high_quality_protein / total_protein_weight * 0.2)))"

text \<open>\<open>ThresholdProvider._assess_fvnl_naturalness\<close>.\<close>

definition assess_fvnl_naturalness :: "food_info list \<Rightarrow> real" where
  "assess_fvnl_naturalness foods_info =
     (if foods_info = [] then 1
      else
        (let whole_fvnl_foods =
               length (filter (\<lambda>food. group_in (fi_food_group_id food) [9, 11, 12, 16] \<and>
                                       fi_processing_level food = ''minimally_processed'')
                         foods_info);
             total_fvnl_foods =
               length (filter (\<lambda>food. group_in (fi_food_group_id food) [9, 11, 12, 16]) foods_info)
         in if total_fvnl_foods = 0 then 1
            else real whole_fvnl_foods / real total_fvnl_foods))"

text \<open>
  \<open>ThresholdProvider.analyze_nutritional_context\<close>. Of the \<open>meal_nutrients\<close> dictionary
  it reads the keys \<open>protein\<close> and \<open>fiber\<close>.
\<close>

definition analyze_nutritional_context :: "real \<Rightarrow> real \<Rightarrow> food_info list \<Rightarrow> NutritionalContext" where
  "analyze_nutritional_context protein_value fiber_value foods_info =
     \<lparr>is_natural_sugar_dominant =
        (count_natural_sugar_foods foods_info > count_processed_foods foods_info),
      has_added_sugars = list_ex fi_has_added_sugars foods_info,
      satiety_index = calculate_satiety_index protein_value fiber_value foods_info,
      processing_level = determine_processing_level foods_info,
      liquid_percentage = calculate_liquid_percentage foods_info,
      fiber_density = fiber_value,
      protein_quality_score = calculate_protein_quality_score foods_info,
      fvnl_naturalness = assess_fvnl_naturalness foods_info\<rparr>"

section \<open>Food and meal\<close>

text \<open>
  \<open>Food\<close> of \<open>models/food.py\<close>. The fields \<open>fvnl_percent\<close>, \<open>category\<close>,
  \<open>category_confidence\<close> and \<open>category_source\<close> carry the prefix \<open>food_\<close> here, since
  \<open>Meal\<close> has fields of the same names.
\<close>

record Food =
  food_id :: int
  food_name :: string
  serving_size :: real
  nutrients :: "(string \<times> real) list"
  food_fvnl_percent :: real
  food_category :: "Category option"
  food_group_id :: "int option"
  food_category_confidence :: real
  food_category_source :: string

text \<open>\<open>food.nutrients.get(key, 0)\<close>.\<close>

definition nutrient :: "Food \<Rightarrow> string \<Rightarrow> real" where
  "nutrient food key = (case map_of (nutrients food) key of None \<Rightarrow> 0 | Some v \<Rightarrow> v)"

datatype analysis_value = AStr string | ANum real

text \<open>
  \<open>Meal\<close> of \<open>models/meal.py\<close>. The aggregated values are not dataclass fields: they are
  attributes that exist only once \<open>_calculate_nutritional_values\<close> or
  \<open>_set_zero_nutritional_values\<close> has assigned them. An attribute that was never assigned
  is \<open>None\<close> here, and reading it raises AttributeError.
\<close>

record Meal =
  foods :: "Food list"
  category :: "Category option"
  category_analysis :: "(string \<times> analysis_value) list"
  category_confidence :: real
  category_warnings :: "string list"
  total_weight :: "real option"
  energy_kilocalories :: "real option"
  energy_kj :: "real option"
  protein :: "real option"
  carbohydrate_total :: "real option"
  fibre_total_dietary :: "real option"
  sugars_total :: "real option"
  fat_total :: "real option"
  fatty_acids_saturated_total :: "real option"
  sodium :: "real option"
  calcium :: "real option"
  fvnl_percent :: "real option"

definition attr :: "'a option \<Rightarrow> py_error + 'a" where
  "attr a = (case a of None \<Rightarrow> Inl AttributeError | Some v \<Rightarrow> Inr v)"

text \<open>The object as the generated \<open>__init__\<close> leaves it, before \<open>__post_init__\<close> runs.\<close>

definition Meal_fields :: "Food list \<Rightarrow> Category option \<Rightarrow> Meal" where
  "Meal_fields fs cat =
     \<lparr>foods = fs, category = cat, category_analysis = [], category_confidence = 0,
      category_warnings = [],
      total_weight = None, energy_kilocalories = None, energy_kj = None, protein = None,
      carbohydrate_total = None, fibre_total_dietary = None, sugars_total = None,
      fat_total = None, fatty_acids_saturated_total = None, sodium = None, calcium = None,
      fvnl_percent = None\<rparr>"

text \<open>\<open>Meal._set_zero_nutritional_values\<close>: eleven assignments, \<open>total_weight\<close> not among them.\<close>

definition set_zero_nutritional_values :: "Meal \<Rightarrow> Meal" where
  "set_zero_nutritional_values self =
     self\<lparr>energy_kilocalories := Some 0, energy_kj := Some 0, protein := Some 0,
          carbohydrate_total := Some 0, fibre_total_dietary := Some 0, sugars_total := Some 0,
          fat_total := Some 0, fatty_acids_saturated_total := Some 0, sodium := Some 0,
          calcium := Some 0, fvnl_percent := Some 0\<rparr>"

text \<open>
  \<open>Meal._calculate_weighted_sum\<close> and \<open>Meal._calculate_fvnl_percent\<close>, called once
  \<open>total_weight\<close> is set; \<open>tw\<close> is its value.
\<close>

definition calculate_weighted_sum :: "Food list \<Rightarrow> real \<Rightarrow> string \<Rightarrow> real" where
  "calculate_weighted_sum fs tw nutrient_name =
     (if tw = 0 then 0
      else (\<Sum>food\<leftarrow>fs. nutrient food nutrient_name * serving_size food / 100) / (tw / 100))"

definition calculate_fvnl_percent :: "Food list \<Rightarrow> real \<Rightarrow> real" where
  "calculate_fvnl_percent fs tw =
     (if tw = 0 then 0
      else (\<Sum>food\<leftarrow>fs. serving_size food * (food_fvnl_percent food / 100)) / tw * 100)"

text \<open>
  \<open>Meal._calculate_nutritional_values\<close>. \<open>validate\<close> stands for the list of messages that
  \<open>_validate_nutritional_values\<close> builds from the computed values (formatted numbers);
  that method changes \<open>category_warnings\<close> only.
\<close>

definition calculate_nutritional_values :: "(Meal \<Rightarrow> string list) \<Rightarrow> Meal \<Rightarrow> Meal" where
  "calculate_nutritional_values validate self =
     (let tw = (\<Sum>food\<leftarrow>foods self. serving_size food);
          self1 = self\<lparr>total_weight := Some tw\<rparr>
      in if tw = 0 then
           set_zero_nutritional_values
             (self1\<lparr>category_warnings := category_warnings self1 @ [''Meal has zero total weight'']\<rparr>)
         else
           (let fs = foods self1;
                kcal = calculate_weighted_sum fs tw ''ENERGY (KILOCALORIES)'';
                self2 = self1\<lparr>
                  energy_kilocalories := Some kcal,
                  energy_kj := Some (kcal * 4.184),
                  protein := Some (calculate_weighted_sum fs tw ''PROTEIN''),
                  carbohydrate_total := Some (calculate_weighted_sum fs tw ''CARBOHYDRATE, TOTAL''),
                  fibre_total_dietary := Some (calculate_weighted_sum fs tw ''FIBRE, TOTAL DIETARY''),
                  sugars_total := Some (calculate_weighted_sum fs tw ''SUGARS, TOTAL''),
                  fat_total := Some (calculate_weighted_sum fs tw ''FAT, TOTAL''),
                  fatty_acids_saturated_total :=
                    Some (calculate_weighted_sum fs tw ''FATTY ACIDS, SATURATED, TOTAL''),
                  sodium := Some (calculate_weighted_sum fs tw ''SODIUM''),
                  calcium := Some (calculate_weighted_sum fs tw ''CALCIUM''),
                  fvnl_percent := Some (calculate_fvnl_percent fs tw)\<rparr>
            in self2\<lparr>category_warnings := category_warnings self2 @ validate self2\<rparr>))"

text \<open>
  \<open>Meal.__post_init__\<close>. The branch for an empty food list assigns four fields and
  returns. \<open>categorise\<close> stands for \<open>_validate_foods\<close> followed by \<open>_determine_category\<close>
  or \<open>_validate_provided_category\<close>, and \<open>finalise\<close> for \<open>_validate_final_categorization\<close>;
  both are run on a non-empty list only.
\<close>

definition post_init ::
  "(Meal \<Rightarrow> Meal) \<Rightarrow> (Meal \<Rightarrow> string list) \<Rightarrow> (Meal \<Rightarrow> Meal) \<Rightarrow> Meal \<Rightarrow> Meal" where
  "post_init categorise validate finalise self =
     (if foods self = [] then
        self\<lparr>category := Some FOOD,
             category_analysis := [(''reason'', AStr ''empty_meal''), (''confidence'', ANum 0)],
             category_confidence := 0,
             category_warnings := [''Empty meal - defaulting to FOOD category'']\<rparr>
      else finalise (calculate_nutritional_values validate (categorise self)))"

text \<open>The constructor call \<open>Meal(foods=fs, category=cat)\<close>.\<close>

definition new_Meal ::
  "(Meal \<Rightarrow> Meal) \<Rightarrow> (Meal \<Rightarrow> string list) \<Rightarrow> (Meal \<Rightarrow> Meal) \<Rightarrow>
   Food list \<Rightarrow> Category option \<Rightarrow> Meal" where
  "new_Meal categorise validate finalise fs cat =
     post_init categorise validate finalise (Meal_fields fs cat)"

section \<open>HSR calculator\<close>

record HSRConfig =
  use_scientific_thresholds :: bool
  differentiate_sugar_sources :: bool
  apply_satiety_adjustments :: bool
  use_unified_energy_approach :: bool
  consider_processing_level :: bool
  include_confidence_metrics :: bool
  detailed_explanations :: bool

record SugarAnalysis =
  total_sugars :: real
  natural_sugars :: real
  added_sugars :: real
  natural_percentage :: real
  sources :: "string list"

record HSRComponentScore =
  baseline_points :: int
  energy_points :: int
  saturated_fat_points :: int
  sugar_points :: int
  sodium_points :: int
  modifying_points :: int
  protein_points :: int
  fiber_points :: int
  fvnl_points :: int
  final_score :: int
  star_rating :: real
  sugar_natural_points :: int
  sugar_added_points :: int
  satiety_adjustment :: real
  processing_penalty :: real
  naturalness_bonus :: real
  scientific_confidence :: real

text \<open>The attributes of an \<open>HSRCalculator\<close> object, as \<open>__init__\<close> assigns them.\<close>

record HSRCalculator =
  meal :: Meal
  config :: HSRConfig
  nutritional_context :: NutritionalContext
  thresholds :: HSRThresholds
  sugar_analysis :: SugarAnalysis
  scores :: "HSRComponentScore option"

subsection \<open>Per-food helpers\<close>

definition determine_food_form :: "Food \<Rightarrow> string" where
  "determine_food_form food =
     (if group_in (food_group_id food) [14, 20] then ''liquid''
      else if py_in ''juice'' (lower (food_name food)) \<or> py_in ''drink'' (lower (food_name food))
        then ''liquid''
      else if py_in ''soup'' (lower (food_name food)) \<or> py_in ''smoothie'' (lower (food_name food))
        then ''semi_liquid''
      else ''solid'')"

text \<open>\<open>HSRCalculator._determine_processing_level\<close>, the per-food label.\<close>

definition ultra_processed_indicators :: "string list" where
  "ultra_processed_indicators =
     [''flavoured'', ''flavored'', ''artificial'', ''enriched'', ''fortified'',
      ''instant'', ''ready-to-eat'', ''frozen meal'', ''snack'', ''candy'',
      ''soft drink'', ''energy drink'']"

definition processed_indicators :: "string list" where
  "processed_indicators =
     [''canned'', ''packaged'', ''preserved'', ''smoked'', ''cured'',
      ''bread'', ''cheese'', ''yogurt'']"

definition food_processing_level :: "Food \<Rightarrow> string" where
  "food_processing_level food =
     (let name = lower (food_name food) in
      if any_in ultra_processed_indicators name then ''ultra_processed''
      else if any_in processed_indicators name then ''processed''
      else ''minimally_processed'')"

definition food_has_added_sugars :: "Food \<Rightarrow> bool" where
  "food_has_added_sugars food =
     any_in [''sweetened'', ''sugar'', ''syrup'', ''honey'', ''flavoured'',
             ''dessert'', ''candy'', ''chocolate'', ''cake'', ''cookie'']
       (lower (food_name food))"

definition is_natural_sugar_source :: "Food \<Rightarrow> bool" where
  "is_natural_sugar_source food =
     (if group_in (food_group_id food) [9, 11] then True
      else any_in [''apple'', ''banana'', ''orange'', ''grape'', ''berry'', ''peach'', ''pear'']
             (lower (food_name food)) \<and>
           \<not> py_in ''juice'' (lower (food_name food)))"

definition estimate_natural_sugar_ratio :: "Food \<Rightarrow> real" where
  "estimate_natural_sugar_ratio food =
     (let name = lower (food_name food) in
      if group_in (food_group_id food) [9, 11] then 0.9
      else if py_in ''fruit'' name \<and> \<not> py_in ''juice'' name then 0.8
      else if food_group_id food = Some 1 then 0.7
      else if py_in ''whole'' name \<or> py_in ''raw'' name then 0.8
      else if any_in [''candy'', ''dessert'', ''cake'', ''cookie''] name then 0.1
      else if py_in ''sweetened'' name then 0.3
      else 0.5)"

subsection \<open>Construction\<close>

text \<open>The dictionary that \<open>_analyze_meal_context\<close> builds for one food.\<close>

definition food_info_of :: "Food \<Rightarrow> food_info" where
  "food_info_of food =
     \<lparr>fi_food_id = food_id food,
      fi_food_name = food_name food,
      fi_serving_size = serving_size food,
      fi_food_group_id = food_group_id food,
      fi_food_form = determine_food_form food,
      fi_processing_level = food_processing_level food,
      fi_has_added_sugars = food_has_added_sugars food,
      fi_protein_content = nutrient food ''PROTEIN''\<rparr>"

text \<open>
  \<open>HSRCalculator._analyze_meal_context\<close>. It reads six aggregated attributes of the meal
  before anything else, so a meal without them raises AttributeError.
\<close>

definition analyze_meal_context :: "Meal \<Rightarrow> py_error + NutritionalContext" where
  "analyze_meal_context m =
     bind_raise (attr (energy_kilocalories m)) (\<lambda>e.
     bind_raise (attr (protein m)) (\<lambda>p.
     bind_raise (attr (fibre_total_dietary m)) (\<lambda>f.
     bind_raise (attr (fatty_acids_saturated_total m)) (\<lambda>sf.
     bind_raise (attr (sodium m)) (\<lambda>na.
     bind_raise (attr (sugars_total m)) (\<lambda>su.
       Inr (analyze_nutritional_context p f (map food_info_of (foods m)))))))))"

text \<open>\<open>HSRCalculator._analyze_sugar_sources\<close>; the list of source labels is left out.\<close>

definition food_sugars :: "Food \<Rightarrow> real" where
  "food_sugars food = nutrient food ''SUGARS, TOTAL'' * serving_size food / 100"

definition food_natural_sugars :: "Food \<Rightarrow> real" where
  "food_natural_sugars food =
     (if is_natural_sugar_source food then food_sugars food
      else food_sugars food * estimate_natural_sugar_ratio food)"

definition food_added_sugars :: "Food \<Rightarrow> real" where
  "food_added_sugars food =
     (if is_natural_sugar_source food then 0
      else food_sugars food * (1 - estimate_natural_sugar_ratio food))"

definition analyze_sugar_sources :: "Meal \<Rightarrow> py_error + SugarAnalysis" where
  "analyze_sugar_sources m =
     bind_raise (attr (sugars_total m)) (\<lambda>total.
     (let natural = (\<Sum>food\<leftarrow>foods m. food_natural_sugars food);
          added = (\<Sum>food\<leftarrow>foods m. food_added_sugars food)
      in bind_raise (attr (total_weight m)) (\<lambda>tw.
         (let weight_factor = (if tw > 0 then tw / 100 else 1) in
          Inr \<lparr>total_sugars = total,
               natural_sugars = natural / weight_factor,
               added_sugars = added / weight_factor,
               natural_percentage =
                 (if natural + added > 0 then natural / (natural + added) * 100 else 0),
               sources = []\<rparr>))))"

definition default_config :: HSRConfig where
  "default_config =
     \<lparr>use_scientific_thresholds = True, differentiate_sugar_sources = True,
      apply_satiety_adjustments = True, use_unified_energy_approach = True,
      consider_processing_level = True, include_confidence_metrics = True,
      detailed_explanations = True\<rparr>"

text \<open>
  \<open>HSRCalculator.__init__\<close>. \<open>meal.category\<close> is passed to the threshold provider as it
  is; a meal built by \<open>Meal\<close> always has one, and \<open>None\<close> equals no category there, so it
  takes the last branch of the category adjustments like \<open>FOOD\<close>.
\<close>

definition new_HSRCalculator :: "Meal \<Rightarrow> HSRConfig \<Rightarrow> py_error + HSRCalculator" where
  "new_HSRCalculator m cfg =
     bind_raise (analyze_meal_context m) (\<lambda>context.
     bind_raise (get_thresholds (case category m of None \<Rightarrow> FOOD | Some c \<Rightarrow> c) (Some context))
       (\<lambda>th.
     bind_raise (analyze_sugar_sources m) (\<lambda>sugar.
       Inr \<lparr>meal = m, config = cfg, nutritional_context = context, thresholds = th,
            sugar_analysis = sugar, scores = None\<rparr>)))"

subsection \<open>Component points\<close>

definition get_energy_points :: "HSRCalculator \<Rightarrow> py_error + int" where
  "get_energy_points self =
     bind_raise (attr (energy_kilocalories (meal self))) (\<lambda>energy_density_kcal.
       if satiety_index (nutritional_context self) = 0 then Inl ZeroDivisionError
       else Inr (get_points_by_thresholds
                   (Fin (energy_density_kcal / satiety_index (nutritional_context self)))
                   (thr_energy_density (thresholds self))))"

definition get_saturated_fat_points :: "HSRCalculator \<Rightarrow> py_error + int" where
  "get_saturated_fat_points self =
     bind_raise (attr (fatty_acids_saturated_total (meal self))) (\<lambda>v.
       Inr (get_points_by_thresholds (Fin v) (thr_saturated_fat (thresholds self))))"

definition get_sugar_points :: "real \<Rightarrow> fl list \<Rightarrow> int" where
  "get_sugar_points sugar_amount ts = get_points_by_thresholds (Fin sugar_amount) ts"

definition get_sodium_points :: "HSRCalculator \<Rightarrow> py_error + int" where
  "get_sodium_points self =
     bind_raise (attr (sodium (meal self))) (\<lambda>v.
       Inr (get_points_by_thresholds (Fin v) (thr_sodium (thresholds self))))"

definition get_protein_points :: "HSRCalculator \<Rightarrow> py_error + int" where
  "get_protein_points self =
     bind_raise (attr (protein (meal self))) (\<lambda>v.
       Inr (get_points_by_thresholds
              (Fin (v * protein_quality_score (nutritional_context self)))
              (thr_protein (thresholds self))))"

definition get_fiber_points :: "HSRCalculator \<Rightarrow> py_error + int" where
  "get_fiber_points self =
     (if category (meal self) \<in> {Some BEVERAGE, Some DAIRY_BEVERAGE} then Inr 0
      else bind_raise (attr (fibre_total_dietary (meal self))) (\<lambda>v.
             Inr (get_points_by_thresholds (Fin v) (thr_fiber (thresholds self)))))"

definition get_fvnl_points :: "HSRCalculator \<Rightarrow> py_error + int" where
  "get_fvnl_points self =
     bind_raise (attr (fvnl_percent (meal self))) (\<lambda>v.
       Inr (get_points_by_thresholds
              (Fin (v * fvnl_naturalness (nutritional_context self)))
              (thr_fvnl (thresholds self))))"

subsection \<open>Adjustments, confidence and stars\<close>

definition calculate_satiety_adjustment :: "HSRCalculator \<Rightarrow> real" where
  "calculate_satiety_adjustment self =
     (if \<not> apply_satiety_adjustments (config self) then 0
      else max (-3) (min 3 ((satiety_index (nutritional_context self) - 1) * 2)))"

definition calculate_processing_penalty :: "HSRCalculator \<Rightarrow> real" where
  "calculate_processing_penalty self =
     (if \<not> consider_processing_level (config self) then 0
      else
        (let level = processing_level (nutritional_context self) in
         if level = ''minimally_processed'' then 0
         else if level = ''processed'' then 1
         else if level = ''ultra_processed'' then 2.5
         else 0))"

definition calculate_naturalness_bonus :: "HSRCalculator \<Rightarrow> real" where
  "calculate_naturalness_bonus self =
     (let b0 = 0;
          b1 = (if fvnl_naturalness (nutritional_context self) > 0.8 then b0 + 1
                else if fvnl_naturalness (nutritional_context self) > 0.6 then b0 + 0.5
                else b0);
          b2 = (if natural_percentage (sugar_analysis self) > 80 then b1 + 0.5 else b1)
      in - b2)"

definition calculate_confidence :: "HSRCalculator \<Rightarrow> py_error + real" where
  "calculate_confidence self =
     bind_raise (attr (protein (meal self))) (\<lambda>p.
     bind_raise (attr (fibre_total_dietary (meal self))) (\<lambda>f.
     bind_raise (attr (sodium (meal self))) (\<lambda>na.
       (let c0 = 1;
            c1 = (if p = 0 then c0 - 0.1 else c0);
            c2 = (if f = 0 then c1 - 0.1 else c1);
            c3 = (if na = 0 then c2 - 0.05 else c2);
            c4 = (if processing_level (nutritional_context self) = ''ultra_processed'' \<and>
                     liquid_percentage (nutritional_context self) > 0.5
                  then c3 - 0.1 else c3);
            c5 = (if category (meal self) = Some BEVERAGE \<and> p > 10 then c4 - 0.15 else c4)
        in Inr (max 0.5 c5)))))"

definition convert_to_star_rating :: "int \<Rightarrow> real" where
  "convert_to_star_rating score =
     (if score \<le> 0 then 5.0
      else if score \<le> 5 then 4.5
      else if score \<le> 10 then 4.0
      else if score \<le> 15 then 3.5
      else if score \<le> 20 then 3.0
      else if score \<le> 25 then 2.5
      else if score \<le> 30 then 2.0
      else if score \<le> 35 then 1.5
      else 1.0)"

subsection \<open>Component scores\<close>

text \<open>
  \<open>HSRCalculator._calculate_components\<close>. The object is returned with the score: the
  method and everything it calls read \<open>self\<close> and assign none of its attributes.
\<close>

definition calculate_components :: "HSRCalculator \<Rightarrow> py_error + HSRComponentScore \<times> HSRCalculator" where
  "calculate_components self =
     bind_raise (get_energy_points self) (\<lambda>energy.
     bind_raise (get_saturated_fat_points self) (\<lambda>saturated_fat.
     (let sugar_natural =
            get_sugar_points (natural_sugars (sugar_analysis self))
              (thr_sugar_natural (thresholds self));
          sugar_added =
            get_sugar_points (added_sugars (sugar_analysis self))
              (thr_sugar_added (thresholds self));
          sugar = py_int (real_of_int sugar_natural * 0.7 + real_of_int sugar_added * 1.3)
      in
     bind_raise (get_sodium_points self) (\<lambda>sodium_pts.
     (let baseline = energy + saturated_fat + sugar + sodium_pts in
     bind_raise (get_protein_points self) (\<lambda>protein_pts.
     bind_raise (get_fiber_points self) (\<lambda>fiber_pts.
     bind_raise (get_fvnl_points self) (\<lambda>fvnl_pts.
     (let modifying = protein_pts + fiber_pts + fvnl_pts;
          satiety = calculate_satiety_adjustment self;
          penalty = calculate_processing_penalty self;
          bonus = calculate_naturalness_bonus self;
          base_final_score = max 0 (baseline - modifying);
          adjusted_score = real_of_int base_final_score + satiety + penalty + bonus;
          final = max 0 (py_int adjusted_score);
          stars = convert_to_star_rating final
      in
     bind_raise (calculate_confidence self) (\<lambda>confidence.
       Inr (\<lparr>baseline_points = baseline, energy_points = energy,
             saturated_fat_points = saturated_fat, sugar_points = sugar,
             sodium_points = sodium_pts, modifying_points = modifying,
             protein_points = protein_pts, fiber_points = fiber_pts, fvnl_points = fvnl_pts,
             final_score = final, star_rating = stars,
             sugar_natural_points = sugar_natural, sugar_added_points = sugar_added,
             satiety_adjustment = satiety, processing_penalty = penalty,
             naturalness_bonus = bonus, scientific_confidence = confidence\<rparr>,
            self)))))))))))"

section \<open>Food group mapper\<close>

text \<open>\<open>FoodGroupMapper.FOOD_GROUP_MAPPINGS.get(group_id, Category.FOOD)\<close>.\<close>

definition FOOD_GROUP_MAPPINGS :: "int \<Rightarrow> Category" where
  "FOOD_GROUP_MAPPINGS group_id =
     (if group_id = 1 then DAIRY_FOOD
      else if group_id = 4 then OILS_AND_SPREADS
      else if group_id = 14 then BEVERAGE
      else FOOD)"

definition CHEESE_KEYWORDS :: "string list" where
  "CHEESE_KEYWORDS =
     [''cheese'', ''cheddar'', ''mozzarella'', ''parmesan'', ''brie'', ''camembert'',
      ''gouda'', ''swiss'', ''blue'', ''feta'', ''cottage cheese'', ''cream cheese'',
      ''ricotta'', ''provolone'', ''gruyere'']"

definition BEVERAGE_KEYWORDS :: "string list" where
  "BEVERAGE_KEYWORDS =
     [''juice'', ''drink'', ''beverage'', ''soda'', ''cola'', ''water'', ''tea'', ''coffee'',
      ''smoothie'', ''shake'', ''lemonade'', ''cocktail'', ''beer'', ''wine'', ''alcohol'']"

definition DAIRY_BEVERAGE_KEYWORDS :: "string list" where
  "DAIRY_BEVERAGE_KEYWORDS =
     [''milk'', ''yogurt drink'', ''kefir'', ''buttermilk'', ''chocolate milk'',
      ''flavoured milk'', ''milk shake'', ''dairy drink'']"

definition OIL_SPREAD_KEYWORDS :: "string list" where
  "OIL_SPREAD_KEYWORDS =
     [''oil'', ''butter'', ''margarine'', ''spread'', ''shortening'', ''lard'',
      ''ghee'', ''cooking fat'', ''vegetable oil'', ''olive oil'']"

text \<open>
  \<open>FoodGroupMapper._contains_keyword\<close>: the keyword sets are iterated until one pattern
  is found, so the order of iteration does not show in the result.
\<close>

definition contains_keyword :: "string \<Rightarrow> string list \<Rightarrow> bool" where
  "contains_keyword text keywords = list_ex (\<lambda>keyword. re_search_word keyword text) keywords"

text \<open>
  \<open>FoodGroupMapper.get_category\<close>; its parameters \<open>food_group_id\<close> and \<open>food_name\<close>
  are \<open>group_id\<close> and \<open>name\<close> here.
\<close>

definition get_category :: "int \<Rightarrow> string \<Rightarrow> Category" where
  "get_category group_id name =
     (let name_lower = lower name;
          base_category = FOOD_GROUP_MAPPINGS group_id
      in if group_id = 1 \<and> contains_keyword name_lower CHEESE_KEYWORDS then CHEESE
         else if group_id = 1 \<and> contains_keyword name_lower DAIRY_BEVERAGE_KEYWORDS
           then DAIRY_BEVERAGE
         else if group_id = 9 \<and> contains_keyword name_lower BEVERAGE_KEYWORDS
           then BEVERAGE
         else if group_id = 14 \<and> contains_keyword name_lower DAIRY_BEVERAGE_KEYWORDS
           then DAIRY_BEVERAGE
         else if contains_keyword name_lower OIL_SPREAD_KEYWORDS then OILS_AND_SPREADS
         else base_category)"

section \<open>Meal categorizer\<close>

text \<open>\<open>MealCategorizer._calculate_liquid_percentage\<close>, on the foods themselves.\<close>

definition liquid_weight_of :: "Food \<Rightarrow> real" where
  "liquid_weight_of food =
     (let name = lower (food_name food) in
      if any_in [''juice'', ''drink'', ''beverage'', ''milk'', ''water''] name then serving_size food
      else if py_in ''soup'' name then serving_size food * 0.7
      else 0)"

definition meal_liquid_percentage :: "Food list \<Rightarrow> real" where
  "meal_liquid_percentage fs =
     (let total = (\<Sum>food\<leftarrow>fs. serving_size food) in
      if total = 0 then 0 else (\<Sum>food\<leftarrow>fs. liquid_weight_of food) / total)"

text \<open>\<open>MealCategorizer._assess_overall_processing_level\<close>.\<close>

definition assess_food_score :: "Food \<Rightarrow> int" where
  "assess_food_score food =
     (let name = lower (food_name food) in
      if any_in [''raw'', ''fresh'', ''whole'', ''natural''] name then 1
      else if any_in [''canned'', ''frozen'', ''dried'', ''cooked''] name then 2
      else if any_in [''processed'', ''enriched'', ''flavored'', ''instant''] name then 3
      else 2)"

definition assess_overall_processing_level :: "Food list \<Rightarrow> string" where
  "assess_overall_processing_level fs =
     (let food_scores = map assess_food_score fs;
          avg_score = (if food_scores = [] then 2
                       else real_of_int (sum_list food_scores) / real (length food_scores))
      in if avg_score \<le> 1.3 then ''minimally_processed''
         else if avg_score \<le> 2.3 then ''processed''
         else ''ultra_processed'')"

text \<open>
  The dictionary returned by \<open>MealCategorizer._analyze_meal_nutrition\<close>, with the keys
  that hold the weighted nutrient values, the liquid percentage and the processing
  level. The descriptive labels and scores derived from them are left out; fitness
  scoring and tie-breaking do not read them.
\<close>

record nutrition =
  n_energy_kcal :: real
  n_protein :: real
  n_fat_total :: real
  n_saturated_fat :: real
  n_carbohydrates :: real
  n_sugars :: real
  n_fiber :: real
  n_sodium :: real
  n_total_weight :: real
  n_liquid_percentage :: real
  n_processing_level :: string

definition weighted_per_100g :: "Food list \<Rightarrow> real \<Rightarrow> string \<Rightarrow> real" where
  "weighted_per_100g fs tw key =
     (\<Sum>food\<leftarrow>fs. nutrient food key * serving_size food / 100) / (tw / 100)"

definition get_empty_nutrition_analysis :: nutrition where
  "get_empty_nutrition_analysis =
     \<lparr>n_energy_kcal = 0, n_protein = 0, n_fat_total = 0, n_saturated_fat = 0,
      n_carbohydrates = 0, n_sugars = 0, n_fiber = 0, n_sodium = 0, n_total_weight = 0,
      n_liquid_percentage = 0, n_processing_level = ''unknown''\<rparr>"

definition analyze_meal_nutrition :: "Food list \<Rightarrow> nutrition" where
  "analyze_meal_nutrition fs =
     (let total = (\<Sum>food\<leftarrow>fs. serving_size food) in
      if total = 0 then get_empty_nutrition_analysis
      else
        \<lparr>n_energy_kcal = weighted_per_100g fs total ''ENERGY (KILOCALORIES)'',
         n_protein = weighted_per_100g fs total ''PROTEIN'',
         n_fat_total = weighted_per_100g fs total ''FAT, TOTAL'',
         n_saturated_fat = weighted_per_100g fs total ''FATTY ACIDS, SATURATED, TOTAL'',
         n_carbohydrates = weighted_per_100g fs total ''CARBOHYDRATE, TOTAL'',
         n_sugars = weighted_per_100g fs total ''SUGARS, TOTAL'',
         n_fiber = weighted_per_100g fs total ''FIBRE, TOTAL DIETARY'',
         n_sodium = weighted_per_100g fs total ''SODIUM'',
         n_total_weight = total,
         n_liquid_percentage = meal_liquid_percentage fs,
         n_processing_level = assess_overall_processing_level fs\<rparr>)"

subsection \<open>Category fitness\<close>

datatype liquid_bound = liquid_percentage_min real | liquid_percentage_max real

record profile =
  expected_energy_range :: "real \<times> real"
  expected_protein_range :: "real \<times> real"
  expected_fat_range :: "real \<times> real"
  expected_liquid :: liquid_bound
  processing_tolerance :: string

text \<open>\<open>CATEGORY_NUTRITIONAL_PROFILES\<close>, in the order of the dictionary literal.\<close>

definition CATEGORY_NUTRITIONAL_PROFILES :: "(Category \<times> profile) list" where
  "CATEGORY_NUTRITIONAL_PROFILES =
     [(BEVERAGE,
       \<lparr>expected_energy_range = (0, 200), expected_protein_range = (0, 3),
        expected_fat_range = (0, 1), expected_liquid = liquid_percentage_min 0.8,
        processing_tolerance = ''processed''\<rparr>),
      (DAIRY_BEVERAGE,
       \<lparr>expected_energy_range = (30, 150), expected_protein_range = (2, 8),
        expected_fat_range = (0, 6), expected_liquid = liquid_percentage_min 0.7,
        processing_tolerance = ''processed''\<rparr>),
      (FOOD,
       \<lparr>expected_energy_range = (50, 800), expected_protein_range = (0, 50),
        expected_fat_range = (0, 50), expected_liquid = liquid_percentage_max 0.3,
        processing_tolerance = ''any''\<rparr>),
      (DAIRY_FOOD,
       \<lparr>expected_energy_range = (50, 400), expected_protein_range = (3, 30),
        expected_fat_range = (0, 25), expected_liquid = liquid_percentage_max 0.2,
        processing_tolerance = ''processed''\<rparr>),
      (CHEESE,
       \<lparr>expected_energy_range = (200, 450), expected_protein_range = (10, 35),
        expected_fat_range = (15, 35), expected_liquid = liquid_percentage_max 0.1,
        processing_tolerance = ''processed''\<rparr>),
      (OILS_AND_SPREADS,
       \<lparr>expected_energy_range = (300, 900), expected_protein_range = (0, 5),
        expected_fat_range = (30, 100), expected_liquid = liquid_percentage_max 0.2,
        processing_tolerance = ''any''\<rparr>)]"

text \<open>
  The score for a value against an expected range: full marks inside, a linear penalty
  outside, \<open>pen_low\<close> and \<open>pen_high\<close> giving the penalty for the distance to the range.
\<close>

definition range_score ::
  "real \<Rightarrow> real \<times> real \<Rightarrow> real \<Rightarrow> (real \<Rightarrow> real) \<Rightarrow> (real \<Rightarrow> real) \<Rightarrow> real" where
  "range_score full expected v pen_low pen_high =
     (if fst expected \<le> v \<and> v \<le> snd expected then full
      else if v < fst expected then max 0 (full - pen_low (fst expected - v))
      else max 0 (full - pen_high (v - snd expected)))"

definition liquid_score :: "liquid_bound \<Rightarrow> real \<Rightarrow> real" where
  "liquid_score bound liquid =
     (case bound of
        liquid_percentage_min lo \<Rightarrow> if liquid \<ge> lo then 25 else liquid / lo * 25
      | liquid_percentage_max hi \<Rightarrow> if liquid \<le> hi then 25 else max 0 (25 - (liquid - hi) * 50))"

definition processing_score :: "string \<Rightarrow> string \<Rightarrow> real" where
  "processing_score tolerance level =
     (if tolerance = ''any'' then 15
      else if tolerance = ''processed'' \<and> level \<noteq> ''ultra_processed'' then 15
      else if tolerance = ''minimally_processed'' \<and> level = ''minimally_processed'' then 15
      else if tolerance = ''processed'' \<and> level = ''ultra_processed'' then 10
      else 0)"

definition has_bonus :: "Category \<Rightarrow> nutrition \<Rightarrow> bool" where
  "has_bonus c n =
     (if c = CHEESE \<and> n_protein n \<ge> 15 \<and> n_fat_total n \<ge> 15 then True
      else if c \<in> {BEVERAGE, DAIRY_BEVERAGE} \<and> n_liquid_percentage n > 0.8 then True
      else if c = OILS_AND_SPREADS \<and> n_fat_total n > 50 then True
      else False)"

definition category_fitness_score :: "nutrition \<Rightarrow> Category \<Rightarrow> profile \<Rightarrow> real" where
  "category_fitness_score n c p =
     (let score =
            range_score 20 (expected_energy_range p) (n_energy_kcal n) (\<lambda>d. d / 10) (\<lambda>d. d / 20)
            + range_score 15 (expected_protein_range p) (n_protein n) (\<lambda>d. d * 2) (\<lambda>d. d / 2)
            + range_score 15 (expected_fat_range p) (n_fat_total n) (\<lambda>d. d * 2) (\<lambda>d. d / 3)
            + liquid_score (expected_liquid p) (n_liquid_percentage n)
            + processing_score (processing_tolerance p) (n_processing_level n);
          max_score = 20 + 15 + 15 + 25 + 15
      in if has_bonus c n then (score + 10) / (max_score + 10) else score / max_score)"

text \<open>\<open>MealCategorizer._evaluate_category_fitness\<close>: a dictionary, in insertion order.\<close>

definition evaluate_category_fitness :: "nutrition \<Rightarrow> (Category \<times> real) list" where
  "evaluate_category_fitness n =
     map (\<lambda>(c, p). (c, category_fitness_score n c p)) CATEGORY_NUTRITIONAL_PROFILES"

subsection \<open>Conflicts and tie-breaking\<close>

text \<open>The \<open>tie_breaker\<close> dictionary without its explanatory text.\<close>

record tie_breaker =
  rule_applied :: "string option"
  winner :: Category

text \<open>
  \<open>for category, _, _ in conflicts: if test(category): update; break\<close> - the first
  conflict whose category passes the test.
\<close>

definition first_conflict ::
  "(Category \<Rightarrow> bool) \<Rightarrow> (Category \<times> real \<times> real) list \<Rightarrow> Category option" where
  "first_conflict test conflicts = map_option fst (find (\<lambda>(c, s, d). test c) conflicts)"

text \<open>
  \<open>MealCategorizer._apply_tie_breaking_rules\<close>. Rules 1 to 3 are three \<open>if\<close> statements
  in a row, each overwriting the dictionary; rule 4 is guarded by
  \<open>rule_applied is None\<close>.
\<close>

definition apply_tie_breaking_rules ::
  "Category \<Rightarrow> (Category \<times> real \<times> real) list \<Rightarrow> Food list \<Rightarrow> tie_breaker" where
  "apply_tie_breaking_rules top_category conflicts fs =
     (let tb0 = \<lparr>rule_applied = None, winner = top_category\<rparr>;
          liquid = meal_liquid_percentage fs;
          tb1 = (if liquid > 0.6 then
                   (case first_conflict (\<lambda>c. c \<in> {BEVERAGE, DAIRY_BEVERAGE}) conflicts of
                      Some c \<Rightarrow> \<lparr>rule_applied = Some ''liquid_dominance'', winner = c\<rparr>
                    | None \<Rightarrow> tb0)
                 else tb0);
          n = analyze_meal_nutrition fs;
          tb2 = (if n_protein n \<ge> 15 \<and> n_fat_total n \<ge> 15 then
                   (case first_conflict (\<lambda>c. c \<in> {CHEESE, DAIRY_FOOD}) conflicts of
                      Some c \<Rightarrow> \<lparr>rule_applied = Some ''protein_fat_profile'',
                                winner = (if c = CHEESE then CHEESE else c)\<rparr>
                    | None \<Rightarrow> tb1)
                 else tb1);
          tb3 = (if n_energy_kcal n > 500 \<and> n_fat_total n > 40 then
                   (case first_conflict (\<lambda>c. c = OILS_AND_SPREADS) conflicts of
                      Some c \<Rightarrow> \<lparr>rule_applied = Some ''energy_density'', winner = OILS_AND_SPREADS\<rparr>
                    | None \<Rightarrow> tb2)
                 else tb2);
          tb4 = (if rule_applied tb3 = None then
                   (case first_conflict (\<lambda>c. c = FOOD) conflicts of
                      Some c \<Rightarrow> \<lparr>rule_applied = Some ''inclusive_default'', winner = FOOD\<rparr>
                    | None \<Rightarrow> tb3)
                 else tb3)
      in tb4)"

record conflict_resolution =
  has_conflicts :: bool
  conflicts_found :: "(Category \<times> real \<times> real) list"
  resolution_strategy :: string
  tie_breaker_used :: "tie_breaker option"
  top_category_found :: Category
  top_score :: real

text \<open>
  \<open>MealCategorizer._resolve_category_conflicts\<close>. \<open>sorted(..., reverse=True)\<close> is stable,
  as is \<open>sort_key\<close> on the negated score. Indexing an empty list raises IndexError.
\<close>

definition resolve_category_conflicts ::
  "Food list \<Rightarrow> (Category \<times> real) list \<Rightarrow> py_error + conflict_resolution" where
  "resolve_category_conflicts fs category_fitness =
     (case sort_key (\<lambda>(c, s). - s) category_fitness of
        [] \<Rightarrow> Inl IndexError
      | (top_c, top_s) # others \<Rightarrow>
          (let conflicts =
                 map (\<lambda>(c, s). (c, s, \<bar>s - top_s\<bar>))
                   (filter (\<lambda>(c, s). \<bar>s - top_s\<bar> < 0.15) others)
           in Inr \<lparr>has_conflicts = (conflicts \<noteq> []),
                   conflicts_found = conflicts,
                   resolution_strategy =
                     (if conflicts \<noteq> [] then ''conflict_resolution'' else ''clear_winner''),
                   tie_breaker_used =
                     (if conflicts \<noteq> [] then Some (apply_tie_breaking_rules top_c conflicts fs)
                      else None),
                   top_category_found = top_c,
                   top_score = top_s\<rparr>))"

text \<open>\<open>max(items, key=score)\<close>: the first item with the largest score.\<close>

fun max_by_score :: "(Category \<times> real) \<Rightarrow> (Category \<times> real) list \<Rightarrow> Category \<times> real" where
  "max_by_score best [] = best"
| "max_by_score best (x # xs) = max_by_score (if snd x > snd best then x else best) xs"

text \<open>\<open>MealCategorizer._select_scientifically_optimal_category\<close>.\<close>

definition select_scientifically_optimal_category ::
  "(Category \<times> real) list \<Rightarrow> conflict_resolution \<Rightarrow> py_error + Category" where
  "select_scientifically_optimal_category category_fitness resolution =
     (case (has_conflicts resolution, tie_breaker_used resolution) of
        (True, Some tb) \<Rightarrow> Inr (winner tb)
      | _ \<Rightarrow> (case category_fitness of
                [] \<Rightarrow> Inl ValueError
              | x # xs \<Rightarrow> Inr (fst (max_by_score x xs))))"

text \<open>
  The category recommended by \<open>MealCategorizer.determine_scientific_category\<close>: \<open>FOOD\<close>
  for no food, the food's own category for one food, the fitness analysis otherwise.
  For one food \<open>_analyze_single_food\<close> reads \<open>food.category.value\<close>, which raises
  AttributeError when the food has no category.
\<close>

definition recommended_category :: "Food list \<Rightarrow> py_error + Category option" where
  "recommended_category fs =
     (case fs of
        [] \<Rightarrow> Inr (Some FOOD)
      | [food] \<Rightarrow>
          (case food_category food of
             None \<Rightarrow> Inl AttributeError
           | Some c \<Rightarrow> Inr (Some c))
      | _ \<Rightarrow>
          (let nutritional_analysis = analyze_meal_nutrition fs;
               category_fitness = evaluate_category_fitness nutritional_analysis
           in bind_raise (resolve_category_conflicts fs category_fitness) (\<lambda>resolution.
              bind_raise (select_scientifically_optimal_category category_fitness resolution)
                (\<lambda>c. Inr (Some c)))))"

section \<open>Objects in a heap and the assembly of the result\<close>

text \<open>
  To speak of mutation, lists are objects in a heap: an address is an index into the
  list of all objects allocated so far, a new object gets the next index, and
  \<open>list.append\<close> replaces the object at an address. The \<open>HSRThresholds\<close> object is in
  the heap too, its attributes holding the addresses of its nine lists. A program takes
  a heap and returns a value or an exception together with the heap it leaves behind.
\<close>

datatype HSRLevel = POOR | BELOW_AVERAGE | AVERAGE | GOOD | EXCELLENT

datatype NutrientImpact =
  NEGATIVE_HIGH | NEGATIVE_MEDIUM | NEGATIVE_LOW | NEUTRAL
  | POSITIVE_LOW | POSITIVE_MEDIUM | POSITIVE_HIGH

record NutrientAnalysis =
  na_nutrient_name :: string
  na_value :: real
  na_unit :: string
  na_points :: int
  na_impact :: NutrientImpact
  na_threshold_position :: string
  na_recommendation :: "string option"

record HealthInsight =
  hi_category :: string
  hi_title :: string
  hi_description :: string
  hi_priority :: string
  hi_actionable :: bool
  hi_action_text :: "string option"

record AlternativeSuggestion =
  as_food_id :: int
  as_food_name :: string
  as_food_group :: string
  as_current_hsr :: real
  as_alternative_hsr :: real
  as_improvement :: real
  as_reason :: string

type_synonym addr = nat

text \<open>The attributes of an \<open>HSRThresholds\<close> object: where its lists are.\<close>

record ThresholdRefs =
  ref_energy_density :: addr
  ref_sugar_natural :: addr
  ref_sugar_added :: addr
  ref_saturated_fat :: addr
  ref_sodium :: addr
  ref_fvnl :: addr
  ref_protein :: addr
  ref_fiber :: addr
  ref_star_rating :: addr
  ref_base_stars :: real

datatype obj =
  Floats "fl list"
  | Thresholds ThresholdRefs
  | Analyses "NutrientAnalysis list"
  | Insights "HealthInsight list"
  | Suggestions "AlternativeSuggestion list"
  | Strings "string list"

type_synonym heap = "obj list"

type_synonym 'a prog = "heap \<Rightarrow> (py_error + 'a) \<times> heap"

definition returning :: "'a \<Rightarrow> 'a prog" where
  "returning x h = (Inr x, h)"

text \<open>An expression that touches no object; it may raise.\<close>

definition pure_step :: "py_error + 'a \<Rightarrow> 'a prog" where
  "pure_step r h = (r, h)"

definition then_do :: "'a prog \<Rightarrow> ('a \<Rightarrow> 'b prog) \<Rightarrow> 'b prog" where
  "then_do m f h = (case m h of (Inl e, h') \<Rightarrow> (Inl e, h') | (Inr x, h') \<Rightarrow> f x h')"

text \<open>A list display, comprehension or \<open>copy()\<close>: a new object.\<close>

definition new_list :: "obj \<Rightarrow> addr prog" where
  "new_list x h = (Inr (length h), h @ [x])"

text \<open>
  Reading through a reference. In Python a reference always leads to an object of the
  expected kind; the other branches make the functions total.
\<close>

definition read_floats :: "addr \<Rightarrow> (fl list) prog" where
  "read_floats a h =
     (if a < length h then (case h ! a of Floats xs \<Rightarrow> (Inr xs, h) | _ \<Rightarrow> (Inl TypeError, h))
      else (Inl TypeError, h))"

definition read_thresholds_object :: "addr \<Rightarrow> ThresholdRefs prog" where
  "read_thresholds_object a h =
     (if a < length h then (case h ! a of Thresholds r \<Rightarrow> (Inr r, h) | _ \<Rightarrow> (Inl TypeError, h))
      else (Inl TypeError, h))"

definition read_insights :: "addr \<Rightarrow> (HealthInsight list) prog" where
  "read_insights a h =
     (if a < length h then (case h ! a of Insights xs \<Rightarrow> (Inr xs, h) | _ \<Rightarrow> (Inl TypeError, h))
      else (Inl TypeError, h))"

text \<open>\<open>list.append\<close>: the object at the address is replaced by the longer list.\<close>

definition append_analysis :: "addr \<Rightarrow> NutrientAnalysis \<Rightarrow> unit prog" where
  "append_analysis a x h =
     (if a < length h then
        (case h ! a of
           Analyses xs \<Rightarrow> (Inr (), h[a := Analyses (xs @ [x])])
         | _ \<Rightarrow> (Inl TypeError, h))
      else (Inl TypeError, h))"

definition append_insight :: "addr \<Rightarrow> HealthInsight \<Rightarrow> unit prog" where
  "append_insight a x h =
     (if a < length h then
        (case h ! a of
           Insights xs \<Rightarrow> (Inr (), h[a := Insights (xs @ [x])])
         | _ \<Rightarrow> (Inl TypeError, h))
      else (Inl TypeError, h))"

definition append_insight_if :: "bool \<Rightarrow> addr \<Rightarrow> HealthInsight \<Rightarrow> unit prog" where
  "append_insight_if b a x = (if b then append_insight a x else returning ())"

subsection \<open>The calculator object\<close>

text \<open>
  An \<open>HSRCalculator\<close> object: its \<open>thresholds\<close> attribute is the address of the
  \<open>HSRThresholds\<close> object.
\<close>

record HSRCalculator_object =
  o_meal :: Meal
  o_config :: HSRConfig
  o_nutritional_context :: NutritionalContext
  o_thresholds :: addr
  o_sugar_analysis :: SugarAnalysis

text \<open>The nine lists of the thresholds object, read out of the heap.\<close>

definition read_thresholds :: "addr \<Rightarrow> HSRThresholds prog" where
  "read_thresholds a =
     then_do (read_thresholds_object a) (\<lambda>r.
     then_do (read_floats (ref_energy_density r)) (\<lambda>e.
     then_do (read_floats (ref_sugar_natural r)) (\<lambda>sn.
     then_do (read_floats (ref_sugar_added r)) (\<lambda>sa.
     then_do (read_floats (ref_saturated_fat r)) (\<lambda>sf.
     then_do (read_floats (ref_sodium r)) (\<lambda>na.
     then_do (read_floats (ref_fvnl r)) (\<lambda>fv.
     then_do (read_floats (ref_protein r)) (\<lambda>p.
     then_do (read_floats (ref_fiber r)) (\<lambda>fi.
     then_do (read_floats (ref_star_rating r)) (\<lambda>st.
       returning
         \<lparr>thr_energy_density = e, thr_sugar_natural = sn, thr_sugar_added = sa,
          thr_saturated_fat = sf, thr_sodium = na, thr_fvnl = fv, thr_protein = p,
          thr_fiber = fi, thr_star_rating = st, base_stars = ref_base_stars r\<rparr>))))))))))"

text \<open>
  The calculator as the component methods see it, given the lists they read; and
  without lists, for the methods that read none.
\<close>

definition calculator_with :: "HSRCalculator_object \<Rightarrow> HSRThresholds \<Rightarrow> HSRCalculator" where
  "calculator_with self th =
     \<lparr>meal = o_meal self, config = o_config self,
      nutritional_context = o_nutritional_context self, thresholds = th,
      sugar_analysis = o_sugar_analysis self, scores = None\<rparr>"

definition no_lists :: HSRThresholds where
  "no_lists =
     \<lparr>thr_energy_density = [], thr_sugar_natural = [], thr_sugar_added = [],
      thr_saturated_fat = [], thr_sodium = [], thr_fvnl = [], thr_protein = [],
      thr_fiber = [], thr_star_rating = [], base_stars = 0\<rparr>"

text \<open>
  \<open>_calculate_components\<close> on the object. The method and the methods it calls read
  lists through \<open>self.thresholds\<close> and write nothing; here all lists are read first and
  the values are computed from them, which gives the same result on every heap in
  which the references lead to lists.
\<close>

definition calculate_components_object :: "HSRCalculator_object \<Rightarrow> HSRComponentScore prog" where
  "calculate_components_object self =
     then_do (read_thresholds (o_thresholds self)) (\<lambda>th.
       pure_step (map_sum id fst (calculate_components (calculator_with self th))))"

subsection \<open>The result object\<close>

text \<open>
  \<open>MealHSRResult\<close>. Its list attributes hold addresses; the dictionaries
  \<open>food_contributions\<close> and \<open>macronutrient_balance\<close> stay empty and are plain values.
  \<open>methodology\<close> is the dictionary set by \<open>_add_transparency\<close>, its list of improvements
  an object of its own.
\<close>

record MealHSRResult =
  r_star_rating :: real
  r_level :: HSRLevel
  r_category :: "Category option"
  r_component_score :: HSRComponentScore
  r_nutrient_analyses :: addr
  r_strengths :: addr
  r_concerns :: addr
  r_recommendations :: addr
  r_alternatives :: addr
  r_total_weight :: real
  r_total_energy_kj :: real
  r_total_energy_kcal :: real
  r_confidence_score :: real
  r_warnings :: addr
  r_food_contributions :: "(int \<times> real) list"
  r_dominant_food_groups :: addr
  r_macronutrient_balance :: "(string \<times> real) list"
  r_meal_type_suggestion :: "string option"
  r_methodology :: "(string \<times> string) list"
  r_methodology_improvements :: "addr option"

text \<open>
  The formatting of numbers in the texts: \<open>{x:.0f}\<close>, \<open>{x:.1f}\<close> and \<open>{x:.2f}\<close>.
\<close>

record formats =
  format_0f :: "real \<Rightarrow> string"
  format_1f :: "real \<Rightarrow> string"
  format_2f :: "real \<Rightarrow> string"

definition determine_level :: "real \<Rightarrow> HSRLevel" where
  "determine_level stars =
     (if stars \<ge> 4.5 then EXCELLENT
      else if stars \<ge> 3.5 then GOOD
      else if stars \<ge> 2.5 then AVERAGE
      else if stars \<ge> 1.5 then BELOW_AVERAGE
      else POOR)"

text \<open>
  The constructor call in \<open>calculate_hsr\<close>: each \<open>default_factory=list\<close> makes a new
  empty list, in the order of the fields.
\<close>

definition new_MealHSRResult ::
  "real \<Rightarrow> HSRLevel \<Rightarrow> Category option \<Rightarrow> HSRComponentScore \<Rightarrow> real \<Rightarrow> real \<Rightarrow> real \<Rightarrow>
   MealHSRResult prog" where
  "new_MealHSRResult stars level cat score tw kj kcal =
     then_do (new_list (Analyses [])) (\<lambda>analyses.
     then_do (new_list (Insights [])) (\<lambda>strengths.
     then_do (new_list (Insights [])) (\<lambda>concerns.
     then_do (new_list (Insights [])) (\<lambda>recommendations.
     then_do (new_list (Suggestions [])) (\<lambda>alternatives.
     then_do (new_list (Strings [])) (\<lambda>warnings.
     then_do (new_list (Strings [])) (\<lambda>groups.
       returning
         \<lparr>r_star_rating = stars, r_level = level, r_category = cat,
          r_component_score = score, r_nutrient_analyses = analyses,
          r_strengths = strengths, r_concerns = concerns,
          r_recommendations = recommendations, r_alternatives = alternatives,
          r_total_weight = tw, r_total_energy_kj = kj, r_total_energy_kcal = kcal,
          r_confidence_score = 1, r_warnings = warnings, r_food_contributions = [],
          r_dominant_food_groups = groups, r_macronutrient_balance = [],
          r_meal_type_suggestion = None, r_methodology = [],
          r_methodology_improvements = None\<rparr>)))))))"

subsection \<open>Nutrient analyses\<close>

definition determine_sugar_impact :: "SugarAnalysis \<Rightarrow> NutrientImpact" where
  "determine_sugar_impact sugar =
     (if added_sugars sugar > 10 then NEGATIVE_HIGH
      else if added_sugars sugar > 5 then NEGATIVE_MEDIUM
      else if natural_percentage sugar > 70 then NEUTRAL
      else NEGATIVE_LOW)"

definition get_sugar_recommendation :: "SugarAnalysis \<Rightarrow> string" where
  "get_sugar_recommendation sugar =
     (if added_sugars sugar > 10 then ''Significantly reduce added sugar intake''
      else if added_sugars sugar > 5 then ''Consider reducing added sugars''
      else if natural_percentage sugar > 80 then ''Good choice - mostly natural sugars''
      else ''Balance natural and added sugar sources'')"

definition determine_nutrient_impact :: "string \<Rightarrow> int \<Rightarrow> NutrientImpact" where
  "determine_nutrient_impact name points =
     (if name \<in> {''Energy Density'', ''Saturated Fat'', ''Sodium''} then
        (if points \<ge> 8 then NEGATIVE_HIGH
         else if points \<ge> 5 then NEGATIVE_MEDIUM
         else if points \<ge> 2 then NEGATIVE_LOW
         else NEUTRAL)
      else
        (if points \<ge> 6 then POSITIVE_HIGH
         else if points \<ge> 4 then POSITIVE_MEDIUM
         else if points \<ge> 2 then POSITIVE_LOW
         else NEUTRAL))"

definition get_threshold_position :: "formats \<Rightarrow> real \<Rightarrow> fl list \<Rightarrow> string" where
  "get_threshold_position fmts v ts =
     (if ts = [] then ''No thresholds available''
      else format_0f fmts
             (real_of_int (get_points_by_thresholds (Fin v) ts) / real (length ts) * 100)
           @ ''th percentile'')"

definition get_nutrient_recommendation :: "string \<Rightarrow> real \<Rightarrow> string" where
  "get_nutrient_recommendation name v =
     (let level = (if v > 15 then ''high'' else if v > 5 then ''medium'' else ''low'') in
      if name = ''Energy Density'' then
        (if level = ''high'' then ''Consider portion control and pairing with low-energy foods''
         else if level = ''medium''
           then ''Moderate energy content - suitable as part of balanced diet''
         else ''Excellent for weight management and satiety'')
      else if name = ''Protein'' then
        (if level = ''high'' then ''Excellent protein source for muscle health''
         else if level = ''medium'' then ''Good protein contribution''
         else ''Consider adding protein sources'')
      else if name = ''Fiber'' then
        (if level = ''high'' then ''Excellent for digestive health and satiety''
         else if level = ''medium'' then ''Good fiber contribution''
         else ''Add fruits, vegetables, or whole grains'')
      else ''Standard nutritional guidelines apply'')"

text \<open>
  The body of the loop of \<open>_add_nutrient_analysis\<close> for each of the six nutrients:
  the list is looked up through the thresholds object at that moment, the analysis is
  built and appended.
\<close>

fun analyse_each ::
  "formats \<Rightarrow> HSRCalculator_object \<Rightarrow> addr \<Rightarrow>
   (string \<times> real \<times> string \<times> (ThresholdRefs \<Rightarrow> addr)) list \<Rightarrow> unit prog" where
  "analyse_each fmts self analyses [] = returning ()"
| "analyse_each fmts self analyses ((name, v, unit_name, attribute) # rest) =
     then_do (read_thresholds_object (o_thresholds self)) (\<lambda>r.
     then_do (read_floats (attribute r)) (\<lambda>ts.
     then_do (append_analysis analyses
                \<lparr>na_nutrient_name = name, na_value = v, na_unit = unit_name,
                 na_points = get_points_by_thresholds (Fin v) ts,
                 na_impact = determine_nutrient_impact name (get_points_by_thresholds (Fin v) ts),
                 na_threshold_position = get_threshold_position fmts v ts,
                 na_recommendation = Some (get_nutrient_recommendation name v)\<rparr>) (\<lambda>u.
       analyse_each fmts self analyses rest)))"

text \<open>\<open>HSRCalculator._add_nutrient_analysis\<close>.\<close>

definition add_nutrient_analysis ::
  "formats \<Rightarrow> HSRCalculator_object \<Rightarrow> MealHSRResult \<Rightarrow> MealHSRResult prog" where
  "add_nutrient_analysis fmts self result =
     then_do (new_list (Analyses [])) (\<lambda>analyses.
     then_do (pure_step (attr (sugars_total (o_meal self)))) (\<lambda>sugars.
     then_do (append_analysis analyses
                \<lparr>na_nutrient_name = ''Sugars (Total)'', na_value = sugars, na_unit = ''g'',
                 na_points = sugar_points (r_component_score result),
                 na_impact = determine_sugar_impact (o_sugar_analysis self),
                 na_threshold_position =
                   ''Natural: '' @ format_1f fmts (natural_percentage (o_sugar_analysis self))
                     @ ''%'',
                 na_recommendation = Some (get_sugar_recommendation (o_sugar_analysis self))\<rparr>)
       (\<lambda>u.
     then_do (pure_step (attr (energy_kilocalories (o_meal self)))) (\<lambda>e.
     then_do (pure_step (attr (fatty_acids_saturated_total (o_meal self)))) (\<lambda>sf.
     then_do (pure_step (attr (sodium (o_meal self)))) (\<lambda>na.
     then_do (pure_step (attr (protein (o_meal self)))) (\<lambda>p.
     then_do (pure_step (attr (fibre_total_dietary (o_meal self)))) (\<lambda>f.
     then_do (pure_step (attr (fvnl_percent (o_meal self)))) (\<lambda>fv.
     then_do (analyse_each fmts self analyses
                [(''Energy Density'', e, ''kcal/100g'', ref_energy_density),
                 (''Saturated Fat'', sf, ''g'', ref_saturated_fat),
                 (''Sodium'', na, ''mg'', ref_sodium),
                 (''Protein'', p, ''g'', ref_protein),
                 (''Fiber'', f, ''g'', ref_fiber),
                 (''FVNL'', fv, ''%'', ref_fvnl)]) (\<lambda>u.
       returning (result\<lparr>r_nutrient_analyses := analyses\<rparr>)))))))))))"

subsection \<open>Insights, recommendations and transparency\<close>

text \<open>\<open>HSRCalculator._add_scientific_insights\<close>.\<close>

definition add_scientific_insights ::
  "formats \<Rightarrow> HSRCalculator_object \<Rightarrow> MealHSRResult \<Rightarrow> MealHSRResult prog" where
  "add_scientific_insights fmts self result =
     then_do (new_list (Insights [])) (\<lambda>insights.
     then_do (append_insight_if (natural_percentage (o_sugar_analysis self) > 70) insights
                \<lparr>hi_category = ''strength'', hi_title = ''Predominantly Natural Sugars'',
                 hi_description =
                   format_1f fmts (natural_percentage (o_sugar_analysis self))
                     @ ''% of sugars are from natural sources like fruits'',
                 hi_priority = ''medium'', hi_actionable = False, hi_action_text = None\<rparr>)
       (\<lambda>u.
     then_do (append_insight_if (satiety_index (o_nutritional_context self) > 1.1) insights
                \<lparr>hi_category = ''strength'', hi_title = ''High Satiety Potential'',
                 hi_description =
                   ''This food combination is likely to be more filling and satisfying'',
                 hi_priority = ''high'', hi_actionable = False, hi_action_text = None\<rparr>)
       (\<lambda>u.
     then_do
       (if processing_level (o_nutritional_context self) = ''minimally_processed'' then
          append_insight insights
            \<lparr>hi_category = ''strength'', hi_title = ''Minimally Processed'',
             hi_description = ''Foods are in their natural or lightly processed state'',
             hi_priority = ''medium'', hi_actionable = False, hi_action_text = None\<rparr>
        else if processing_level (o_nutritional_context self) = ''ultra_processed'' then
          append_insight insights
            \<lparr>hi_category = ''concern'', hi_title = ''Ultra-Processed Foods'',
             hi_description =
               ''Contains highly processed foods which may be less nutritious'',
             hi_priority = ''high'', hi_actionable = False, hi_action_text = None\<rparr>
        else returning ())
       (\<lambda>u.
     then_do (read_insights insights) (\<lambda>all1.
     then_do (new_list (Insights (filter (\<lambda>i. hi_category i = ''strength'') all1)))
       (\<lambda>strengths.
     then_do (read_insights insights) (\<lambda>all2.
     then_do (new_list (Insights (filter (\<lambda>i. hi_category i = ''concern'') all2)))
       (\<lambda>concerns.
       returning (result\<lparr>r_strengths := strengths, r_concerns := concerns\<rparr>)))))))))"

text \<open>\<open>HSRCalculator._add_improvement_recommendations\<close>.\<close>

definition add_improvement_recommendations ::
  "HSRCalculator_object \<Rightarrow> MealHSRResult \<Rightarrow> MealHSRResult prog" where
  "add_improvement_recommendations self result =
     then_do (new_list (Insights [])) (\<lambda>recommendations.
     then_do (append_insight_if (added_sugars (o_sugar_analysis self) > 5) recommendations
                \<lparr>hi_category = ''recommendation'', hi_title = ''Reduce Added Sugars'',
                 hi_description = ''Consider alternatives with less added sugar'',
                 hi_priority = ''high'', hi_actionable = True,
                 hi_action_text =
                   Some ''Look for unsweetened versions or add natural sweetness with fruits''\<rparr>)
       (\<lambda>u.
     then_do (append_insight_if (satiety_index (o_nutritional_context self) < 0.9)
                recommendations
                \<lparr>hi_category = ''recommendation'', hi_title = ''Improve Satiety'',
                 hi_description = ''Add protein or fiber to make this meal more filling'',
                 hi_priority = ''medium'', hi_actionable = True,
                 hi_action_text =
                   Some ''Consider adding nuts, seeds, or high-fiber vegetables''\<rparr>)
       (\<lambda>u.
     then_do (append_insight_if
                (processing_level (o_nutritional_context self) = ''ultra_processed'')
                recommendations
                \<lparr>hi_category = ''recommendation'', hi_title = ''Choose Less Processed Options'',
                 hi_description = ''Opt for minimally processed alternatives when possible'',
                 hi_priority = ''medium'', hi_actionable = True,
                 hi_action_text =
                   Some ''Look for whole food alternatives or prepare from scratch''\<rparr>)
       (\<lambda>u.
       returning (result\<lparr>r_recommendations := recommendations\<rparr>)))))"

text \<open>\<open>HSRCalculator._add_transparency\<close>; \<open>_calculate_confidence\<close> reads no list.\<close>

definition add_transparency ::
  "formats \<Rightarrow> HSRCalculator_object \<Rightarrow> MealHSRResult \<Rightarrow> MealHSRResult prog" where
  "add_transparency fmts self result =
     then_do (pure_step (calculate_confidence (calculator_with self no_lists))) (\<lambda>confidence.
     then_do (new_list (Strings [''Evidence-based thresholds'', ''Sugar source differentiation'',
                                  ''Satiety index integration'', ''Processing level assessment'']))
       (\<lambda>improvements.
       returning
         (result\<lparr>r_confidence_score := confidence,
                 r_methodology :=
                   [(''threshold_approach'', ''Unified energy density across all categories''),
                    (''sugar_analysis'',
                     ''Natural: '' @ format_1f fmts (natural_sugars (o_sugar_analysis self))
                       @ ''g, Added: '' @ format_1f fmts (added_sugars (o_sugar_analysis self))
                       @ ''g''),
                    (''satiety_adjustment'',
                     ''Index: '' @ format_2f fmts (satiety_index (o_nutritional_context self))),
                    (''processing_consideration'',
                     processing_level (o_nutritional_context self))],
                 r_methodology_improvements := Some improvements\<rparr>)))"

subsection \<open>The calculation\<close>

text \<open>\<open>HSRCalculator.calculate_hsr\<close>.\<close>

definition calculate_hsr :: "formats \<Rightarrow> HSRCalculator_object \<Rightarrow> MealHSRResult prog" where
  "calculate_hsr fmts self =
     then_do (calculate_components_object self) (\<lambda>component_score.
     (let adjusted_score = final_score component_score;
          stars = convert_to_star_rating adjusted_score
      in
     then_do (pure_step (attr (total_weight (o_meal self)))) (\<lambda>tw.
     then_do (pure_step (attr (energy_kj (o_meal self)))) (\<lambda>kj.
     then_do (pure_step (attr (energy_kilocalories (o_meal self)))) (\<lambda>kcal.
     then_do (new_MealHSRResult stars (determine_level stars) (category (o_meal self))
                component_score tw kj kcal) (\<lambda>result.
     then_do (add_nutrient_analysis fmts self result) (\<lambda>result1.
     then_do (add_scientific_insights fmts self result1) (\<lambda>result2.
     then_do (add_improvement_recommendations self result2) (\<lambda>result3.
       add_transparency fmts self result3)))))))))"

section \<open>Notions used in the statements\<close>

text \<open>Every list of a threshold set is non-decreasing.\<close>

definition all_sorted :: "HSRThresholds \<Rightarrow> bool" where
  "all_sorted th =
     (sorted (thr_energy_density th) \<and> sorted (thr_sugar_natural th) \<and>
      sorted (thr_sugar_added th) \<and> sorted (thr_saturated_fat th) \<and>
      sorted (thr_sodium th) \<and> sorted (thr_fvnl th) \<and> sorted (thr_protein th) \<and>
      sorted (thr_fiber th) \<and> sorted (thr_star_rating th))"

text \<open>No list of a threshold set holds \<open>+inf\<close>.\<close>

definition all_finite :: "HSRThresholds \<Rightarrow> bool" where
  "all_finite th =
     (PInf \<notin> set (thr_energy_density th) \<and> PInf \<notin> set (thr_sugar_natural th) \<and>
      PInf \<notin> set (thr_sugar_added th) \<and> PInf \<notin> set (thr_saturated_fat th) \<and>
      PInf \<notin> set (thr_sodium th) \<and> PInf \<notin> set (thr_fvnl th) \<and>
      PInf \<notin> set (thr_protein th) \<and> PInf \<notin> set (thr_fiber th) \<and>
      PInf \<notin> set (thr_star_rating th))"

text \<open>
  The aggregated attributes of a meal have been assigned, as they are at the end of
  \<open>_calculate_nutritional_values\<close>.
\<close>

definition aggregated :: "Meal \<Rightarrow> bool" where
  "aggregated m =
     (total_weight m \<noteq> None \<and> energy_kilocalories m \<noteq> None \<and> energy_kj m \<noteq> None \<and>
      protein m \<noteq> None \<and> carbohydrate_total m \<noteq> None \<and> fibre_total_dietary m \<noteq> None \<and>
      sugars_total m \<noteq> None \<and> fat_total m \<noteq> None \<and>
      fatty_acids_saturated_total m \<noteq> None \<and> sodium m \<noteq> None \<and> calcium m \<noteq> None \<and>
      fvnl_percent m \<noteq> None)"

text \<open>
  An example calculator: a meal of category \<open>FOOD\<close> with 800 kcal, 25 g saturated fat,
  2000 mg sodium, 18 g protein and 5.5 g fibre per 100 g, 16 g each of natural and added
  sugars, the base thresholds, satiety index 1.0, minimally processed, FVNL naturalness
  0.5 and 50 % natural sugars.
\<close>

definition example_meal :: Meal where
  "example_meal =
     (Meal_fields [] (Some FOOD))\<lparr>
        total_weight := Some 100, energy_kilocalories := Some 800,
        energy_kj := Some (800 * 4.184), protein := Some 18, carbohydrate_total := Some 40,
        fibre_total_dietary := Some 5.5, sugars_total := Some 32, fat_total := Some 30,
        fatty_acids_saturated_total := Some 25, sodium := Some 2000, calcium := Some 0,
        fvnl_percent := Some 0\<rparr>"

definition example_context :: NutritionalContext where
  "example_context =
     \<lparr>is_natural_sugar_dominant = False, has_added_sugars = True, satiety_index = 1,
      processing_level = ''minimally_processed'', liquid_percentage = 0, fiber_density = 5.5,
      protein_quality_score = 1, fvnl_naturalness = 0.5\<rparr>"

definition example_calculator :: HSRCalculator where
  "example_calculator =
     \<lparr>meal = example_meal, config = default_config, nutritional_context = example_context,
      thresholds = base_thresholds,
      sugar_analysis = \<lparr>total_sugars = 32, natural_sugars = 16, added_sugars = 16,
                        natural_percentage = 50, sources = []\<rparr>,
      scores = None\<rparr>"

text \<open>An example context of an ultra-processed, entirely liquid, filling meal.\<close>

definition liquid_context :: NutritionalContext where
  "liquid_context =
     \<lparr>is_natural_sugar_dominant = False, has_added_sugars = True, satiety_index = 1.2,
      processing_level = ''ultra_processed'', liquid_percentage = 1, fiber_density = 0,
      protein_quality_score = 1.2, fvnl_naturalness = 1\<rparr>"

text \<open>
  Example foods: milk and cheddar with the same values per 100 g, and plain rice.
\<close>

definition dairy_food :: "string \<Rightarrow> real \<Rightarrow> Food" where
  "dairy_food name grams =
     \<lparr>food_id = 1, food_name = name, serving_size = grams,
      nutrients = [(''ENERGY (KILOCALORIES)'', 200), (''PROTEIN'', 15), (''FAT, TOTAL'', 15)],
      food_fvnl_percent = 0, food_category = Some DAIRY_FOOD, food_group_id = Some 1,
      food_category_confidence = 0.9, food_category_source = ''auto_assigned''\<rparr>"

definition dairy_meal :: "Food list" where
  "dairy_meal = [dairy_food ''Milk'' 65, dairy_food ''Cheddar'' 35]"

definition plain_rice :: Food where
  "plain_rice =
     \<lparr>food_id = 2, food_name = ''Rice, white'', serving_size = 100,
      nutrients = [(''ENERGY (KILOCALORIES)'', 130), (''PROTEIN'', 2.7)],
      food_fvnl_percent = 0, food_category = Some FOOD, food_group_id = Some 20,
      food_category_confidence = 0.9, food_category_source = ''auto_assigned''\<rparr>"

definition rice_meal :: Meal where
  "rice_meal = calculate_nutritional_values (\<lambda>m. []) (Meal_fields [plain_rice] (Some FOOD))"

text \<open>
  The per-food score that reaches the threshold provider: the label given by
  \<open>HSRCalculator._determine_processing_level\<close>, scored by the provider's table.
\<close>

definition pipeline_food_score :: "Food \<Rightarrow> int" where
  "pipeline_food_score food =
     (if any_in ultra_processed_indicators (lower (food_name food)) then 3
      else if any_in processed_indicators (lower (food_name food)) then 2
      else 1)"

text \<open>
  The three tie-breaking rules taken one at a time: the category a rule would choose,
  or \<open>None\<close> when its condition fails or no conflict qualifies.
\<close>

definition liquid_rule :: "(Category \<times> real \<times> real) list \<Rightarrow> Food list \<Rightarrow> Category option" where
  "liquid_rule conflicts fs =
     (if meal_liquid_percentage fs > 0.6
      then first_conflict (\<lambda>c. c \<in> {BEVERAGE, DAIRY_BEVERAGE}) conflicts else None)"

definition protein_fat_rule :: "(Category \<times> real \<times> real) list \<Rightarrow> Food list \<Rightarrow> Category option" where
  "protein_fat_rule conflicts fs =
     (if n_protein (analyze_meal_nutrition fs) \<ge> 15 \<and> n_fat_total (analyze_meal_nutrition fs) \<ge> 15
      then first_conflict (\<lambda>c. c \<in> {CHEESE, DAIRY_FOOD}) conflicts else None)"

definition energy_density_rule :: "(Category \<times> real \<times> real) list \<Rightarrow> Food list \<Rightarrow> Category option" where
  "energy_density_rule conflicts fs =
     (if n_energy_kcal (analyze_meal_nutrition fs) > 500 \<and> n_fat_total (analyze_meal_nutrition fs) > 40
      then first_conflict (\<lambda>c. c = OILS_AND_SPREADS) conflicts else None)"

text \<open>
  The conflicts that \<open>_resolve_category_conflicts\<close> finds for the milk and cheddar meal
  (top category \<open>DAIRY_BEVERAGE\<close>), and a meal of juice and water.
\<close>

definition dairy_conflicts :: "(Category \<times> real \<times> real) list" where
  "dairy_conflicts =
     [(BEVERAGE, 3583 / 4320, 307 / 6048), (FOOD, 29 / 36, 47 / 630),
      (DAIRY_FOOD, 3 / 4, 41 / 315), (CHEESE, 3 / 4, 41 / 315)]"

definition juice_meal :: "Food list" where
  "juice_meal =
     [\<lparr>food_id = 3, food_name = ''Orange juice'', serving_size = 200,
       nutrients = [(''ENERGY (KILOCALORIES)'', 45), (''PROTEIN'', 0.7), (''FAT, TOTAL'', 0.2)],
       food_fvnl_percent = 100, food_category = Some BEVERAGE, food_group_id = Some 9,
       food_category_confidence = 0.9, food_category_source = ''auto_assigned''\<rparr>,
      \<lparr>food_id = 4, food_name = ''Crackers'', serving_size = 50,
       nutrients = [(''ENERGY (KILOCALORIES)'', 430), (''PROTEIN'', 9), (''FAT, TOTAL'', 12)],
       food_fvnl_percent = 0, food_category = Some FOOD, food_group_id = Some 18,
       food_category_confidence = 0.9, food_category_source = ''auto_assigned''\<rparr>]"

text \<open>
  An occurrence of a keyword in a text at position \<open>i\<close>, letter case ignored; the
  occurrence lies inside a longer word when the character before it or the character
  after it is a word character; and a text in which every occurrence of every keyword
  of a list lies inside a longer word.
\<close>

definition occurs_at :: "string \<Rightarrow> string \<Rightarrow> nat \<Rightarrow> bool" where
  "occurs_at keyword text i =
     (i + length keyword \<le> length text \<and>
      lower (take (length keyword) (drop i text)) = lower keyword)"

definition inside_longer_word :: "string \<Rightarrow> string \<Rightarrow> nat \<Rightarrow> bool" where
  "inside_longer_word keyword text i =
     ((0 < i \<and> is_word_char (text ! (i - 1))) \<or>
      (i + length keyword < length text \<and> is_word_char (text ! (i + length keyword))))"

definition only_inside_longer_words :: "string list \<Rightarrow> string \<Rightarrow> bool" where
  "only_inside_longer_words keywords text =
     list_all (\<lambda>keyword.
        list_all (\<lambda>i. occurs_at keyword text i \<longrightarrow> inside_longer_word keyword text i)
          [0..<Suc (length text)])
       keywords"

text \<open>
  A meal given with category \<open>FOOD\<close> in which one serving size is negative: 500 g of
  orange juice and -400 g of crackers, 100 g in total. \<open>_validate_foods\<close> records a
  warning for the negative serving size and the construction goes on.
\<close>

definition negative_serving_meal :: Meal where
  "negative_serving_meal =
     calculate_nutritional_values (\<lambda>m. [])
       (Meal_fields
          [\<lparr>food_id = 3, food_name = ''Orange juice'', serving_size = 500,
            nutrients = [(''ENERGY (KILOCALORIES)'', 45), (''PROTEIN'', 0.7), (''FAT, TOTAL'', 0.2)],
            food_fvnl_percent = 100, food_category = Some BEVERAGE, food_group_id = Some 9,
            food_category_confidence = 0.9, food_category_source = ''auto_assigned''\<rparr>,
           \<lparr>food_id = 4, food_name = ''Crackers'', serving_size = - 400,
            nutrients = [(''ENERGY (KILOCALORIES)'', 430), (''PROTEIN'', 9), (''FAT, TOTAL'', 12)],
            food_fvnl_percent = 0, food_category = Some FOOD, food_group_id = Some 18,
            food_category_confidence = 0.9, food_category_source = ''auto_assigned''\<rparr>]
          (Some FOOD))"

text \<open>
  A program leaves the first \<open>n\<close> objects of every heap that has them as they are, and
  a value it returns satisfies \<open>Q\<close>.
\<close>

definition frame :: "nat \<Rightarrow> 'a prog \<Rightarrow> ('a \<Rightarrow> bool) \<Rightarrow> bool" where
  "frame n p Q =
     (\<forall>h. n \<le> length h \<longrightarrow>
        n \<le> length (snd (p h)) \<and> take n (snd (p h)) = take n h \<and>
        (\<forall>x. fst (p h) = Inr x \<longrightarrow> Q x))"

text \<open>Formatters for an example run; they show no digits.\<close>

definition plain_formats :: formats where
  "plain_formats =
     \<lparr>format_0f = (\<lambda>x. ''#''), format_1f = (\<lambda>x. ''#.#''), format_2f = (\<lambda>x. ''#.##'')\<rparr>"

text \<open>
  The heap holds a list of floats at an address; and the object at an address is an
  \<open>HSRThresholds\<close> object whose attributes lead to the nine lists of a threshold set.
\<close>

definition floats_at :: "heap \<Rightarrow> addr \<Rightarrow> fl list \<Rightarrow> bool" where
  "floats_at h a xs = (a < length h \<and> h ! a = Floats xs)"

definition holds_thresholds :: "heap \<Rightarrow> addr \<Rightarrow> HSRThresholds \<Rightarrow> bool" where
  "holds_thresholds h a th =
     (a < length h \<and>
      (case h ! a of
         Thresholds r \<Rightarrow>
           floats_at h (ref_energy_density r) (thr_energy_density th) \<and>
           floats_at h (ref_sugar_natural r) (thr_sugar_natural th) \<and>
           floats_at h (ref_sugar_added r) (thr_sugar_added th) \<and>
           floats_at h (ref_saturated_fat r) (thr_saturated_fat th) \<and>
           floats_at h (ref_sodium r) (thr_sodium th) \<and>
           floats_at h (ref_fvnl r) (thr_fvnl th) \<and>
           floats_at h (ref_protein r) (thr_protein th) \<and>
           floats_at h (ref_fiber r) (thr_fiber th) \<and>
           floats_at h (ref_star_rating r) (thr_star_rating th) \<and>
           ref_base_stars r = base_stars th
       | _ \<Rightarrow> False))"

text \<open>
  The example calculator as an object, in a heap that holds the base threshold lists
  and the thresholds object.
\<close>

definition example_heap :: heap where
  "example_heap =
     [Floats ENERGY_DENSITY_THRESHOLDS, Floats NATURAL_SUGAR_THRESHOLDS,
      Floats ADDED_SUGAR_THRESHOLDS, Floats SATURATED_FAT_THRESHOLDS,
      Floats SODIUM_THRESHOLDS, Floats FVNL_THRESHOLDS, Floats PROTEIN_THRESHOLDS,
      Floats FIBER_THRESHOLDS, Floats STAR_RATING_THRESHOLDS,
      Thresholds
        \<lparr>ref_energy_density = 0, ref_sugar_natural = 1, ref_sugar_added = 2,
         ref_saturated_fat = 3, ref_sodium = 4, ref_fvnl = 5, ref_protein = 6,
         ref_fiber = 7, ref_star_rating = 8, ref_base_stars = 0\<rparr>]"

definition example_object :: HSRCalculator_object where
  "example_object =
     \<lparr>o_meal = example_meal, o_config = default_config,
      o_nutritional_context = example_context, o_thresholds = 9,
      o_sugar_analysis = sugar_analysis example_calculator\<rparr>"

section \<open>Properties of the lookup\<close>

lemma fl_less_Fin [simp]: "(Fin x < Fin y) = (x < y)"
  by (auto simp: less_fl_def less_eq_fl_def)

lemma fl_le_Fin [simp]: "(Fin x \<le> Fin y) = (x \<le> y)"
  by (simp add: less_eq_fl_def)

lemma fl_le_PInf [simp]: "a \<le> PInf"
  by (simp add: less_eq_fl_def)

lemma fl_PInf_le [simp]: "(PInf \<le> a) = (a = PInf)"
  by (simp add: less_eq_fl_def split: fl.splits)

lemma fl_less_PInf [simp]: "(a < PInf) = (a \<noteq> PInf)"
  by (cases a) (auto simp: less_fl_def less_eq_fl_def)

lemma fl_PInf_less [simp]: "\<not> PInf < a"
  by (simp add: less_fl_def)

lemma bisect_left_loop_stop:
  "\<not> lo < hi \<Longrightarrow> bisect_left_loop a x lo hi = lo"
  by (subst bisect_left_loop.simps) simp

lemma bisect_left_loop_right:
  "lo < hi \<Longrightarrow> a ! ((lo + hi) div 2) < x \<Longrightarrow>
   bisect_left_loop a x lo hi = bisect_left_loop a x ((lo + hi) div 2 + 1) hi"
  by (subst bisect_left_loop.simps) simp

lemma bisect_left_loop_left:
  "lo < hi \<Longrightarrow> \<not> a ! ((lo + hi) div 2) < x \<Longrightarrow>
   bisect_left_loop a x lo hi = bisect_left_loop a x lo ((lo + hi) div 2)"
  by (subst bisect_left_loop.simps) simp

lemma bisect_left_loop_bounds:
  "lo \<le> hi \<Longrightarrow> lo \<le> bisect_left_loop a x lo hi \<and> bisect_left_loop a x lo hi \<le> hi"
proof (induction a x lo hi rule: bisect_left_loop.induct)
  case (1 a x lo hi)
  show ?case
  proof (cases "lo < hi")
    case False
    then show ?thesis
      using "1.prems" by (simp add: bisect_left_loop_stop)
  next
    case True
    define mid where "mid = (lo + hi) div 2"
    have m: "lo \<le> mid" "mid < hi" using True by (auto simp: mid_def)
    show ?thesis
    proof (cases "a ! mid < x")
      case lt: True
      have "mid + 1 \<le> hi" using m by simp
      from "1.IH"(1) [OF True mid_def lt this]
      have "mid + 1 \<le> bisect_left_loop a x (mid + 1) hi \<and> bisect_left_loop a x (mid + 1) hi \<le> hi" .
      moreover have "bisect_left_loop a x lo hi = bisect_left_loop a x (mid + 1) hi"
        using bisect_left_loop_right [OF True] lt by (simp add: mid_def)
      ultimately show ?thesis using m by simp
    next
      case ge: False
      from "1.IH"(2) [OF True mid_def ge m(1)]
      have "lo \<le> bisect_left_loop a x lo mid \<and> bisect_left_loop a x lo mid \<le> mid" .
      moreover have "bisect_left_loop a x lo hi = bisect_left_loop a x lo mid"
        using bisect_left_loop_left [OF True] ge by (simp add: mid_def)
      ultimately show ?thesis using m by simp
    qed
  qed
qed

text \<open>
  Monotonicity needs no order on the list: once the two searches part, the one for the
  smaller value continues in the left half and the other in the right half.
\<close>

lemma bisect_left_loop_mono:
  "x1 \<le> x2 \<Longrightarrow> lo \<le> hi \<Longrightarrow> bisect_left_loop a x1 lo hi \<le> bisect_left_loop a x2 lo hi"
proof (induction a x1 lo hi rule: bisect_left_loop.induct)
  case (1 a x1 lo hi)
  show ?case
  proof (cases "lo < hi")
    case False
    then show ?thesis by (simp add: bisect_left_loop_stop)
  next
    case True
    define mid where "mid = (lo + hi) div 2"
    have m: "lo \<le> mid" "mid < hi" using True by (auto simp: mid_def)
    show ?thesis
    proof (cases "a ! mid < x1")
      case lt: True
      then have lt2: "a ! mid < x2" using "1.prems"(1) by simp
      have le: "mid + 1 \<le> hi" using m by simp
      have "bisect_left_loop a x1 lo hi = bisect_left_loop a x1 (mid + 1) hi"
        using bisect_left_loop_right [OF True] lt by (simp add: mid_def)
      moreover have "bisect_left_loop a x2 lo hi = bisect_left_loop a x2 (mid + 1) hi"
        using bisect_left_loop_right [OF True] lt2 by (simp add: mid_def)
      ultimately show ?thesis
        using "1.IH"(1) [OF True mid_def lt "1.prems"(1) le] by simp
    next
      case ge: False
      have e1: "bisect_left_loop a x1 lo hi = bisect_left_loop a x1 lo mid"
        using bisect_left_loop_left [OF True] ge by (simp add: mid_def)
      show ?thesis
      proof (cases "a ! mid < x2")
        case False
        have "bisect_left_loop a x2 lo hi = bisect_left_loop a x2 lo mid"
          using bisect_left_loop_left [OF True] False by (simp add: mid_def)
        then show ?thesis
          using e1 "1.IH"(2) [OF True mid_def ge "1.prems"(1) m(1)] by simp
      next
        case True2: True
        have "bisect_left_loop a x2 lo hi = bisect_left_loop a x2 (mid + 1) hi"
          using bisect_left_loop_right [OF True] True2 by (simp add: mid_def)
        moreover have "mid + 1 \<le> bisect_left_loop a x2 (mid + 1) hi"
          using bisect_left_loop_bounds [of "mid + 1" hi a x2] m by simp
        moreover have "bisect_left_loop a x1 lo mid \<le> mid"
          using bisect_left_loop_bounds [of lo mid a x1] m by simp
        ultimately show ?thesis using e1 by simp
      qed
    qed
  qed
qed

text \<open>
  On a non-decreasing list the search returns the number of elements strictly below
  the value.
\<close>

lemma bisect_left_loop_sorted:
  "sorted a \<Longrightarrow> lo \<le> hi \<Longrightarrow> hi \<le> length a \<Longrightarrow>
   (\<forall>i<lo. a ! i < x) \<Longrightarrow> (\<forall>i. hi \<le> i \<and> i < length a \<longrightarrow> \<not> a ! i < x) \<Longrightarrow>
   (\<forall>i<bisect_left_loop a x lo hi. a ! i < x) \<and>
   (\<forall>i. bisect_left_loop a x lo hi \<le> i \<and> i < length a \<longrightarrow> \<not> a ! i < x)"
proof (induction a x lo hi rule: bisect_left_loop.induct)
  case (1 a x lo hi)
  show ?case
  proof (cases "lo < hi")
    case False
    then have "lo = hi" using "1.prems"(2) by simp
    then show ?thesis
      using "1.prems"(4,5) by (simp add: bisect_left_loop_stop)
  next
    case True
    define mid where "mid = (lo + hi) div 2"
    have m: "lo \<le> mid" "mid < hi" using True by (auto simp: mid_def)
    have mlen: "mid < length a" using m "1.prems"(3) by simp
    show ?thesis
    proof (cases "a ! mid < x")
      case lt: True
      have below: "\<forall>i<mid + 1. a ! i < x"
      proof (intro allI impI)
        fix i assume "i < mid + 1"
        then have "i \<le> mid" by simp
        then have "a ! i \<le> a ! mid"
          using "1.prems"(1) mlen by (simp add: sorted_nth_mono)
        then show "a ! i < x" using lt by simp
      qed
      have e: "bisect_left_loop a x lo hi = bisect_left_loop a x (mid + 1) hi"
        using bisect_left_loop_right [OF True] lt by (simp add: mid_def)
      have "mid + 1 \<le> hi" using m by simp
      from "1.IH"(1) [OF True mid_def lt "1.prems"(1) this "1.prems"(3) below "1.prems"(5)]
      show ?thesis by (simp only: e)
    next
      case ge: False
      have above: "\<forall>i. mid \<le> i \<and> i < length a \<longrightarrow> \<not> a ! i < x"
      proof (intro allI impI)
        fix i assume "mid \<le> i \<and> i < length a"
        then have "a ! mid \<le> a ! i"
          using "1.prems"(1) by (simp add: sorted_nth_mono)
        then show "\<not> a ! i < x" using ge by auto
      qed
      have e: "bisect_left_loop a x lo hi = bisect_left_loop a x lo mid"
        using bisect_left_loop_left [OF True] ge by (simp add: mid_def)
      have "mid \<le> length a" using mlen by simp
      from "1.IH"(2) [OF True mid_def ge "1.prems"(1) m(1) this "1.prems"(4) above]
      show ?thesis by (simp only: e)
    qed
  qed
qed

lemma filter_eq_take:
  "r \<le> length a \<Longrightarrow> \<forall>i<r. P (a ! i) \<Longrightarrow> \<forall>i. r \<le> i \<and> i < length a \<longrightarrow> \<not> P (a ! i) \<Longrightarrow>
   filter P a = take r a"
proof -
  assume r: "r \<le> length a" and lo: "\<forall>i<r. P (a ! i)"
    and hi: "\<forall>i. r \<le> i \<and> i < length a \<longrightarrow> \<not> P (a ! i)"
  have "\<forall>y\<in>set (take r a). P y"
    using lo r by (auto simp: in_set_conv_nth)
  then have t: "filter P (take r a) = take r a" by simp
  have "\<forall>y\<in>set (drop r a). \<not> P y"
    using hi r by (auto simp: in_set_conv_nth)
  then have d: "filter P (drop r a) = []" by simp
  have "filter P a = filter P (take r a @ drop r a)" by simp
  also have "\<dots> = take r a" using t d by (simp only: filter_append) simp
  finally show ?thesis .
qed

lemma bisect_left_sorted_count:
  assumes "sorted a"
  shows "bisect_left a x = length (filter (\<lambda>t. t < x) a)"
proof -
  define r where "r = bisect_left_loop a x 0 (length a)"
  have b: "r \<le> length a"
    unfolding r_def using bisect_left_loop_bounds [of 0 "length a" a x] by simp
  have h1: "\<forall>i<(0::nat). a ! i < x" by simp
  have h2: "\<forall>i. length a \<le> i \<and> i < length a \<longrightarrow> \<not> a ! i < x" by auto
  have inv: "(\<forall>i<r. a ! i < x) \<and> (\<forall>i. r \<le> i \<and> i < length a \<longrightarrow> \<not> a ! i < x)"
    unfolding r_def by (rule bisect_left_loop_sorted [OF assms _ _ h1 h2]) simp_all
  have "filter (\<lambda>t. t < x) a = take r a"
    by (rule filter_eq_take [OF b]) (use inv in blast)+
  then have "length (filter (\<lambda>t. t < x) a) = r" using b by simp
  then show ?thesis by (simp add: bisect_left_def r_def)
qed

section \<open>Claims about the threshold lookup\<close>

lemma get_points_by_thresholds_sorted:
  assumes "sorted ts" "ts \<noteq> []" "hd ts \<noteq> PInf"
  shows "get_points_by_thresholds v ts =
         min (int (length (filter (\<lambda>t. t < v) ts))) (int (length ts) - 1)"
  using assms by (cases ts) (simp_all add: get_points_by_thresholds_def bisect_left_sorted_count)

lemma get_points_by_thresholds_zero:
  "ts = [] \<or> hd ts = PInf \<Longrightarrow> get_points_by_thresholds v ts = 0"
  by (cases ts) (auto simp: get_points_by_thresholds_def)

lemma sorted_ENERGY_DENSITY_THRESHOLDS: "sorted ENERGY_DENSITY_THRESHOLDS"
  by (simp add: ENERGY_DENSITY_THRESHOLDS_def)

text \<open>
  C1 (amended). For an empty threshold list, or one whose first element is \<open>+inf\<close>, the
  lookup returns 0. For a non-decreasing list that is neither, the points are the number
  of ts strictly below the value, capped at \<open>len(t) - 1\<close>: with
  \<open>bisect_left\<close> a value equal to a threshold has not yet passed it.
\<close>

theorem get_points_by_thresholds_count:
  "(ts = [] \<or> hd ts = PInf \<longrightarrow> get_points_by_thresholds v ts = 0) \<and>
   (sorted ts \<and> ts \<noteq> [] \<and> hd ts \<noteq> PInf \<longrightarrow>
      get_points_by_thresholds v ts =
        min (int (length (filter (\<lambda>t. t < v) ts))) (int (length ts) - 1))"
  using get_points_by_thresholds_sorted [of ts v]
        get_points_by_thresholds_zero [of ts v]
  by blast

theorem get_points_by_thresholds_count_witness:
  "sorted ENERGY_DENSITY_THRESHOLDS \<and> ENERGY_DENSITY_THRESHOLDS \<noteq> [] \<and>
   hd ENERGY_DENSITY_THRESHOLDS \<noteq> PInf \<and>
   get_points_by_thresholds (Fin 120) ENERGY_DENSITY_THRESHOLDS = 3 \<and>
   hd (replicate 11 PInf) = PInf \<and>
   get_points_by_thresholds (Fin 120) (replicate 11 PInf) = 0"
  using get_points_by_thresholds_count [of ENERGY_DENSITY_THRESHOLDS "Fin 120"]
        get_points_by_thresholds_count [of "replicate 11 PInf" "Fin 120"]
  by (simp add: ENERGY_DENSITY_THRESHOLDS_def)

text \<open>
  C1 as stated fails: an energy density of exactly 50 kcal meets the threshold 50, so
  two ts are less than or equal to it, but the lookup awards 1 point. On a list
  that is not ascending the binary search does not count at all: for the value 5 in
  \<open>[9, 0, 9, 9, 9]\<close> it returns 2, and one threshold lies below 5.
\<close>

theorem get_points_by_thresholds_tie_counterexample:
  "get_points_by_thresholds (Fin 50) ENERGY_DENSITY_THRESHOLDS = 1 \<and>
   spec_points (Fin 50) ENERGY_DENSITY_THRESHOLDS = 2 \<and>
   get_points_by_thresholds (Fin 5) [Fin 9, Fin 0, Fin 9, Fin 9, Fin 9] = 2 \<and>
   spec_points (Fin 5) [Fin 9, Fin 0, Fin 9, Fin 9, Fin 9] = 1"
proof -
  have "get_points_by_thresholds (Fin 50) ENERGY_DENSITY_THRESHOLDS = 1"
    using get_points_by_thresholds_sorted [OF sorted_ENERGY_DENSITY_THRESHOLDS, of "Fin 50"]
    by (simp add: ENERGY_DENSITY_THRESHOLDS_def)
  moreover have "spec_points (Fin 50) ENERGY_DENSITY_THRESHOLDS = 2"
    by (simp add: spec_points_def ENERGY_DENSITY_THRESHOLDS_def)
  moreover have "bisect_left [Fin 9, Fin 0, Fin 9, Fin 9, Fin 9] (Fin 5) = 2"
    by (simp add: bisect_left_def bisect_left_loop.simps)
  then have "get_points_by_thresholds (Fin 5) [Fin 9, Fin 0, Fin 9, Fin 9, Fin 9] = 2"
    by (simp add: get_points_by_thresholds_def)
  moreover have "spec_points (Fin 5) [Fin 9, Fin 0, Fin 9, Fin 9, Fin 9] = 1"
    by (simp add: spec_points_def)
  ultimately show ?thesis by blast
qed

lemma get_points_by_thresholds_mono:
  "v1 \<le> v2 \<Longrightarrow> get_points_by_thresholds v1 ts \<le> get_points_by_thresholds v2 ts"
proof (cases ts)
  case Nil
  then show ?thesis by (simp add: get_points_by_thresholds_def)
next
  case (Cons t0 rest)
  assume "v1 \<le> v2"
  then have "bisect_left ts v1 \<le> bisect_left ts v2"
    unfolding bisect_left_def by (rule bisect_left_loop_mono) simp
  then show ?thesis
    using Cons by (auto simp: get_points_by_thresholds_def)
qed

lemma get_points_by_thresholds_range:
  "ts \<noteq> [] \<Longrightarrow>
   0 \<le> get_points_by_thresholds v ts \<and>
   get_points_by_thresholds v ts \<le> int (length ts) - 1"
  by (cases ts) (simp_all add: get_points_by_thresholds_def)

text \<open>
  C8. For a non-empty threshold list the lookup is monotonically non-decreasing in the
  value and its result lies in \<open>[0, len(t) - 1]\<close>. The list need not be ascending.
\<close>

theorem get_points_by_thresholds_monotone_bounded:
  "ts \<noteq> [] \<Longrightarrow> v1 \<le> v2 \<Longrightarrow>
   get_points_by_thresholds v1 ts \<le> get_points_by_thresholds v2 ts \<and>
   0 \<le> get_points_by_thresholds v ts \<and>
   get_points_by_thresholds v ts \<le> int (length ts) - 1"
  using get_points_by_thresholds_mono [of v1 v2 ts]
        get_points_by_thresholds_range [of ts v]
  by simp

theorem get_points_by_thresholds_monotone_bounded_witness:
  "SODIUM_THRESHOLDS \<noteq> [] \<and> Fin 150 \<le> Fin 620 \<and>
   get_points_by_thresholds (Fin 150) SODIUM_THRESHOLDS
     \<le> get_points_by_thresholds (Fin 620) SODIUM_THRESHOLDS \<and>
   0 \<le> get_points_by_thresholds (Fin 2000) SODIUM_THRESHOLDS \<and>
   get_points_by_thresholds (Fin 2000) SODIUM_THRESHOLDS \<le> int (length SODIUM_THRESHOLDS) - 1"
proof -
  have ne: "SODIUM_THRESHOLDS \<noteq> []" by (simp add: SODIUM_THRESHOLDS_def)
  have le: "Fin 150 \<le> Fin 620" by simp
  show ?thesis
    using get_points_by_thresholds_monotone_bounded [OF ne le, of "Fin 2000"] ne le by simp
qed

section \<open>Claims about the threshold provider\<close>

lemma py_int_mono: "x \<le> y \<Longrightarrow> py_int x \<le> py_int y"
proof -
  assume xy: "x \<le> y"
  show ?thesis
  proof (cases "0 \<le> x")
    case True
    then show ?thesis using xy by (simp add: py_int_def floor_mono)
  next
    case False
    show ?thesis
    proof (cases "0 \<le> y")
      case True
      have "\<lceil>x\<rceil> \<le> 0" using False by (simp add: ceiling_le_iff)
      moreover have "0 \<le> \<lfloor>y\<rfloor>" using True by simp
      ultimately have "\<lceil>x\<rceil> \<le> \<lfloor>y\<rfloor>" by linarith
      then show ?thesis using False True by (simp add: py_int_def)
    next
      case ny: False
      then show ?thesis using False xy by (simp add: py_int_def ceiling_mono)
    qed
  qed
qed

lemma finite_list_is_map_Fin: "PInf \<notin> set xs \<Longrightarrow> \<exists>rs. xs = map Fin rs"
proof (induction xs)
  case Nil
  then show ?case by simp
next
  case (Cons x xs)
  then obtain rs where rs: "xs = map Fin rs" by auto
  from Cons.prems obtain r where "x = Fin r" by (cases x) auto
  then have "x # xs = map Fin (r # rs)" using rs by simp
  then show ?case by (rule exI)
qed

lemma sorted_map_Fin: "sorted (map Fin rs) = sorted rs"
  by (induction rs) auto

lemma PInf_notin_map_Fin: "PInf \<notin> set (map Fin rs)"
  by auto

lemma map_raise_int_times_Fin:
  "map_raise (int_times f) (map Fin rs) =
   Inr (map Fin (map (\<lambda>r. real_of_int (py_int (r * f))) rs))"
  by (induction rs) (simp_all add: int_times_def)

lemma map_raise_int_divide_Fin:
  "map_raise (int_divide q) (map Fin rs) =
   Inr (map Fin (map (\<lambda>r. real_of_int (py_int (r / q))) rs))"
  by (induction rs) (simp_all add: int_divide_def)

lemma sorted_map_mono:
  fixes g :: "real \<Rightarrow> real"
  assumes "\<And>x y. x \<le> y \<Longrightarrow> g x \<le> g y" "sorted rs"
  shows "sorted (map g rs)"
  using assms(2) by (induction rs) (auto intro: assms(1))

lemma map_raise_int_times_sorted:
  assumes "PInf \<notin> set xs" "sorted xs" "0 \<le> f"
  shows "\<exists>ys. map_raise (int_times f) xs = Inr ys \<and> PInf \<notin> set ys \<and> sorted ys"
proof -
  obtain rs where rs: "xs = map Fin rs"
    using finite_list_is_map_Fin [OF assms(1)] by blast
  have srs: "sorted rs" using assms(2) rs by (simp add: sorted_map_Fin)
  have "sorted (map (\<lambda>r. real_of_int (py_int (r * f))) rs)"
  proof (rule sorted_map_mono [OF _ srs])
    fix x y :: real assume "x \<le> y"
    then have "x * f \<le> y * f" using assms(3) by (rule mult_right_mono)
    then show "real_of_int (py_int (x * f)) \<le> real_of_int (py_int (y * f))"
      by (simp add: py_int_mono)
  qed
  then have "sorted (map Fin (map (\<lambda>r. real_of_int (py_int (r * f))) rs))"
    by (simp only: sorted_map_Fin)
  then show ?thesis
    using rs map_raise_int_times_Fin [of f rs] PInf_notin_map_Fin by blast
qed

lemma map_raise_int_divide_sorted:
  assumes "PInf \<notin> set xs" "sorted xs" "0 < q"
  shows "\<exists>ys. map_raise (int_divide q) xs = Inr ys \<and> PInf \<notin> set ys \<and> sorted ys"
proof -
  obtain rs where rs: "xs = map Fin rs"
    using finite_list_is_map_Fin [OF assms(1)] by blast
  have srs: "sorted rs" using assms(2) rs by (simp add: sorted_map_Fin)
  have "sorted (map (\<lambda>r. real_of_int (py_int (r / q))) rs)"
  proof (rule sorted_map_mono [OF _ srs])
    fix x y :: real assume "x \<le> y"
    then have "x / q \<le> y / q" using assms(3) by (simp add: divide_right_mono)
    then show "real_of_int (py_int (x / q)) \<le> real_of_int (py_int (y / q))"
      by (simp add: py_int_mono)
  qed
  then have "sorted (map Fin (map (\<lambda>r. real_of_int (py_int (r / q))) rs))"
    by (simp only: sorted_map_Fin)
  then show ?thesis
    using rs map_raise_int_divide_Fin [of q rs] PInf_notin_map_Fin by blast
qed

lemma adjust_satiety_ok:
  assumes "all_finite th" "all_sorted th" "0 \<le> satiety_index ctx"
  shows "\<exists>th'. adjust_satiety ctx th = Inr th' \<and> all_finite th' \<and> all_sorted th'"
proof (cases "satiety_index ctx = 1")
  case True
  then show ?thesis using assms by (simp add: adjust_satiety_def)
next
  case False
  obtain ys where "map_raise (int_times (satiety_index ctx)) (thr_energy_density th) = Inr ys"
    "PInf \<notin> set ys" "sorted ys"
    using map_raise_int_times_sorted [of "thr_energy_density th" "satiety_index ctx"] assms
    by (auto simp: all_finite_def all_sorted_def)
  then show ?thesis
    using False assms(1,2)
    by (simp add: adjust_satiety_def bind_raise_def all_finite_def all_sorted_def)
qed

lemma adjust_ultra_processed_ok:
  assumes "all_finite th" "all_sorted th"
  shows "\<exists>th'. adjust_ultra_processed ctx th = Inr th' \<and> all_finite th' \<and> all_sorted th'"
proof (cases "processing_level ctx = ''ultra_processed''")
  case False
  then show ?thesis using assms by (simp add: adjust_ultra_processed_def)
next
  case True
  obtain ys where "map_raise (int_times 0.8) (thr_sugar_added th) = Inr ys"
    "PInf \<notin> set ys" "sorted ys"
    using map_raise_int_times_sorted [of "thr_sugar_added th" "0.8"] assms
    by (auto simp: all_finite_def all_sorted_def)
  then show ?thesis
    using True assms
    by (simp add: adjust_ultra_processed_def bind_raise_def all_finite_def all_sorted_def)
qed

lemma adjust_liquid_ok:
  assumes "all_finite th" "all_sorted th" "liquid_percentage ctx \<le> 1"
  shows "\<exists>th'. adjust_liquid ctx th = Inr th' \<and> all_finite th' \<and> all_sorted th'"
proof (cases "liquid_percentage ctx > 0.3")
  case False
  then show ?thesis using assms by (simp add: adjust_liquid_def)
next
  case True
  define lf where "lf = 1 - liquid_percentage ctx * 0.3"
  have lf: "0 \<le> lf" using assms(3) by (simp add: lf_def)
  obtain es where es: "map_raise (int_times lf) (thr_energy_density th) = Inr es"
    "PInf \<notin> set es" "sorted es"
    using map_raise_int_times_sorted [of "thr_energy_density th" lf] assms(1,2) lf
    by (auto simp: all_finite_def all_sorted_def)
  obtain ss where ss: "map_raise (int_times lf) (thr_sugar_natural th) = Inr ss"
    "PInf \<notin> set ss" "sorted ss"
    using map_raise_int_times_sorted [of "thr_sugar_natural th" lf] assms(1,2) lf
    by (auto simp: all_finite_def all_sorted_def)
  have "adjust_liquid ctx th = Inr (th\<lparr>thr_energy_density := es, thr_sugar_natural := ss\<rparr>)"
    using True es(1) ss(1) by (simp add: adjust_liquid_def bind_raise_def Let_def lf_def)
  then show ?thesis
    using es ss assms(1,2) by (simp add: all_finite_def all_sorted_def)
qed

lemma adjust_protein_quality_ok:
  assumes "all_finite th" "all_sorted th"
  shows "\<exists>th'. adjust_protein_quality ctx th = Inr th' \<and> all_finite th' \<and> all_sorted th'"
proof (cases "protein_quality_score ctx > 1")
  case False
  then show ?thesis using assms by (simp add: adjust_protein_quality_def)
next
  case True
  then have "0 < protein_quality_score ctx" by simp
  then obtain ys where
    "map_raise (int_divide (protein_quality_score ctx)) (thr_protein th) = Inr ys"
    "PInf \<notin> set ys" "sorted ys"
    using map_raise_int_divide_sorted [of "thr_protein th" "protein_quality_score ctx"] assms
    by (auto simp: all_finite_def all_sorted_def)
  then show ?thesis
    using True assms
    by (simp add: adjust_protein_quality_def bind_raise_def all_finite_def all_sorted_def)
qed

lemma base_thresholds_ok: "all_finite base_thresholds \<and> all_sorted base_thresholds"
  by (simp add: all_finite_def all_sorted_def base_thresholds_def
      ENERGY_DENSITY_THRESHOLDS_def NATURAL_SUGAR_THRESHOLDS_def ADDED_SUGAR_THRESHOLDS_def
      SATURATED_FAT_THRESHOLDS_def SODIUM_THRESHOLDS_def FVNL_THRESHOLDS_def
      PROTEIN_THRESHOLDS_def FIBER_THRESHOLDS_def STAR_RATING_THRESHOLDS_def)

lemma apply_contextual_adjustments_ok:
  assumes "all_finite th" "all_sorted th" "0 \<le> satiety_index ctx" "liquid_percentage ctx \<le> 1"
  shows "\<exists>th'. apply_contextual_adjustments th ctx = Inr th' \<and> all_finite th' \<and> all_sorted th'"
proof -
  obtain t1 where t1: "adjust_satiety ctx th = Inr t1" "all_finite t1" "all_sorted t1"
    using adjust_satiety_ok [OF assms(1,2,3)] by blast
  obtain t2 where t2: "adjust_ultra_processed ctx t1 = Inr t2" "all_finite t2" "all_sorted t2"
    using adjust_ultra_processed_ok [OF t1(2,3)] by blast
  obtain t3 where t3: "adjust_liquid ctx t2 = Inr t3" "all_finite t3" "all_sorted t3"
    using adjust_liquid_ok [OF t2(2,3) assms(4)] by blast
  obtain t4 where t4: "adjust_protein_quality ctx t3 = Inr t4" "all_finite t4" "all_sorted t4"
    using adjust_protein_quality_ok [OF t3(2,3)] by blast
  have "apply_contextual_adjustments th ctx = Inr t4"
    using t1(1) t2(1) t3(1) t4(1) by (simp add: apply_contextual_adjustments_def bind_raise_def)
  then show ?thesis using t4 by blast
qed

lemma sorted_map_fl_mono:
  fixes g :: "fl \<Rightarrow> fl"
  assumes "\<And>x y. x \<le> y \<Longrightarrow> g x \<le> g y" "sorted xs"
  shows "sorted (map g xs)"
  using assms(2) by (induction xs) (auto intro: assms(1))

lemma cheese_protein_mono: "x \<le> y \<Longrightarrow> cheese_protein x \<le> cheese_protein y"
  by (cases x; cases y) (auto simp: cheese_protein_def)

lemma oils_energy_mono: "x \<le> y \<Longrightarrow> oils_energy x \<le> oils_energy y"
  by (cases x; cases y) (auto simp: oils_energy_def)

lemma sorted_replicate_PInf: "sorted (replicate n PInf)"
  by (induction n) auto

lemma apply_category_adjustments_sorted:
  "all_sorted th \<Longrightarrow> all_sorted (apply_category_adjustments th c)"
  by (cases c)
     (simp_all add: apply_category_adjustments_def all_sorted_def sorted_replicate_PInf
        sorted_map_fl_mono [OF cheese_protein_mono] sorted_map_fl_mono [OF oils_energy_mono])

lemma get_thresholds_sorted:
  assumes "case nutritional of None \<Rightarrow> True
           | Some ctx \<Rightarrow> 0 \<le> satiety_index ctx \<and> liquid_percentage ctx \<le> 1"
  shows "\<exists>th. get_thresholds c nutritional = Inr th \<and> all_sorted th"
proof (cases nutritional)
  case None
  then show ?thesis
    using base_thresholds_ok
    by (simp add: get_thresholds_def bind_raise_def apply_category_adjustments_sorted)
next
  case (Some ctx)
  then have "0 \<le> satiety_index ctx" "liquid_percentage ctx \<le> 1" using assms by simp_all
  then obtain th' where "apply_contextual_adjustments base_thresholds ctx = Inr th'" "all_sorted th'"
    using apply_contextual_adjustments_ok [of base_thresholds ctx] base_thresholds_ok by blast
  then show ?thesis
    using Some by (simp add: get_thresholds_def bind_raise_def apply_category_adjustments_sorted)
qed

section \<open>Claims about the component scorer\<close>

lemma max_py_int_floor: "max 0 (py_int x) = max 0 \<lfloor>x\<rfloor>"
proof (cases "0 \<le> x")
  case True
  then show ?thesis by (simp add: py_int_def)
next
  case False
  then have "\<lceil>x\<rceil> \<le> 0" "\<lfloor>x\<rfloor> < 0" by (simp_all add: ceiling_le_iff floor_less_iff)
  then show ?thesis using False by (simp add: py_int_def)
qed

lemma calculate_components_facts:
  assumes "aggregated (meal self)" "satiety_index (nutritional_context self) \<noteq> 0"
  shows "\<exists>s. calculate_components self = Inr (s, self) \<and>
     final_score s =
       max 0 (py_int (real_of_int (max 0 (baseline_points s - modifying_points s))
                      + satiety_adjustment s + processing_penalty s + naturalness_bonus s)) \<and>
     star_rating s = convert_to_star_rating (final_score s) \<and>
     sugar_points s =
       py_int (real_of_int (sugar_natural_points s) * 0.7
               + real_of_int (sugar_added_points s) * 1.3) \<and>
     sugar_natural_points s =
       get_points_by_thresholds (Fin (natural_sugars (sugar_analysis self)))
         (thr_sugar_natural (thresholds self)) \<and>
     sugar_added_points s =
       get_points_by_thresholds (Fin (added_sugars (sugar_analysis self)))
         (thr_sugar_added (thresholds self))"
proof -
  from assms(1) obtain e sf na p f fv where attrs:
    "energy_kilocalories (meal self) = Some e"
    "fatty_acids_saturated_total (meal self) = Some sf"
    "sodium (meal self) = Some na"
    "protein (meal self) = Some p"
    "fibre_total_dietary (meal self) = Some f"
    "fvnl_percent (meal self) = Some fv"
    by (auto simp: aggregated_def)
  show ?thesis
    using attrs assms(2)
    by (simp add: calculate_components_def bind_raise_def attr_def Let_def
        get_energy_points_def get_saturated_fat_points_def get_sodium_points_def
        get_protein_points_def get_fiber_points_def get_fvnl_points_def
        get_sugar_points_def calculate_confidence_def)
qed

text \<open>
  C6. Once the meal's aggregated values exist and the satiety index is not 0, the
  component calculation returns, its final score is
  \<open>max(0, floor(max(0, baseline - modifying) + satiety_adjustment + processing_penalty +
  naturalness_bonus))\<close>, and the star rating is the descending step function of that
  score; a score of 35 gives 1.5 stars.
\<close>

theorem final_score_and_star_rating:
  "aggregated (meal self) \<Longrightarrow> satiety_index (nutritional_context self) \<noteq> 0 \<Longrightarrow>
   \<exists>s. calculate_components self = Inr (s, self) \<and>
     final_score s =
       max 0 \<lfloor>real_of_int (max 0 (baseline_points s - modifying_points s))
              + satiety_adjustment s + processing_penalty s + naturalness_bonus s\<rfloor> \<and>
     star_rating s =
       (if final_score s \<le> 0 then 5
        else if final_score s \<le> 5 then 4.5
        else if final_score s \<le> 10 then 4
        else if final_score s \<le> 15 then 3.5
        else if final_score s \<le> 20 then 3
        else if final_score s \<le> 25 then 2.5
        else if final_score s \<le> 30 then 2
        else if final_score s \<le> 35 then 1.5
        else 1) \<and>
     (final_score s = 35 \<longrightarrow> star_rating s = 1.5)"
proof -
  assume "aggregated (meal self)" "satiety_index (nutritional_context self) \<noteq> 0"
  then obtain s where s: "calculate_components self = Inr (s, self)"
    "final_score s =
       max 0 (py_int (real_of_int (max 0 (baseline_points s - modifying_points s))
                      + satiety_adjustment s + processing_penalty s + naturalness_bonus s))"
    "star_rating s = convert_to_star_rating (final_score s)"
    using calculate_components_facts [of self] by blast
  have "final_score s =
       max 0 \<lfloor>real_of_int (max 0 (baseline_points s - modifying_points s))
              + satiety_adjustment s + processing_penalty s + naturalness_bonus s\<rfloor>"
    using s(2) by (simp only: max_py_int_floor)
  moreover have "star_rating s =
       (if final_score s \<le> 0 then 5
        else if final_score s \<le> 5 then 4.5
        else if final_score s \<le> 10 then 4
        else if final_score s \<le> 15 then 3.5
        else if final_score s \<le> 20 then 3
        else if final_score s \<le> 25 then 2.5
        else if final_score s \<le> 30 then 2
        else if final_score s \<le> 35 then 1.5
        else 1)"
    using s(3) by (simp add: convert_to_star_rating_def)
  moreover have "final_score s = 35 \<longrightarrow> star_rating s = 1.5"
    using s(3) by (simp add: convert_to_star_rating_def)
  ultimately show ?thesis using s(1) by blast
qed

lemma aggregated_example: "aggregated (meal example_calculator)"
  by (simp add: example_calculator_def example_meal_def aggregated_def Meal_fields_def)

lemma satiety_example: "satiety_index (nutritional_context example_calculator) \<noteq> 0"
  by (simp add: example_calculator_def example_context_def)

lemmas threshold_constants =
  ENERGY_DENSITY_THRESHOLDS_def NATURAL_SUGAR_THRESHOLDS_def ADDED_SUGAR_THRESHOLDS_def
  SATURATED_FAT_THRESHOLDS_def SODIUM_THRESHOLDS_def FVNL_THRESHOLDS_def
  PROTEIN_THRESHOLDS_def FIBER_THRESHOLDS_def STAR_RATING_THRESHOLDS_def

lemma example_components:
  "\<exists>s. calculate_components example_calculator = Inr (s, example_calculator) \<and>
       energy_points s = 10 \<and> saturated_fat_points s = 10 \<and> sodium_points s = 10 \<and>
       sugar_natural_points s = 5 \<and> sugar_added_points s = 10 \<and> sugar_points s = 16 \<and>
       baseline_points s = 46 \<and> modifying_points s = 11 \<and> satiety_adjustment s = 0 \<and>
       processing_penalty s = 0 \<and> naturalness_bonus s = 0"
  by (simp add: calculate_components_def bind_raise_def attr_def Let_def
        get_energy_points_def get_saturated_fat_points_def get_sodium_points_def
        get_protein_points_def get_fiber_points_def get_fvnl_points_def
        get_sugar_points_def calculate_confidence_def
        example_calculator_def example_meal_def example_context_def Meal_fields_def
        default_config_def base_thresholds_def threshold_constants
        get_points_by_thresholds_sorted py_int_def
        calculate_satiety_adjustment_def calculate_processing_penalty_def
        calculate_naturalness_bonus_def)

theorem final_score_and_star_rating_witness:
  "aggregated (meal example_calculator) \<and>
   satiety_index (nutritional_context example_calculator) \<noteq> 0 \<and>
   (\<exists>s. calculate_components example_calculator = Inr (s, example_calculator) \<and>
        baseline_points s = 46 \<and> modifying_points s = 11 \<and>
        final_score s = 35 \<and> star_rating s = 1.5)"
proof -
  obtain s where s: "calculate_components example_calculator = Inr (s, example_calculator)"
    "final_score s =
       max 0 \<lfloor>real_of_int (max 0 (baseline_points s - modifying_points s))
              + satiety_adjustment s + processing_penalty s + naturalness_bonus s\<rfloor>"
    "final_score s = 35 \<longrightarrow> star_rating s = 1.5"
    using final_score_and_star_rating [OF aggregated_example satiety_example] by blast
  obtain s' where s': "calculate_components example_calculator = Inr (s', example_calculator)"
    "baseline_points s' = 46" "modifying_points s' = 11" "satiety_adjustment s' = 0"
    "processing_penalty s' = 0" "naturalness_bonus s' = 0"
    using example_components by blast
  have eq: "s = s'" using s(1) s'(1) by simp
  have "final_score s = 35" using s(2) s'(2-6) by (simp add: eq)
  then show ?thesis
    using s(1,3) s'(2,3) eq aggregated_example satiety_example by blast
qed

section \<open>Claims about the sugar blend\<close>

lemma count_below_antimono:
  fixes xs ys :: "fl list"
  shows "list_all2 (\<le>) xs ys \<Longrightarrow>
         length (filter (\<lambda>t. t < v) ys) \<le> length (filter (\<lambda>t. t < v) xs)"
  by (induction rule: list_all2_induct) auto

lemma le_py_int: "real_of_int k \<le> x \<Longrightarrow> 0 \<le> x \<Longrightarrow> k \<le> py_int x"
  by (simp add: py_int_def le_floor_iff)

text \<open>What each adjustment step does to the two sugar lists.\<close>

lemma adjust_satiety_sugar:
  "adjust_satiety ctx t = Inr t' \<Longrightarrow>
   thr_sugar_natural t' = thr_sugar_natural t \<and> thr_sugar_added t' = thr_sugar_added t"
  by (auto simp: adjust_satiety_def bind_raise_def split: if_splits sum.splits)

lemma adjust_ultra_processed_sugar:
  "adjust_ultra_processed ctx t = Inr t' \<Longrightarrow>
   thr_sugar_natural t' = thr_sugar_natural t \<and>
   (thr_sugar_added t' = thr_sugar_added t \<or>
    map_raise (int_times 0.8) (thr_sugar_added t) = Inr (thr_sugar_added t'))"
  by (auto simp: adjust_ultra_processed_def bind_raise_def split: if_splits sum.splits)

lemma adjust_liquid_sugar:
  "adjust_liquid ctx t = Inr t' \<Longrightarrow>
   thr_sugar_added t' = thr_sugar_added t \<and>
   (if liquid_percentage ctx > 0.3
    then map_raise (int_times (1 - liquid_percentage ctx * 0.3)) (thr_sugar_natural t)
           = Inr (thr_sugar_natural t')
    else thr_sugar_natural t' = thr_sugar_natural t)"
  by (auto simp: adjust_liquid_def bind_raise_def Let_def split: if_splits sum.splits)

lemma adjust_protein_quality_sugar:
  "adjust_protein_quality ctx t = Inr t' \<Longrightarrow>
   thr_sugar_natural t' = thr_sugar_natural t \<and> thr_sugar_added t' = thr_sugar_added t"
  by (auto simp: adjust_protein_quality_def bind_raise_def split: if_splits sum.splits)

lemma apply_category_adjustments_sugar:
  "thr_sugar_natural (apply_category_adjustments t c) = thr_sugar_natural t \<and>
   thr_sugar_added (apply_category_adjustments t c) = thr_sugar_added t"
  by (simp add: apply_category_adjustments_def)

lemma bind_raise_Inr_iff:
  "bind_raise r f = Inr y \<longleftrightarrow> (\<exists>x. r = Inr x \<and> f x = Inr y)"
  by (cases r) (simp_all add: bind_raise_def)

text \<open>The added-sugar list, scaled by 0.8 or not, lies pointwise below the base list.\<close>

lemma added_scaled_le:
  "map_raise (int_times 0.8) ADDED_SUGAR_THRESHOLDS = Inr ys \<Longrightarrow>
   list_all2 (\<le>) ys ADDED_SUGAR_THRESHOLDS"
  by (auto simp: ADDED_SUGAR_THRESHOLDS_def int_times_def py_int_def)

text \<open>
  The base added-sugar list lies pointwise below the natural-sugar list, also after the
  latter has been scaled by a liquid factor of at least 0.7.
\<close>

lemma added_le_natural: "list_all2 (\<le>) ADDED_SUGAR_THRESHOLDS NATURAL_SUGAR_THRESHOLDS"
  by (simp add: ADDED_SUGAR_THRESHOLDS_def NATURAL_SUGAR_THRESHOLDS_def)

lemma added_le_natural_scaled:
  assumes "0.7 \<le> lf" "map_raise (int_times lf) NATURAL_SUGAR_THRESHOLDS = Inr ys"
  shows "list_all2 (\<le>) ADDED_SUGAR_THRESHOLDS ys"
proof -
  have k: "\<And>k n. real_of_int k \<le> n * 0.7 \<Longrightarrow> 0 \<le> n \<Longrightarrow> k \<le> py_int (n * lf)"
  proof -
    fix k :: int and n :: real
    assume a: "real_of_int k \<le> n * 0.7" "0 \<le> n"
    have "n * 0.7 \<le> n * lf" using assms(1) a(2) by (rule mult_left_mono)
    moreover have "0 \<le> n * lf" using assms(1) a(2) by simp
    ultimately show "k \<le> py_int (n * lf)" using a(1) by (intro le_py_int) simp_all
  qed
  have "ys = map (\<lambda>n. Fin (real_of_int (py_int (n * lf)))) [0, 5, 8, 12, 15, 18, 22, 25, 28, 32, 35]"
    using assms(2) by (auto simp: NATURAL_SUGAR_THRESHOLDS_def int_times_def)
  moreover have "(0::int) \<le> py_int (0 * lf)" "1 \<le> py_int (5 * lf)" "2 \<le> py_int (8 * lf)"
    "3 \<le> py_int (12 * lf)" "4 \<le> py_int (15 * lf)" "5 \<le> py_int (18 * lf)"
    "6 \<le> py_int (22 * lf)" "8 \<le> py_int (25 * lf)" "10 \<le> py_int (28 * lf)"
    "12 \<le> py_int (32 * lf)" "15 \<le> py_int (35 * lf)"
    by (rule k; simp)+
  ultimately show ?thesis
    by (simp add: ADDED_SUGAR_THRESHOLDS_def)
qed

lemma sugar_base_lists:
  "sorted ADDED_SUGAR_THRESHOLDS" "PInf \<notin> set ADDED_SUGAR_THRESHOLDS"
  "sorted NATURAL_SUGAR_THRESHOLDS" "PInf \<notin> set NATURAL_SUGAR_THRESHOLDS"
  by (simp_all add: ADDED_SUGAR_THRESHOLDS_def NATURAL_SUGAR_THRESHOLDS_def)

lemma contextual_sugar_lists:
  assumes a: "apply_contextual_adjustments base_thresholds ctx = Inr th"
    and lp: "liquid_percentage ctx \<le> 1"
  shows "sorted (thr_sugar_added th) \<and> sorted (thr_sugar_natural th) \<and>
         PInf \<notin> set (thr_sugar_added th) \<and> PInf \<notin> set (thr_sugar_natural th) \<and>
         list_all2 (\<le>) (thr_sugar_added th) (thr_sugar_natural th)"
proof -
  from a obtain t1 t2 t3 where steps:
    "adjust_satiety ctx base_thresholds = Inr t1"
    "adjust_ultra_processed ctx t1 = Inr t2"
    "adjust_liquid ctx t2 = Inr t3"
    "adjust_protein_quality ctx t3 = Inr th"
    by (auto simp: apply_contextual_adjustments_def bind_raise_Inr_iff)
  have b: "thr_sugar_added base_thresholds = ADDED_SUGAR_THRESHOLDS"
    "thr_sugar_natural base_thresholds = NATURAL_SUGAR_THRESHOLDS"
    by (simp_all add: base_thresholds_def)
  have t1: "thr_sugar_added t1 = ADDED_SUGAR_THRESHOLDS"
    "thr_sugar_natural t1 = NATURAL_SUGAR_THRESHOLDS"
    using adjust_satiety_sugar [OF steps(1)] b by simp_all
  have n2: "thr_sugar_natural t2 = NATURAL_SUGAR_THRESHOLDS"
    using adjust_ultra_processed_sugar [OF steps(2)] t1 by simp
  have a2: "sorted (thr_sugar_added t2) \<and> PInf \<notin> set (thr_sugar_added t2) \<and>
            list_all2 (\<le>) (thr_sugar_added t2) ADDED_SUGAR_THRESHOLDS"
  proof -
    from adjust_ultra_processed_sugar [OF steps(2)] t1
    consider "thr_sugar_added t2 = ADDED_SUGAR_THRESHOLDS"
      | "map_raise (int_times 0.8) ADDED_SUGAR_THRESHOLDS = Inr (thr_sugar_added t2)"
      by auto
    then show ?thesis
    proof cases
      case 1
      then show ?thesis using sugar_base_lists(1,2) by (simp add: list_all2_refl)
    next
      case 2
      obtain ys where "map_raise (int_times 0.8) ADDED_SUGAR_THRESHOLDS = Inr ys"
        "PInf \<notin> set ys" "sorted ys"
        using map_raise_int_times_sorted [OF sugar_base_lists(2,1), of "0.8"] by auto
      then show ?thesis using 2 added_scaled_le [OF 2] by simp
    qed
  qed
  have a3: "thr_sugar_added t3 = thr_sugar_added t2"
    using adjust_liquid_sugar [OF steps(3)] by simp
  have n3: "sorted (thr_sugar_natural t3) \<and> PInf \<notin> set (thr_sugar_natural t3) \<and>
            list_all2 (\<le>) ADDED_SUGAR_THRESHOLDS (thr_sugar_natural t3)"
  proof (cases "liquid_percentage ctx > 0.3")
    case False
    then have "thr_sugar_natural t3 = NATURAL_SUGAR_THRESHOLDS"
      using adjust_liquid_sugar [OF steps(3)] n2 by simp
    then show ?thesis using sugar_base_lists(3,4) added_le_natural by simp
  next
    case True
    define lf where "lf = 1 - liquid_percentage ctx * 0.3"
    have lf: "0.7 \<le> lf" using lp by (simp add: lf_def)
    have m: "map_raise (int_times lf) NATURAL_SUGAR_THRESHOLDS = Inr (thr_sugar_natural t3)"
      using adjust_liquid_sugar [OF steps(3)] n2 True by (simp add: lf_def)
    have "0 \<le> lf" using lf by simp
    then obtain ys where "map_raise (int_times lf) NATURAL_SUGAR_THRESHOLDS = Inr ys"
      "PInf \<notin> set ys" "sorted ys"
      using map_raise_int_times_sorted [OF sugar_base_lists(4,3), of lf] by auto
    then show ?thesis using m added_le_natural_scaled [OF lf m] by simp
  qed
  have fin: "thr_sugar_added th = thr_sugar_added t2" "thr_sugar_natural th = thr_sugar_natural t3"
    using adjust_protein_quality_sugar [OF steps(4)] a3 by simp_all
  have "list_all2 (\<le>) (thr_sugar_added t2) (thr_sugar_natural t3)"
    using a2 n3 by (auto elim: list_all2_trans [rotated])
  then show ?thesis using a2 n3 fin by simp
qed

lemma get_thresholds_sugar_lists:
  assumes g: "get_thresholds c nutritional = Inr th"
    and h: "case nutritional of None \<Rightarrow> True | Some ctx \<Rightarrow> liquid_percentage ctx \<le> 1"
  shows "sorted (thr_sugar_added th) \<and> sorted (thr_sugar_natural th) \<and>
         PInf \<notin> set (thr_sugar_added th) \<and> PInf \<notin> set (thr_sugar_natural th) \<and>
         list_all2 (\<le>) (thr_sugar_added th) (thr_sugar_natural th)"
proof (cases nutritional)
  case None
  then have "th = apply_category_adjustments base_thresholds c"
    using g by (simp add: get_thresholds_def bind_raise_def)
  then show ?thesis
    using sugar_base_lists added_le_natural
    by (simp add: apply_category_adjustments_sugar base_thresholds_def)
next
  case (Some ctx)
  then obtain th0 where th0: "apply_contextual_adjustments base_thresholds ctx = Inr th0"
    "th = apply_category_adjustments th0 c"
    using g by (auto simp: get_thresholds_def bind_raise_Inr_iff)
  have "liquid_percentage ctx \<le> 1" using h Some by simp
  from contextual_sugar_lists [OF th0(1) this] show ?thesis
    by (simp add: th0(2) apply_category_adjustments_sugar)
qed

lemma sugar_points_added_ge_natural:
  assumes "sorted a" "sorted n" "PInf \<notin> set a" "PInf \<notin> set n" "list_all2 (\<le>) a n"
  shows "0 \<le> get_sugar_points v n \<and> get_sugar_points v n \<le> get_sugar_points v a"
proof (cases a)
  case Nil
  then have "n = []" using assms(5) by simp
  then show ?thesis using Nil by (simp add: get_sugar_points_def get_points_by_thresholds_def)
next
  case (Cons a0 as)
  then have ne: "a \<noteq> []" "n \<noteq> []" using assms(5) by auto
  have hd: "hd a \<noteq> PInf" "hd n \<noteq> PInf"
    using ne assms(3,4) by (metis hd_in_set)+
  have len: "length a = length n" using assms(5) by (rule list_all2_lengthD)
  have cnt: "length (filter (\<lambda>t. t < Fin v) n) \<le> length (filter (\<lambda>t. t < Fin v) a)"
    using assms(5) by (rule count_below_antimono)
  have pa: "get_sugar_points v a =
      min (int (length (filter (\<lambda>t. t < Fin v) a))) (int (length a) - 1)"
    by (simp add: get_sugar_points_def get_points_by_thresholds_sorted [OF assms(1) ne(1) hd(1)])
  have pn: "get_sugar_points v n =
      min (int (length (filter (\<lambda>t. t < Fin v) n))) (int (length n) - 1)"
    by (simp add: get_sugar_points_def get_points_by_thresholds_sorted [OF assms(2) ne(2) hd(2)])
  have "0 < length n" using ne(2) by simp
  then show ?thesis
    using cnt len unfolding pa pn by (auto simp: min_def)
qed

text \<open>
  C7. The combined sugar points are the truncation of natural-sugar points times 0.7
  plus added-sugar points times 1.3, each sub-score being the lookup of that sugar
  amount in its own threshold list. For thresholds produced by the provider under a
  liquid percentage of at most 1, equal gram amounts give an added-sugar contribution
  (points times 1.3) at least as large as the natural-sugar contribution (points times 0.7).
\<close>

theorem sugar_points_blend:
  "(aggregated (meal self) \<and> satiety_index (nutritional_context self) \<noteq> 0 \<longrightarrow>
      (\<exists>s. calculate_components self = Inr (s, self) \<and>
         sugar_points s =
           py_int (real_of_int (sugar_natural_points s) * 0.7
                   + real_of_int (sugar_added_points s) * 1.3) \<and>
         sugar_natural_points s =
           get_sugar_points (natural_sugars (sugar_analysis self))
             (thr_sugar_natural (thresholds self)) \<and>
         sugar_added_points s =
           get_sugar_points (added_sugars (sugar_analysis self))
             (thr_sugar_added (thresholds self)))) \<and>
   (get_thresholds c nutritional = Inr th \<and>
    (case nutritional of None \<Rightarrow> True | Some ctx \<Rightarrow> liquid_percentage ctx \<le> 1) \<longrightarrow>
      real_of_int (get_sugar_points v (thr_sugar_natural th)) * 0.7
        \<le> real_of_int (get_sugar_points v (thr_sugar_added th)) * 1.3)"
proof (intro conjI impI)
  assume "aggregated (meal self) \<and> satiety_index (nutritional_context self) \<noteq> 0"
  then show "\<exists>s. calculate_components self = Inr (s, self) \<and>
         sugar_points s =
           py_int (real_of_int (sugar_natural_points s) * 0.7
                   + real_of_int (sugar_added_points s) * 1.3) \<and>
         sugar_natural_points s =
           get_sugar_points (natural_sugars (sugar_analysis self))
             (thr_sugar_natural (thresholds self)) \<and>
         sugar_added_points s =
           get_sugar_points (added_sugars (sugar_analysis self))
             (thr_sugar_added (thresholds self))"
    using calculate_components_facts [of self] by (auto simp: get_sugar_points_def)
next
  assume "get_thresholds c nutritional = Inr th \<and>
    (case nutritional of None \<Rightarrow> True | Some ctx \<Rightarrow> liquid_percentage ctx \<le> 1)"
  then have l: "sorted (thr_sugar_added th) \<and> sorted (thr_sugar_natural th) \<and>
         PInf \<notin> set (thr_sugar_added th) \<and> PInf \<notin> set (thr_sugar_natural th) \<and>
         list_all2 (\<le>) (thr_sugar_added th) (thr_sugar_natural th)"
    using get_thresholds_sugar_lists [of c nutritional th] by blast
  have "0 \<le> get_sugar_points v (thr_sugar_natural th) \<and>
        get_sugar_points v (thr_sugar_natural th) \<le> get_sugar_points v (thr_sugar_added th)"
    using sugar_points_added_ge_natural [of "thr_sugar_added th" "thr_sugar_natural th" v] l
    by blast
  then show "real_of_int (get_sugar_points v (thr_sugar_natural th)) * 0.7
        \<le> real_of_int (get_sugar_points v (thr_sugar_added th)) * 1.3"
    by simp
qed

lemma liquid_context_in_range:
  "0 \<le> satiety_index liquid_context" "liquid_percentage liquid_context \<le> 1"
  by (simp_all add: liquid_context_def)

theorem sugar_points_blend_witness:
  "aggregated (meal example_calculator) \<and>
   satiety_index (nutritional_context example_calculator) \<noteq> 0 \<and>
   (\<exists>s. calculate_components example_calculator = Inr (s, example_calculator) \<and>
        sugar_natural_points s = 5 \<and> sugar_added_points s = 10 \<and> sugar_points s = 16) \<and>
   liquid_percentage liquid_context \<le> 1 \<and>
   (\<exists>th. get_thresholds DAIRY_BEVERAGE (Some liquid_context) = Inr th \<and>
      real_of_int (get_sugar_points 16 (thr_sugar_natural th)) * 0.7
        \<le> real_of_int (get_sugar_points 16 (thr_sugar_added th)) * 1.3)"
proof -
  obtain th where th: "get_thresholds DAIRY_BEVERAGE (Some liquid_context) = Inr th"
    using get_thresholds_sorted [of "Some liquid_context" DAIRY_BEVERAGE] liquid_context_in_range
    by auto
  have h: "case Some liquid_context of None \<Rightarrow> True | Some ctx \<Rightarrow> liquid_percentage ctx \<le> 1"
    using liquid_context_in_range by simp
  note blend = sugar_points_blend [of example_calculator DAIRY_BEVERAGE "Some liquid_context" th 16]
  have "real_of_int (get_sugar_points 16 (thr_sugar_natural th)) * 0.7
        \<le> real_of_int (get_sugar_points 16 (thr_sugar_added th)) * 1.3"
    using blend th h by blast
  moreover obtain s where "calculate_components example_calculator = Inr (s, example_calculator)"
    "sugar_points s =
       py_int (real_of_int (sugar_natural_points s) * 0.7
               + real_of_int (sugar_added_points s) * 1.3)"
    using blend aggregated_example satiety_example by blast
  moreover obtain s' where "calculate_components example_calculator = Inr (s', example_calculator)"
    "sugar_natural_points s' = 5" "sugar_added_points s' = 10" "sugar_points s' = 16"
    using example_components by blast
  ultimately show ?thesis
    using th aggregated_example satiety_example liquid_context_in_range(2) by blast
qed

text \<open>
  C7 as stated fails in its second half: it does not hold for every threshold set that
  the provider produces. For the meal of 500 g of orange juice and -400 g of crackers
  (liquid percentage 5, liquid factor -0.5) the natural-sugar list is decreasing. The
  meal has
  0 g of natural and 0 g of added sugars per 100 g; the calculation gives 10
  natural-sugar points and 0 added-sugar points, so the weighted natural contribution
  is 7.0 against 0, and 7 sugar points. At 0.5 g each the points are 10 and 1, that is
  7.0 against 1.3.
\<close>

theorem sugar_points_blend_counterexample:
  "map_sum id
     (\<lambda>(s, calc). (liquid_percentage (nutritional_context calc),
                   natural_sugars (sugar_analysis calc), added_sugars (sugar_analysis calc),
                   sugar_natural_points s, sugar_added_points s, sugar_points s,
                   get_sugar_points 0.5 (thr_sugar_natural (thresholds calc)),
                   get_sugar_points 0.5 (thr_sugar_added (thresholds calc))))
     (bind_raise (new_HSRCalculator negative_serving_meal default_config) calculate_components)
   = Inr (5, 0, 0, 10, 0, 7, 10, 1)"
  by code_simp

section \<open>Properties of the calculation on the heap\<close>

text \<open>
  Every step of \<open>calculate_hsr\<close> leaves the objects that existed before it as they
  were: reading changes nothing, a new list gets the next free address, and each
  \<open>append\<close> goes to a list that the calculation has made itself.
\<close>

lemma frame_returning: "frame n (returning x) (\<lambda>u. True)"
  by (simp add: frame_def returning_def)

lemma frame_pure_step: "frame n (pure_step r) (\<lambda>u. True)"
  by (simp add: frame_def pure_step_def)

lemma frame_then_do:
  assumes m: "frame n m P" and f: "\<And>x. P x \<Longrightarrow> frame n (f x) Q"
  shows "frame n (then_do m f) Q"
  unfolding frame_def
proof (intro allI impI)
  fix h :: heap
  assume n: "n \<le> length h"
  obtain r h' where mh: "m h = (r, h')" by (cases "m h")
  have k: "n \<le> length h'" "take n h' = take n h" "\<forall>x. r = Inr x \<longrightarrow> P x"
    using m n mh by (auto simp: frame_def)
  show "n \<le> length (snd (then_do m f h)) \<and> take n (snd (then_do m f h)) = take n h \<and>
        (\<forall>x. fst (then_do m f h) = Inr x \<longrightarrow> Q x)"
  proof (cases r)
    case (Inl e)
    then show ?thesis using k mh by (simp add: then_do_def)
  next
    case (Inr x)
    then have "P x" using k(3) by simp
    then have "frame n (f x) Q" by (rule f)
    then have "n \<le> length (snd (f x h')) \<and> take n (snd (f x h')) = take n h' \<and>
               (\<forall>y. fst (f x h') = Inr y \<longrightarrow> Q y)"
      using k(1) by (simp add: frame_def)
    then show ?thesis using Inr mh k(2) by (simp add: then_do_def)
  qed
qed

lemma frame_if: "frame n p Q \<Longrightarrow> frame n q Q \<Longrightarrow> frame n (if b then p else q) Q"
  by simp

lemma frame_new_list: "frame n (new_list x) (\<lambda>a. n \<le> a)"
  by (simp add: frame_def new_list_def)

lemma frame_read_floats: "frame n (read_floats a) (\<lambda>u. True)"
  by (simp add: frame_def read_floats_def split: obj.splits)

lemma frame_read_thresholds_object: "frame n (read_thresholds_object a) (\<lambda>u. True)"
  by (simp add: frame_def read_thresholds_object_def split: obj.splits)

lemma frame_read_insights: "frame n (read_insights a) (\<lambda>u. True)"
  by (simp add: frame_def read_insights_def split: obj.splits)

lemma frame_append_analysis: "n \<le> a \<Longrightarrow> frame n (append_analysis a x) (\<lambda>u. True)"
  by (simp add: frame_def append_analysis_def split: obj.splits)

lemma frame_append_insight: "n \<le> a \<Longrightarrow> frame n (append_insight a x) (\<lambda>u. True)"
  by (simp add: frame_def append_insight_def split: obj.splits)

lemma frame_append_insight_if: "n \<le> a \<Longrightarrow> frame n (append_insight_if b a x) (\<lambda>u. True)"
  by (simp add: append_insight_if_def frame_append_insight frame_returning)

lemma frame_then_do_new_list:
  "(\<And>a. n \<le> a \<Longrightarrow> frame n (f a) Q) \<Longrightarrow> frame n (then_do (new_list x) f) Q"
  using frame_new_list by (rule frame_then_do)

lemma frame_then_do_other:
  "frame n m (\<lambda>u. True) \<Longrightarrow> (\<And>x. frame n (f x) Q) \<Longrightarrow> frame n (then_do m f) Q"
  by (rule frame_then_do)

lemmas frame_steps =
  frame_then_do_other frame_if frame_returning frame_pure_step frame_read_floats
  frame_read_thresholds_object frame_read_insights frame_append_analysis
  frame_append_insight frame_append_insight_if

lemma frame_read_thresholds: "frame n (read_thresholds a) (\<lambda>u. True)"
  unfolding read_thresholds_def by ((rule frame_then_do_new_list | rule frame_steps | assumption)+)

lemma frame_calculate_components_object:
  "frame n (calculate_components_object self) (\<lambda>u. True)"
  unfolding calculate_components_object_def by ((rule frame_then_do_new_list | rule frame_steps frame_read_thresholds | assumption)+)

lemma frame_new_MealHSRResult:
  "frame n (new_MealHSRResult stars level cat score tw kj kcal) (\<lambda>u. True)"
  unfolding new_MealHSRResult_def by ((rule frame_then_do_new_list | rule frame_steps | assumption)+)

lemma frame_analyse_each:
  "n \<le> analyses \<Longrightarrow> frame n (analyse_each fmts self analyses items) (\<lambda>u. True)"
proof (induction items)
  case Nil
  then show ?case by (simp add: frame_returning)
next
  case (Cons item items)
  obtain name v unit_name attribute where item: "item = (name, v, unit_name, attribute)"
    by (cases item)
  show ?case
    unfolding item analyse_each.simps
    by ((rule frame_then_do_new_list | rule frame_steps  Cons | assumption)+)
qed

lemma frame_add_nutrient_analysis:
  "frame n (add_nutrient_analysis fmts self result) (\<lambda>u. True)"
  unfolding add_nutrient_analysis_def
  by ((rule frame_then_do_new_list | rule frame_steps  frame_analyse_each | assumption)+)

lemma frame_add_scientific_insights:
  "frame n (add_scientific_insights fmts self result) (\<lambda>u. True)"
  unfolding add_scientific_insights_def
  by ((rule frame_then_do_new_list | rule frame_steps   | assumption)+)

lemma frame_add_improvement_recommendations:
  "frame n (add_improvement_recommendations self result) (\<lambda>u. True)"
  unfolding add_improvement_recommendations_def
  by ((rule frame_then_do_new_list | rule frame_steps  | assumption)+)

lemma frame_add_transparency:
  "frame n (add_transparency fmts self result) (\<lambda>u. True)"
  unfolding add_transparency_def by ((rule frame_then_do_new_list | rule frame_steps | assumption)+)

lemma frame_calculate_hsr: "frame n (calculate_hsr fmts self) (\<lambda>u. True)"
  unfolding calculate_hsr_def Let_def
  by ((rule frame_then_do_new_list | rule frame_steps frame_calculate_components_object frame_new_MealHSRResult
        frame_add_nutrient_analysis frame_add_scientific_insights
        frame_add_improvement_recommendations frame_add_transparency | assumption)+)

lemma calculate_hsr_keeps: "take (length h) (snd (calculate_hsr fmts self h)) = h"
  using frame_calculate_hsr [of "length h" fmts self] by (simp add: frame_def)

text \<open>
  When the heap holds the thresholds object and its lists, the meal's aggregated values
  exist and the satiety index is not 0, the calculation returns a result, and the heap
  it leaves is the old one followed by thirteen new lists.
\<close>

lemma read_floats_at: "floats_at h a xs \<Longrightarrow> read_floats a h = (Inr xs, h)"
  by (simp add: floats_at_def read_floats_def)

lemma floats_at_append: "floats_at h a xs \<Longrightarrow> floats_at (h @ zs) a xs"
  by (simp add: floats_at_def nth_append)

lemma holds_thresholds_append:
  "holds_thresholds h a th \<Longrightarrow> holds_thresholds (h @ zs) a th"
  by (auto simp: holds_thresholds_def nth_append floats_at_append split: obj.splits)

lemma read_thresholds_holds:
  "holds_thresholds h a th \<Longrightarrow> read_thresholds a h = (Inr th, h)"
  by (auto simp: holds_thresholds_def read_thresholds_def read_thresholds_object_def
        then_do_def read_floats_at returning_def split: obj.splits)

lemma calculate_components_object_returns:
  assumes "holds_thresholds h (o_thresholds self) th" "aggregated (o_meal self)"
    "satiety_index (o_nutritional_context self) \<noteq> 0"
  shows "\<exists>s. calculate_components_object self h = (Inr s, h)"
proof -
  obtain s where "calculate_components (calculator_with self th) = Inr (s, calculator_with self th)"
    using calculate_components_facts [of "calculator_with self th"] assms(2,3)
    by (auto simp: calculator_with_def)
  then show ?thesis
    using read_thresholds_holds [OF assms(1)]
    by (simp add: calculate_components_object_def then_do_def pure_step_def)
qed

lemma new_MealHSRResult_returns:
  "\<exists>r. new_MealHSRResult stars level cat score tw kj kcal h =
     (Inr r, h @ [Analyses [], Insights [], Insights [], Insights [], Suggestions [],
                  Strings [], Strings []])"
  by (simp add: new_MealHSRResult_def then_do_def new_list_def returning_def)

lemma append_analysis_last:
  "append_analysis (length h) x (h @ [Analyses xs]) = (Inr (), h @ [Analyses (xs @ [x])])"
  by (simp add: append_analysis_def)

lemma append_insight_last:
  "append_insight (length h) x (h @ [Insights xs]) = (Inr (), h @ [Insights (xs @ [x])])"
  by (simp add: append_insight_def)

lemma append_insight_if_last:
  "append_insight_if b (length h) x (h @ [Insights xs]) =
     (Inr (), h @ [Insights (if b then xs @ [x] else xs)])"
  by (simp add: append_insight_if_def append_insight_last returning_def)

lemma then_do_new_list: "then_do (new_list x) f h = f (length h) (h @ [x])"
  by (simp add: then_do_def new_list_def)

lemma then_do_pure_step: "then_do (pure_step (Inr x)) f h = f x h"
  by (simp add: then_do_def pure_step_def)

lemma then_do_append_analysis:
  "then_do (append_analysis (length h) x) f (h @ [Analyses xs]) = f () (h @ [Analyses (xs @ [x])])"
  by (simp add: then_do_def append_analysis_last)

lemma analyse_each_returns:
  assumes "o_thresholds self < length h" "h ! o_thresholds self = Thresholds r"
    "\<forall>item\<in>set items. \<exists>ts. floats_at h (snd (snd (snd item)) r) ts"
  shows "\<exists>ys. analyse_each fmts self (length h) items (h @ [Analyses xs]) =
           (Inr (), h @ [Analyses ys])"
  using assms(3)
proof (induction items arbitrary: xs)
  case Nil
  then show ?case by (simp add: returning_def)
next
  case (Cons item items)
  obtain name v unit_name attribute where item: "item = (name, v, unit_name, attribute)"
    by (cases item)
  obtain ts where ts: "floats_at h (attribute r) ts"
    using Cons.prems item by auto
  have r: "read_thresholds_object (o_thresholds self) (h @ [Analyses xs]) =
             (Inr r, h @ [Analyses xs])"
    using assms(1,2) by (simp add: read_thresholds_object_def nth_append)
  have f: "read_floats (attribute r) (h @ [Analyses xs]) = (Inr ts, h @ [Analyses xs])"
    using floats_at_append [OF ts] by (rule read_floats_at)
  from Cons.prems have "\<forall>item\<in>set items. \<exists>ts. floats_at h (snd (snd (snd item)) r) ts"
    by simp
  from Cons.IH [OF this] show ?case
    unfolding item analyse_each.simps
    by (simp add: then_do_def r f append_analysis_last)
qed

lemma add_nutrient_analysis_returns:
  assumes "holds_thresholds h (o_thresholds self) th" "aggregated (o_meal self)"
  shows "\<exists>r ys. add_nutrient_analysis fmts self result h = (Inr r, h @ [Analyses ys])"
proof -
  from assms(2) obtain su e sf na p f fv where attrs:
    "sugars_total (o_meal self) = Some su"
    "energy_kilocalories (o_meal self) = Some e"
    "fatty_acids_saturated_total (o_meal self) = Some sf"
    "sodium (o_meal self) = Some na"
    "protein (o_meal self) = Some p"
    "fibre_total_dietary (o_meal self) = Some f"
    "fvnl_percent (o_meal self) = Some fv"
    by (auto simp: aggregated_def)
  from assms(1) obtain r where r: "o_thresholds self < length h"
    "h ! o_thresholds self = Thresholds r"
    "floats_at h (ref_energy_density r) (thr_energy_density th)"
    "floats_at h (ref_saturated_fat r) (thr_saturated_fat th)"
    "floats_at h (ref_sodium r) (thr_sodium th)"
    "floats_at h (ref_protein r) (thr_protein th)"
    "floats_at h (ref_fiber r) (thr_fiber th)"
    "floats_at h (ref_fvnl r) (thr_fvnl th)"
    by (auto simp: holds_thresholds_def split: obj.splits)
  define items :: "(string \<times> real \<times> string \<times> (ThresholdRefs \<Rightarrow> addr)) list"
    where "items =
                [(''Energy Density'', e, ''kcal/100g'', ref_energy_density),
                 (''Saturated Fat'', sf, ''g'', ref_saturated_fat),
                 (''Sodium'', na, ''mg'', ref_sodium),
                 (''Protein'', p, ''g'', ref_protein),
                 (''Fiber'', f, ''g'', ref_fiber),
                 (''FVNL'', fv, ''%'', ref_fvnl)]"
  have "\<forall>item\<in>set items. \<exists>ts. floats_at h (snd (snd (snd item)) r) ts"
    using r(3-8) by (auto simp: items_def)
  note run = analyse_each_returns [OF r(1,2) this]
  have rest: "\<exists>r' ys. then_do (analyse_each fmts self (length h) items)
                 (\<lambda>u. returning (result\<lparr>r_nutrient_analyses := length h\<rparr>))
                 (h @ [Analyses xs]) = (Inr r', h @ [Analyses ys])" for xs
  proof -
    obtain ys where "analyse_each fmts self (length h) items (h @ [Analyses xs]) =
           (Inr (), h @ [Analyses ys])"
      using run by blast
    then show ?thesis by (simp add: then_do_def returning_def)
  qed
  show ?thesis
    unfolding add_nutrient_analysis_def
    by (simp add: then_do_new_list then_do_pure_step then_do_append_analysis attr_def attrs
          rest [unfolded items_def] del: analyse_each.simps)
qed

lemma add_scientific_insights_returns:
  "\<exists>r ys ss cs. add_scientific_insights fmts self result h =
     (Inr r, h @ [Insights ys, Insights ss, Insights cs])"
  by (simp add: add_scientific_insights_def then_do_def new_list_def append_insight_if_last
        append_insight_last returning_def read_insights_def nth_append)

lemma add_improvement_recommendations_returns:
  "\<exists>r ys. add_improvement_recommendations self result h = (Inr r, h @ [Insights ys])"
  by (simp add: add_improvement_recommendations_def then_do_def new_list_def
        append_insight_if_last returning_def)

lemma add_transparency_returns:
  assumes "aggregated (o_meal self)"
  shows "\<exists>r ys. add_transparency fmts self result h = (Inr r, h @ [Strings ys])"
proof -
  from assms obtain p f na where
    "protein (o_meal self) = Some p" "fibre_total_dietary (o_meal self) = Some f"
    "sodium (o_meal self) = Some na"
    by (auto simp: aggregated_def)
  then show ?thesis
    by (simp add: add_transparency_def then_do_def new_list_def pure_step_def returning_def
          calculate_confidence_def calculator_with_def bind_raise_def attr_def Let_def)
qed

lemma calculate_hsr_returns:
  assumes th: "holds_thresholds h (o_thresholds self) th" and ag: "aggregated (o_meal self)"
    and sat: "satiety_index (o_nutritional_context self) \<noteq> 0"
  shows "\<exists>r zs. calculate_hsr fmts self h = (Inr r, h @ zs) \<and> length zs = 13"
proof -
  obtain s where s: "calculate_components_object self h = (Inr s, h)"
    using calculate_components_object_returns [OF th ag sat] by blast
  from ag obtain tw kj kcal where attrs:
    "total_weight (o_meal self) = Some tw" "energy_kj (o_meal self) = Some kj"
    "energy_kilocalories (o_meal self) = Some kcal"
    by (auto simp: aggregated_def)
  define stars where "stars = convert_to_star_rating (final_score s)"
  define h1 where "h1 = h @ [Analyses [], Insights [], Insights [], Insights [], Suggestions [],
                  Strings [], Strings []]"
  obtain r0 where r0:
    "new_MealHSRResult stars (determine_level stars) (category (o_meal self)) s tw kj kcal h =
       (Inr r0, h1)"
    unfolding h1_def using new_MealHSRResult_returns by blast
  have th1: "holds_thresholds h1 (o_thresholds self) th"
    unfolding h1_def using th by (rule holds_thresholds_append)
  obtain r1 ys1 where "add_nutrient_analysis fmts self r0 h1 = (Inr r1, h1 @ [Analyses ys1])"
    using add_nutrient_analysis_returns [OF th1 ag] by blast
  moreover define h2 where "h2 = h1 @ [Analyses ys1]"
  ultimately have r1: "add_nutrient_analysis fmts self r0 h1 = (Inr r1, h2)" by simp
  obtain r2 ys2 ss cs where "add_scientific_insights fmts self r1 h2 =
      (Inr r2, h2 @ [Insights ys2, Insights ss, Insights cs])"
    using add_scientific_insights_returns by blast
  moreover define h3 where "h3 = h2 @ [Insights ys2, Insights ss, Insights cs]"
  ultimately have r2: "add_scientific_insights fmts self r1 h2 = (Inr r2, h3)" by simp
  obtain r3 ys3 where "add_improvement_recommendations self r2 h3 = (Inr r3, h3 @ [Insights ys3])"
    using add_improvement_recommendations_returns by blast
  moreover define h4 where "h4 = h3 @ [Insights ys3]"
  ultimately have r3: "add_improvement_recommendations self r2 h3 = (Inr r3, h4)" by simp
  obtain r4 ys4 where r4: "add_transparency fmts self r3 h4 = (Inr r4, h4 @ [Strings ys4])"
    using add_transparency_returns [OF ag] by blast
  have "calculate_hsr fmts self h = (Inr r4, h4 @ [Strings ys4])"
    unfolding calculate_hsr_def Let_def
    by (simp add: then_do_def s stars_def [symmetric] pure_step_def attr_def attrs r0 r1 r2 r3 r4)
  then show ?thesis by (simp add: h1_def h2_def h3_def h4_def)
qed

lemma example_state:
  "holds_thresholds example_heap (o_thresholds example_object) base_thresholds"
  "aggregated (o_meal example_object)"
  "satiety_index (o_nutritional_context example_object) \<noteq> 0"
  by (simp_all add: holds_thresholds_def example_heap_def example_object_def floats_at_def
        base_thresholds_def aggregated_def example_meal_def Meal_fields_def example_context_def)

section \<open>Claims about the produced thresholds\<close>

text \<open>
  The contexts that the analyzer produces lie in the range the threshold lists need:
  the satiety index is clamped to \<open>[0.5, 1.5]\<close>, and the liquid percentage lies in
  \<open>[0, 1]\<close> when no serving size is negative.
\<close>

lemma clamp_range: "0.5 \<le> max 0.5 (min 1.5 x) \<and> max 0.5 (min 1.5 x) \<le> (1.5::real)"
  by auto

lemma calculate_satiety_index_range:
  "0.5 \<le> calculate_satiety_index p f foods_info \<and> calculate_satiety_index p f foods_info \<le> 1.5"
  unfolding calculate_satiety_index_def Let_def by (rule clamp_range)

lemma sum_list_filter_bounds:
  fixes g :: "'a \<Rightarrow> real"
  assumes "\<forall>x\<in>set xs. 0 \<le> g x"
  shows "0 \<le> (\<Sum>x\<leftarrow>filter P xs. g x) \<and> (\<Sum>x\<leftarrow>filter P xs. g x) \<le> (\<Sum>x\<leftarrow>xs. g x)"
  using assms by (induction xs) auto

lemma calculate_liquid_percentage_range:
  assumes "\<forall>food\<in>set foods_info. 0 \<le> fi_serving_size food"
  shows "0 \<le> calculate_liquid_percentage foods_info \<and> calculate_liquid_percentage foods_info \<le> 1"
proof -
  let ?P = "\<lambda>food. fi_food_form food \<in> {''liquid'', ''beverage'', ''juice''}"
  let ?l = "\<Sum>food\<leftarrow>filter ?P foods_info. fi_serving_size food"
  let ?t = "\<Sum>food\<leftarrow>foods_info. fi_serving_size food"
  have b: "0 \<le> ?l \<and> ?l \<le> ?t"
    using sum_list_filter_bounds [OF assms, of ?P] .
  show ?thesis
  proof (cases "foods_info = [] \<or> ?t = 0")
    case True
    then show ?thesis by (auto simp: calculate_liquid_percentage_def Let_def)
  next
    case False
    then have "0 < ?t" using b by simp
    then have "0 \<le> ?l / ?t \<and> ?l / ?t \<le> 1" using b by simp
    then show ?thesis using False by (simp add: calculate_liquid_percentage_def Let_def)
  qed
qed

lemma new_HSRCalculator_thresholds_sorted:
  assumes "\<forall>food\<in>set (foods m). 0 \<le> serving_size food" "aggregated m"
  shows "\<exists>self. new_HSRCalculator m cfg = Inr self \<and> all_sorted (thresholds self)"
proof -
  from assms(2) obtain e p f sf na su tw where attrs:
    "energy_kilocalories m = Some e" "protein m = Some p" "fibre_total_dietary m = Some f"
    "fatty_acids_saturated_total m = Some sf" "sodium m = Some na" "sugars_total m = Some su"
    "total_weight m = Some tw"
    by (auto simp: aggregated_def)
  define ctx where "ctx = analyze_nutritional_context p f (map food_info_of (foods m))"
  have c: "analyze_meal_context m = Inr ctx"
    using attrs by (simp add: analyze_meal_context_def bind_raise_def attr_def ctx_def)
  have "\<forall>food\<in>set (map food_info_of (foods m)). 0 \<le> fi_serving_size food"
    using assms(1) by (simp add: food_info_of_def)
  then have "liquid_percentage ctx \<le> 1"
    using calculate_liquid_percentage_range [of "map food_info_of (foods m)"]
    by (simp add: ctx_def analyze_nutritional_context_def)
  moreover have "0 \<le> satiety_index ctx"
    using calculate_satiety_index_range [of p f "map food_info_of (foods m)"]
    by (simp add: ctx_def analyze_nutritional_context_def)
  ultimately obtain th where th:
    "get_thresholds (case category m of None \<Rightarrow> FOOD | Some c \<Rightarrow> c) (Some ctx) = Inr th"
    "all_sorted th"
    using get_thresholds_sorted [of "Some ctx"] by auto
  obtain sugar where "analyze_sugar_sources m = Inr sugar"
    using attrs by (simp add: analyze_sugar_sources_def bind_raise_def attr_def Let_def)
  then show ?thesis
    using c th by (simp add: new_HSRCalculator_def bind_raise_def)
qed

text \<open>
  C10. For every category and every nutritional context whose satiety index is not
  negative and whose liquid percentage is at most 1 (and for no context at all), the
  provider returns a threshold set and each of its nine lists is non-decreasing after
  all contextual and category adjustments; every calculator built for a meal whose
  aggregated values exist and whose serving sizes are not negative has such a threshold
  set. \<open>calculate_hsr\<close> leaves every object that exists when it starts, the thresholds
  object and its lists among them, as it was: the heap it leaves begins with the heap
  it was given.
\<close>

theorem thresholds_sorted_and_unchanged:
  "((case nutritional of None \<Rightarrow> True
     | Some ctx \<Rightarrow> 0 \<le> satiety_index ctx \<and> liquid_percentage ctx \<le> 1) \<longrightarrow>
      (\<exists>th. get_thresholds c nutritional = Inr th \<and>
         sorted (thr_energy_density th) \<and> sorted (thr_sugar_natural th) \<and>
         sorted (thr_sugar_added th) \<and> sorted (thr_saturated_fat th) \<and>
         sorted (thr_sodium th) \<and> sorted (thr_fvnl th) \<and> sorted (thr_protein th) \<and>
         sorted (thr_fiber th) \<and> sorted (thr_star_rating th))) \<and>
   (list_all (\<lambda>food. 0 \<le> serving_size food) (foods m) \<and> aggregated m \<longrightarrow>
      (\<exists>calc. new_HSRCalculator m cfg = Inr calc \<and>
         sorted (thr_energy_density (thresholds calc)) \<and>
         sorted (thr_sugar_natural (thresholds calc)) \<and>
         sorted (thr_sugar_added (thresholds calc)) \<and>
         sorted (thr_saturated_fat (thresholds calc)) \<and>
         sorted (thr_sodium (thresholds calc)) \<and> sorted (thr_fvnl (thresholds calc)) \<and>
         sorted (thr_protein (thresholds calc)) \<and> sorted (thr_fiber (thresholds calc)) \<and>
         sorted (thr_star_rating (thresholds calc)))) \<and>
   take (length h) (snd (calculate_hsr fmts self h)) = h"
proof (intro conjI impI)
  assume "case nutritional of None \<Rightarrow> True
     | Some ctx \<Rightarrow> 0 \<le> satiety_index ctx \<and> liquid_percentage ctx \<le> 1"
  then show "\<exists>th. get_thresholds c nutritional = Inr th \<and>
         sorted (thr_energy_density th) \<and> sorted (thr_sugar_natural th) \<and>
         sorted (thr_sugar_added th) \<and> sorted (thr_saturated_fat th) \<and>
         sorted (thr_sodium th) \<and> sorted (thr_fvnl th) \<and> sorted (thr_protein th) \<and>
         sorted (thr_fiber th) \<and> sorted (thr_star_rating th)"
    using get_thresholds_sorted [of nutritional c] by (auto simp: all_sorted_def)
next
  assume "list_all (\<lambda>food. 0 \<le> serving_size food) (foods m) \<and> aggregated m"
  then have "\<forall>food\<in>set (foods m). 0 \<le> serving_size food" "aggregated m"
    by (simp_all add: list_all_iff)
  then show "\<exists>calc. new_HSRCalculator m cfg = Inr calc \<and>
         sorted (thr_energy_density (thresholds calc)) \<and>
         sorted (thr_sugar_natural (thresholds calc)) \<and>
         sorted (thr_sugar_added (thresholds calc)) \<and>
         sorted (thr_saturated_fat (thresholds calc)) \<and>
         sorted (thr_sodium (thresholds calc)) \<and> sorted (thr_fvnl (thresholds calc)) \<and>
         sorted (thr_protein (thresholds calc)) \<and> sorted (thr_fiber (thresholds calc)) \<and>
         sorted (thr_star_rating (thresholds calc))"
    using new_HSRCalculator_thresholds_sorted [of m cfg] by (auto simp: all_sorted_def)
next
  show "take (length h) (snd (calculate_hsr fmts self h)) = h"
    by (rule calculate_hsr_keeps)
qed

lemma rice_meal_in_range:
  "list_all (\<lambda>food. 0 \<le> serving_size food) (foods rice_meal)" "aggregated rice_meal"
  by (simp_all add: rice_meal_def calculate_nutritional_values_def Let_def Meal_fields_def
        plain_rice_def aggregated_def)

theorem thresholds_sorted_and_unchanged_witness:
  "0 \<le> satiety_index liquid_context \<and> liquid_percentage liquid_context \<le> 1 \<and>
   (\<exists>th. get_thresholds DAIRY_BEVERAGE (Some liquid_context) = Inr th \<and>
      sorted (thr_energy_density th) \<and> sorted (thr_sugar_natural th) \<and>
      sorted (thr_sugar_added th) \<and> sorted (thr_protein th) \<and> sorted (thr_fiber th)) \<and>
   list_all (\<lambda>food. 0 \<le> serving_size food) (foods rice_meal) \<and> aggregated rice_meal \<and>
   (\<exists>calc. new_HSRCalculator rice_meal default_config = Inr calc \<and>
      sorted (thr_energy_density (thresholds calc)) \<and>
      sorted (thr_sugar_natural (thresholds calc))) \<and>
   (\<exists>r zs. calculate_hsr plain_formats example_object example_heap = (Inr r, example_heap @ zs) \<and>
      length zs = 13) \<and>
   take 10 (snd (calculate_hsr plain_formats example_object example_heap)) = example_heap"
proof -
  note t = thresholds_sorted_and_unchanged
    [of "Some liquid_context" DAIRY_BEVERAGE rice_meal default_config example_heap
        plain_formats example_object]
  have "length example_heap = 10" by (simp add: example_heap_def)
  then have "take 10 (snd (calculate_hsr plain_formats example_object example_heap)) = example_heap"
    using t by simp
  moreover have "\<exists>r zs. calculate_hsr plain_formats example_object example_heap =
      (Inr r, example_heap @ zs) \<and> length zs = 13"
    using example_state by (rule calculate_hsr_returns)
  ultimately show ?thesis
    using t liquid_context_in_range rice_meal_in_range by auto
qed

text \<open>
  C10 as stated fails: the lists are not non-decreasing for every nutritional context.
  For the meal of 500 g of orange juice and -400 g of crackers the analyzer gives a
  liquid percentage of 5, so the liquid factor is \<open>1 - 5 * 0.3 = -0.5\<close>, and the
  natural-sugar list that the provider returns to the calculator is decreasing.
\<close>

theorem thresholds_sorted_counterexample:
  "map_sum id
     (\<lambda>calc. (satiety_index (nutritional_context calc),
              liquid_percentage (nutritional_context calc),
              thr_sugar_natural (thresholds calc),
              sorted (thr_sugar_natural (thresholds calc))))
     (new_HSRCalculator negative_serving_meal default_config)
   = Inr (0.7, 5, map Fin [0, -2, -4, -6, -7, -9, -11, -12, -14, -16, -17], False)"
  by code_simp

section \<open>Claims about per-food classification\<close>

text \<open>
  C5 (amended). For a food whose lower-cased name contains an oil or spread keyword as
  a whole word, classification returns \<open>OILS_AND_SPREADS\<close> unless one of the four
  rules checked before it fires: group 1 with a cheese keyword gives \<open>CHEESE\<close>, group 1
  with a dairy-beverage keyword \<open>DAIRY_BEVERAGE\<close>, group 9 with a beverage keyword
  \<open>BEVERAGE\<close>, group 14 with a dairy-beverage keyword \<open>DAIRY_BEVERAGE\<close>. In every
  food group other than 1, 9 and 14 the oil or spread keyword decides.
\<close>

theorem oil_keyword_category:
  "contains_keyword (lower name) OIL_SPREAD_KEYWORDS \<Longrightarrow>
   get_category g name =
     (if g = 1 \<and> contains_keyword (lower name) CHEESE_KEYWORDS then CHEESE
      else if g = 1 \<and> contains_keyword (lower name) DAIRY_BEVERAGE_KEYWORDS then DAIRY_BEVERAGE
      else if g = 9 \<and> contains_keyword (lower name) BEVERAGE_KEYWORDS then BEVERAGE
      else if g = 14 \<and> contains_keyword (lower name) DAIRY_BEVERAGE_KEYWORDS then DAIRY_BEVERAGE
      else OILS_AND_SPREADS) \<and>
   (g \<notin> {1, 9, 14} \<longrightarrow> get_category g name = OILS_AND_SPREADS)"
  by (simp add: get_category_def Let_def)

theorem oil_keyword_category_witness:
  "contains_keyword (lower ''Peanut butter, smooth'') OIL_SPREAD_KEYWORDS \<and>
   (12::int) \<notin> {1, 9, 14} \<and>
   get_category 12 ''Peanut butter, smooth'' = OILS_AND_SPREADS"
proof -
  have k: "contains_keyword (lower ''Peanut butter, smooth'') OIL_SPREAD_KEYWORDS"
    by code_simp
  show ?thesis
    using oil_keyword_category [OF k, of 12] k by simp
qed

text \<open>
  C5 as stated fails: "Cheese spread" in the dairy group holds the whole word
  "spread", and the cheese rule, checked first, returns \<open>CHEESE\<close>.
\<close>

theorem oil_keyword_override_counterexample:
  "contains_keyword (lower ''Cheese spread'') OIL_SPREAD_KEYWORDS \<and>
   get_category 1 ''Cheese spread'' = CHEESE"
  by code_simp

section \<open>Claims about the processing level\<close>

lemma processing_scores_food_processing_level:
  "processing_scores (fi_processing_level (food_info_of food)) = pipeline_food_score food"
  by (simp add: food_info_of_def food_processing_level_def processing_scores_def
      pipeline_food_score_def Let_def)

lemma analyze_meal_context_processing_level:
  assumes "aggregated m"
  shows "\<exists>ctx. analyze_meal_context m = Inr ctx \<and>
           processing_level ctx = determine_processing_level (map food_info_of (foods m))"
proof -
  from assms obtain e p f sf na su where
    "energy_kilocalories m = Some e" "protein m = Some p" "fibre_total_dietary m = Some f"
    "fatty_acids_saturated_total m = Some sf" "sodium m = Some na" "sugars_total m = Some su"
    by (auto simp: aggregated_def)
  then show ?thesis
    by (simp add: analyze_meal_context_def bind_raise_def attr_def analyze_nutritional_context_def)
qed

lemma average_at_least:
  assumes "0 < n"
  shows "(real_of_int s / real n \<ge> 2.5) = (5 * int n \<le> 2 * s)"
    and "(real_of_int s / real n \<ge> 1.5) = (3 * int n \<le> 2 * s)"
proof -
  have n: "0 < real n" using assms by simp
  have "(5 / 2 \<le> real_of_int s / real n) = (5 / 2 * real n \<le> real_of_int s)"
    using n by (simp add: pos_le_divide_eq)
  also have "\<dots> = (real_of_int (5 * int n) \<le> real_of_int (2 * s))" by auto
  also have "\<dots> = (5 * int n \<le> 2 * s)" by (simp only: of_int_le_iff)
  finally show "(real_of_int s / real n \<ge> 2.5) = (5 * int n \<le> 2 * s)" by simp
  have "(3 / 2 \<le> real_of_int s / real n) = (3 / 2 * real n \<le> real_of_int s)"
    using n by (simp add: pos_le_divide_eq)
  also have "\<dots> = (real_of_int (3 * int n) \<le> real_of_int (2 * s))" by auto
  also have "\<dots> = (3 * int n \<le> 2 * s)" by (simp only: of_int_le_iff)
  finally show "(real_of_int s / real n \<ge> 1.5) = (3 * int n \<le> 2 * s)" by simp
qed

lemma determine_processing_level_int:
  "determine_processing_level foods_info =
     (if foods_info = [] then ''minimally_processed''
      else if 5 * int (length foods_info)
              \<le> 2 * (\<Sum>food\<leftarrow>foods_info. processing_scores (fi_processing_level food))
        then ''ultra_processed''
      else if 3 * int (length foods_info)
              \<le> 2 * (\<Sum>food\<leftarrow>foods_info. processing_scores (fi_processing_level food))
        then ''processed''
      else ''minimally_processed'')"
proof (cases "foods_info = []")
  case True
  then show ?thesis by (simp add: determine_processing_level_def)
next
  case False
  then have "0 < length foods_info" by simp
  note avg = average_at_least [OF this]
  show ?thesis
    unfolding determine_processing_level_def Let_def avg using False by simp
qed

lemma pipeline_scores:
  "map (\<lambda>food. processing_scores (fi_processing_level food)) (map food_info_of fs) =
   map pipeline_food_score fs"
  by (simp add: processing_scores_food_processing_level)

text \<open>
  C3 (amended). The processing level in the scoring pipeline's nutritional context is
  \<open>minimally_processed\<close> for a meal without foods; otherwise it is derived from the
  average of a per-food score that is 3 when the lower-cased name contains an
  ultra-processed indicator (flavoured, flavored, artificial, enriched, fortified,
  instant, ready-to-eat, frozen meal, snack, candy, soft drink, energy drink), else 2
  when it contains a processed indicator (canned, packaged, preserved, smoked, cured,
  bread, cheese, yogurt), else 1: \<open>ultra_processed\<close> when the average is at least 2.5,
  \<open>processed\<close> when it is at least 1.5, \<open>minimally_processed\<close> below.
\<close>

theorem pipeline_processing_level:
  "aggregated m \<Longrightarrow>
   \<exists>ctx. analyze_meal_context m = Inr ctx \<and>
     processing_level ctx =
       (if foods m = [] then ''minimally_processed''
        else if 5 * int (length (foods m)) \<le> 2 * (\<Sum>food\<leftarrow>foods m. pipeline_food_score food)
          then ''ultra_processed''
        else if 3 * int (length (foods m)) \<le> 2 * (\<Sum>food\<leftarrow>foods m. pipeline_food_score food)
          then ''processed''
        else ''minimally_processed'')"
proof -
  assume "aggregated m"
  then obtain ctx where ctx: "analyze_meal_context m = Inr ctx"
    "processing_level ctx = determine_processing_level (map food_info_of (foods m))"
    using analyze_meal_context_processing_level by blast
  have "determine_processing_level (map food_info_of (foods m)) =
       (if foods m = [] then ''minimally_processed''
        else if 5 * int (length (foods m)) \<le> 2 * (\<Sum>food\<leftarrow>foods m. pipeline_food_score food)
          then ''ultra_processed''
        else if 3 * int (length (foods m)) \<le> 2 * (\<Sum>food\<leftarrow>foods m. pipeline_food_score food)
          then ''processed''
        else ''minimally_processed'')"
    unfolding determine_processing_level_int pipeline_scores by simp
  then show ?thesis using ctx by auto
qed

lemma aggregated_calculate_nutritional_values:
  "aggregated (calculate_nutritional_values validate m)"
  by (simp add: calculate_nutritional_values_def Let_def aggregated_def
      set_zero_nutritional_values_def del: not_None_eq)

theorem pipeline_processing_level_witness:
  "aggregated rice_meal \<and>
   map_sum id processing_level (analyze_meal_context rice_meal) = Inr ''minimally_processed''"
proof -
  have a: "aggregated rice_meal"
    unfolding rice_meal_def by (rule aggregated_calculate_nutritional_values)
  have f: "foods rice_meal = [plain_rice]"
    by (simp add: rice_meal_def calculate_nutritional_values_def Let_def Meal_fields_def
        set_zero_nutritional_values_def)
  have s: "pipeline_food_score plain_rice = 1" by code_simp
  obtain ctx where "analyze_meal_context rice_meal = Inr ctx"
    "processing_level ctx = ''minimally_processed''"
    using pipeline_processing_level [OF a] by (auto simp: f s)
  then show ?thesis using a by simp
qed

text \<open>
  C3 as stated fails: plain rice has none of the keywords, so the heuristic of the
  claim (the meal categorizer's) scores it 2 and calls the meal \<open>processed\<close>, while
  the scoring pipeline labels it \<open>minimally_processed\<close>.
\<close>

theorem pipeline_processing_level_counterexample:
  "map_sum id processing_level (analyze_meal_context rice_meal) = Inr ''minimally_processed'' \<and>
   assess_overall_processing_level (foods rice_meal) = ''processed''"
  by code_simp

section \<open>Claims about tie-breaking\<close>

lemma tie_breaking_winner:
  "winner (apply_tie_breaking_rules top_c conflicts fs) =
     (case energy_density_rule conflicts fs of
        Some c \<Rightarrow> OILS_AND_SPREADS
      | None \<Rightarrow>
          (case protein_fat_rule conflicts fs of
             Some c \<Rightarrow> c
           | None \<Rightarrow>
               (case liquid_rule conflicts fs of
                  Some c \<Rightarrow> c
                | None \<Rightarrow>
                    (case first_conflict (\<lambda>c. c = FOOD) conflicts of
                       Some c \<Rightarrow> FOOD
                     | None \<Rightarrow> top_c))))"
proof -
  define la where "la = (meal_liquid_percentage fs > 0.6)"
  define pb where
    "pb = (n_protein (analyze_meal_nutrition fs) \<ge> 15 \<and> n_fat_total (analyze_meal_nutrition fs) \<ge> 15)"
  define ec where
    "ec = (n_energy_kcal (analyze_meal_nutrition fs) > 500 \<and> n_fat_total (analyze_meal_nutrition fs) > 40)"
  show ?thesis
    unfolding apply_tie_breaking_rules_def liquid_rule_def protein_fat_rule_def
      energy_density_rule_def Let_def la_def [symmetric] pb_def [symmetric] ec_def [symmetric]
    by (cases la; cases pb; cases ec) (simp_all split: option.splits)
qed

text \<open>
  C4 (amended). Rules (a), (b) and (c) are evaluated one after the other and each
  matching rule overwrites the winner, so the last matching one decides. When rule (a)
  applies, the chosen category is its liquid category exactly if neither rule (b)
  nor rule (c) matches; a matching rule (c) gives \<open>OILS_AND_SPREADS\<close>, otherwise a
  matching rule (b) gives its cheese or dairy category. The \<open>FOOD\<close> default never
  replaces the choice of rule (a).
\<close>

theorem liquid_rule_winner:
  "liquid_rule conflicts fs = Some cl \<Longrightarrow>
   winner (apply_tie_breaking_rules top_c conflicts fs) =
     (case energy_density_rule conflicts fs of
        Some c \<Rightarrow> OILS_AND_SPREADS
      | None \<Rightarrow> (case protein_fat_rule conflicts fs of Some c \<Rightarrow> c | None \<Rightarrow> cl)) \<and>
   (energy_density_rule conflicts fs = None \<and> protein_fat_rule conflicts fs = None \<longrightarrow>
      winner (apply_tie_breaking_rules top_c conflicts fs) = cl)"
  by (simp add: tie_breaking_winner split: option.splits)

theorem liquid_rule_winner_witness:
  "liquid_rule dairy_conflicts dairy_meal = Some BEVERAGE \<and>
   protein_fat_rule dairy_conflicts dairy_meal = Some DAIRY_FOOD \<and>
   winner (apply_tie_breaking_rules DAIRY_BEVERAGE dairy_conflicts dairy_meal) = DAIRY_FOOD \<and>
   liquid_rule [(FOOD, 0.8, 0.05), (BEVERAGE, 0.75, 0.1)] juice_meal = Some BEVERAGE \<and>
   energy_density_rule [(FOOD, 0.8, 0.05), (BEVERAGE, 0.75, 0.1)] juice_meal = None \<and>
   protein_fat_rule [(FOOD, 0.8, 0.05), (BEVERAGE, 0.75, 0.1)] juice_meal = None \<and>
   winner (apply_tie_breaking_rules DAIRY_BEVERAGE [(FOOD, 0.8, 0.05), (BEVERAGE, 0.75, 0.1)]
             juice_meal) = BEVERAGE"
proof -
  have d: "liquid_rule dairy_conflicts dairy_meal = Some BEVERAGE"
    "protein_fat_rule dairy_conflicts dairy_meal = Some DAIRY_FOOD"
    "energy_density_rule dairy_conflicts dairy_meal = None"
    by code_simp+
  have j: "liquid_rule [(FOOD, 0.8, 0.05), (BEVERAGE, 0.75, 0.1)] juice_meal = Some BEVERAGE"
    "energy_density_rule [(FOOD, 0.8, 0.05), (BEVERAGE, 0.75, 0.1)] juice_meal = None"
    "protein_fat_rule [(FOOD, 0.8, 0.05), (BEVERAGE, 0.75, 0.1)] juice_meal = None"
    by code_simp+
  show ?thesis
    using liquid_rule_winner [OF d(1), of DAIRY_BEVERAGE]
          liquid_rule_winner [OF j(1), of DAIRY_BEVERAGE] d j
    by simp
qed

text \<open>
  C4 as stated fails: in a meal of 65 g milk and 35 g cheddar (15 g protein and 15 g
  fat per 100 g) the liquid percentage is 0.65 and \<open>BEVERAGE\<close> is among the conflicts,
  so rule (a) applies; rule (b) then overwrites the winner with \<open>DAIRY_FOOD\<close>, which
  is the category the meal gets.
\<close>

theorem liquid_rule_first_match_counterexample:
  "meal_liquid_percentage dairy_meal > 0.6 \<and>
   map_sum id (\<lambda>r. (top_category_found r, conflicts_found r, map_option winner (tie_breaker_used r)))
     (resolve_category_conflicts dairy_meal
        (evaluate_category_fitness (analyze_meal_nutrition dairy_meal)))
     = Inr (DAIRY_BEVERAGE, dairy_conflicts, Some DAIRY_FOOD) \<and>
   recommended_category dairy_meal = Inr (Some DAIRY_FOOD)"
  by code_simp

section \<open>Claims about the empty meal\<close>

text \<open>
  The sibling path: a meal whose serving sizes add up to 0 gets \<open>total_weight = 0\<close> and
  every aggregated value 0.
\<close>

lemma zero_weight_meal_values:
  assumes "(\<Sum>food\<leftarrow>foods m. serving_size food) = 0"
  shows "total_weight (calculate_nutritional_values validate m) = Some 0 \<and>
         energy_kilocalories (calculate_nutritional_values validate m) = Some 0 \<and>
         energy_kj (calculate_nutritional_values validate m) = Some 0 \<and>
         protein (calculate_nutritional_values validate m) = Some 0 \<and>
         carbohydrate_total (calculate_nutritional_values validate m) = Some 0 \<and>
         fibre_total_dietary (calculate_nutritional_values validate m) = Some 0 \<and>
         sugars_total (calculate_nutritional_values validate m) = Some 0 \<and>
         fat_total (calculate_nutritional_values validate m) = Some 0 \<and>
         fatty_acids_saturated_total (calculate_nutritional_values validate m) = Some 0 \<and>
         sodium (calculate_nutritional_values validate m) = Some 0 \<and>
         calcium (calculate_nutritional_values validate m) = Some 0 \<and>
         fvnl_percent (calculate_nutritional_values validate m) = Some 0"
  using assms
  by (simp add: calculate_nutritional_values_def Let_def set_zero_nutritional_values_def)

text \<open>
  C2, the code at \<open>Meal(foods=[])\<close>. Construction raises nothing and gives category
  \<open>FOOD\<close>, confidence 0.0 and the warning about the empty meal, but \<open>__post_init__\<close>
  returns before any aggregated value is assigned: none of the twelve attributes
  exists, and building a calculator on this meal raises AttributeError.
\<close>

theorem empty_meal_attributes_unset:
  "category (new_Meal categorise validate finalise [] cat) = Some FOOD \<and>
   category_confidence (new_Meal categorise validate finalise [] cat) = 0 \<and>
   category_warnings (new_Meal categorise validate finalise [] cat)
     = [''Empty meal - defaulting to FOOD category''] \<and>
   total_weight (new_Meal categorise validate finalise [] cat) = None \<and>
   energy_kilocalories (new_Meal categorise validate finalise [] cat) = None \<and>
   energy_kj (new_Meal categorise validate finalise [] cat) = None \<and>
   protein (new_Meal categorise validate finalise [] cat) = None \<and>
   carbohydrate_total (new_Meal categorise validate finalise [] cat) = None \<and>
   fibre_total_dietary (new_Meal categorise validate finalise [] cat) = None \<and>
   sugars_total (new_Meal categorise validate finalise [] cat) = None \<and>
   fat_total (new_Meal categorise validate finalise [] cat) = None \<and>
   fatty_acids_saturated_total (new_Meal categorise validate finalise [] cat) = None \<and>
   sodium (new_Meal categorise validate finalise [] cat) = None \<and>
   calcium (new_Meal categorise validate finalise [] cat) = None \<and>
   fvnl_percent (new_Meal categorise validate finalise [] cat) = None \<and>
   new_HSRCalculator (new_Meal categorise validate finalise [] cat) cfg = Inl AttributeError"
  by (simp add: new_Meal_def post_init_def Meal_fields_def new_HSRCalculator_def
      analyze_meal_context_def bind_raise_def attr_def)

section \<open>Claims about whole-word matching\<close>

lemma is_word_char_lower_char: "is_word_char (lower_char c) = is_word_char c"
  by (auto simp: is_word_char_def lower_char_def Let_def)

lemma length_lower [simp]: "length (lower s) = length s"
  by (simp add: lower_def)

lemma starts_with_same_length:
  "starts_with p s \<Longrightarrow> length p = length s \<Longrightarrow> p = s"
  by (induction p s rule: starts_with.induct) auto

lemma match_here_occurrence:
  assumes kw: "keyword \<noteq> []" "is_word_char (hd keyword)" "is_word_char (last keyword)"
    and m: "match_here keyword prev rest"
    and p: "prev = (if pre = [] then None else Some (last pre))"
  shows "occurs_at keyword (pre @ rest) (length pre) \<and>
         \<not> inside_longer_word keyword (pre @ rest) (length pre)"
proof -
  define k where "k = length keyword"
  have k: "0 < k" using kw(1) by (simp add: k_def)
  from m have len: "k \<le> length rest"
    and sw: "starts_with (lower keyword) (lower (take k rest))"
    and b1: "word_boundary prev (head_opt rest)"
    and b2: "word_boundary (Some (rest ! (k - 1))) (head_opt (drop k rest))"
    using kw(1) by (simp_all add: match_here_def k_def)
  have eq: "lower (take k rest) = lower keyword"
    using starts_with_same_length [OF sw] len by (simp add: k_def)
  have occ: "occurs_at keyword (pre @ rest) (length pre)"
    using len eq by (simp add: occurs_at_def k_def)
  obtain c cs where rest: "rest = c # cs" using k len by (cases rest) auto
  have "lower_char c = lower_char (hd keyword)"
  proof -
    have "lower (take k rest) ! 0 = lower keyword ! 0" by (simp only: eq)
    then show ?thesis
      using k len kw(1) rest by (simp add: lower_def hd_conv_nth k_def)
  qed
  then have "is_word_char c"
    using kw(2) is_word_char_lower_char [of c] is_word_char_lower_char [of "hd keyword"] by simp
  then have prev_nw: "\<not> (case prev of None \<Rightarrow> False | Some x \<Rightarrow> is_word_char x)"
    using b1 by (simp add: word_boundary_def head_opt_def rest)
  have first: "\<not> (0 < length pre \<and> is_word_char ((pre @ rest) ! (length pre - 1)))"
  proof
    assume a: "0 < length pre \<and> is_word_char ((pre @ rest) ! (length pre - 1))"
    then have ne: "pre \<noteq> []" by auto
    then have "(pre @ rest) ! (length pre - 1) = last pre"
      by (simp add: nth_append last_conv_nth)
    then show False using a prev_nw p ne by simp
  qed
  have "lower_char (rest ! (k - 1)) = lower_char (last keyword)"
  proof -
    have "lower (take k rest) ! (k - 1) = lower keyword ! (k - 1)" by (simp only: eq)
    then show ?thesis
      using k len kw(1) by (simp add: lower_def last_conv_nth k_def)
  qed
  then have "is_word_char (rest ! (k - 1))"
    using kw(3) is_word_char_lower_char [of "rest ! (k - 1)"]
      is_word_char_lower_char [of "last keyword"] by simp
  then have next_nw:
    "\<not> (case head_opt (drop k rest) of None \<Rightarrow> False | Some x \<Rightarrow> is_word_char x)"
    using b2 by (simp add: word_boundary_def)
  have second: "\<not> (length pre + k < length (pre @ rest) \<and>
                    is_word_char ((pre @ rest) ! (length pre + k)))"
  proof
    assume a: "length pre + k < length (pre @ rest) \<and>
               is_word_char ((pre @ rest) ! (length pre + k))"
    then have lt: "k < length rest" by simp
    then have "drop k rest = rest ! k # drop (Suc k) rest"
      by (rule Cons_nth_drop_Suc [symmetric])
    then have "head_opt (drop k rest) = Some (rest ! k)"
      by (simp add: head_opt_def)
    moreover have "(pre @ rest) ! (length pre + k) = rest ! k" by (simp add: nth_append)
    ultimately show False using a next_nw by simp
  qed
  show ?thesis
    using occ first second by (simp add: inside_longer_word_def k_def)
qed

lemma search_from_occurrence:
  assumes kw: "keyword \<noteq> []" "is_word_char (hd keyword)" "is_word_char (last keyword)"
  shows "search_from keyword prev rest \<Longrightarrow>
         prev = (if pre = [] then None else Some (last pre)) \<Longrightarrow>
         \<exists>i. i \<le> length (pre @ rest) \<and> occurs_at keyword (pre @ rest) i \<and>
             \<not> inside_longer_word keyword (pre @ rest) i"
proof (induction rest arbitrary: pre prev)
  case Nil
  then have "match_here keyword prev []" by simp
  then show ?case using kw(1) by (simp add: match_here_def)
next
  case (Cons c cs)
  show ?case
  proof (cases "match_here keyword prev (c # cs)")
    case True
    from match_here_occurrence [OF kw True Cons.prems(2)]
    have "occurs_at keyword (pre @ c # cs) (length pre) \<and>
          \<not> inside_longer_word keyword (pre @ c # cs) (length pre)" .
    moreover have "length pre \<le> length (pre @ c # cs)" by simp
    ultimately show ?thesis by blast
  next
    case False
    then have s: "search_from keyword (Some c) cs" using Cons.prems(1) by simp
    have "Some c = (if pre @ [c] = [] then None else Some (last (pre @ [c])))" by simp
    from Cons.IH [OF s this] show ?thesis by simp
  qed
qed

lemma re_search_word_occurrence:
  assumes "keyword \<noteq> []" "is_word_char (hd keyword)" "is_word_char (last keyword)"
    and "re_search_word keyword text"
  shows "\<exists>i. i \<le> length text \<and> occurs_at keyword text i \<and> \<not> inside_longer_word keyword text i"
  using search_from_occurrence [OF assms(1-3), of None "text" "[]"] assms(4)
  by (simp add: re_search_word_def)

lemma contains_keyword_whole_word:
  assumes "\<forall>keyword\<in>set keywords.
             keyword \<noteq> [] \<and> is_word_char (hd keyword) \<and> is_word_char (last keyword)"
    and "contains_keyword text keywords"
  shows "\<exists>keyword\<in>set keywords. \<exists>i\<le>length text.
           occurs_at keyword text i \<and> \<not> inside_longer_word keyword text i"
proof -
  from assms(2) obtain keyword where k: "keyword \<in> set keywords" "re_search_word keyword text"
    by (auto simp: contains_keyword_def list_ex_iff)
  then have "keyword \<noteq> []" "is_word_char (hd keyword)" "is_word_char (last keyword)"
    using assms(1) by auto
  from re_search_word_occurrence [OF this k(2)] k(1) show ?thesis by blast
qed

lemma only_inside_longer_words_no_match:
  assumes "\<forall>keyword\<in>set keywords.
             keyword \<noteq> [] \<and> is_word_char (hd keyword) \<and> is_word_char (last keyword)"
    and "only_inside_longer_words keywords text"
  shows "\<not> contains_keyword text keywords"
proof
  assume "contains_keyword text keywords"
  from contains_keyword_whole_word [OF assms(1) this]
  obtain keyword i where "keyword \<in> set keywords" "i \<le> length text"
    "occurs_at keyword text i" "\<not> inside_longer_word keyword text i" by blast
  moreover have "i \<in> set [0..<Suc (length text)]" using \<open>i \<le> length text\<close> by auto
  ultimately show False
    using assms(2) by (auto simp: only_inside_longer_words_def list_all_iff)
qed

lemma oil_spread_keywords_are_words:
  "\<forall>keyword\<in>set OIL_SPREAD_KEYWORDS.
     keyword \<noteq> [] \<and> is_word_char (hd keyword) \<and> is_word_char (last keyword)"
  by (simp add: OIL_SPREAD_KEYWORDS_def is_word_char_def)

text \<open>
  C9. Keyword matching is by whole words: when every occurrence of every oil or spread
  keyword in the lower-cased name lies inside a longer word (as "oil" does in
  "boiled"), a food outside food group 4 is not classified \<open>OILS_AND_SPREADS\<close>.
\<close>

theorem no_oil_category_from_substring:
  "g \<noteq> 4 \<Longrightarrow> only_inside_longer_words OIL_SPREAD_KEYWORDS (lower name) \<Longrightarrow>
   get_category g name \<noteq> OILS_AND_SPREADS"
proof -
  assume g: "g \<noteq> 4" and o: "only_inside_longer_words OIL_SPREAD_KEYWORDS (lower name)"
  have "\<not> contains_keyword (lower name) OIL_SPREAD_KEYWORDS"
    using only_inside_longer_words_no_match [OF oil_spread_keywords_are_words o] .
  then show ?thesis
    using g by (simp add: get_category_def Let_def FOOD_GROUP_MAPPINGS_def)
qed

theorem no_oil_category_from_substring_witness:
  "(20::int) \<noteq> 4 \<and> py_in ''oil'' (lower ''Rice, boiled'') \<and>
   only_inside_longer_words OIL_SPREAD_KEYWORDS (lower ''Rice, boiled'') \<and>
   get_category 20 ''Rice, boiled'' \<noteq> OILS_AND_SPREADS"
proof -
  have g: "(20::int) \<noteq> 4" by simp
  have s: "py_in ''oil'' (lower ''Rice, boiled'')" by code_simp
  have o: "only_inside_longer_words OIL_SPREAD_KEYWORDS (lower ''Rice, boiled'')" by code_simp
  show ?thesis
    using no_oil_category_from_substring [OF g o] s o by simp
qed
end
